theory Spec2Isabelle
  imports Main "HOL-Library.Word" "HOL-Library.Signed_Division"
begin

unbundle bit_operations_syntax

section \<open>Error codes and the constants of the headers\<close>

text \<open>
  The error utilities of \<^verbatim>\<open>src/mpi/errhan/errutil.c\<close>. A C \<^verbatim>\<open>int\<close> is a 32-bit
  word; comparisons written on \<^verbatim>\<open>int\<close> in the source are signed (\<open><s\<close>, \<open>\<le>s\<close>), those
  written on \<^verbatim>\<open>unsigned int\<close> are unsigned.
\<close>

type_synonym cint = "32 word"
type_synonym cuint = "32 word"

text \<open>
  The masks, shifts and class numbers come from \<^verbatim>\<open>mpir_errcodes.h\<close> and \<^verbatim>\<open>mpi.h\<close>,
  which are not part of the source tree at hand. They are parameters of every function
  below.
\<close>

record errcodes =
  ERROR_CLASS_MASK :: cint
  ERROR_DYN_MASK :: cint
  ERROR_FATAL_MASK :: cint
  ERROR_GENERIC_MASK :: cint
  ERROR_GENERIC_SHIFT :: nat
  ERROR_SPECIFIC_INDEX_MASK :: cint
  ERROR_SPECIFIC_INDEX_SIZE :: cint
  ERROR_SPECIFIC_INDEX_SHIFT :: nat
  ERROR_SPECIFIC_SEQ_MASK :: cint
  ERROR_SPECIFIC_SEQ_SIZE :: cint
  ERROR_SPECIFIC_SEQ_SHIFT :: nat
  MPI_ERR_UNKNOWN :: cint
  MPI_ERR_OTHER :: cint
  MPI_ERR_INTERN :: cint
  MPI_ERR_IN_STATUS :: cint
  MPICH_ERR_LAST_CLASS :: cint
  MPICH_ERR_FIRST_MPIX :: cint
  MPICH_ERR_LAST_MPIX :: cint

text \<open>Modelled from the spec: the value of \<^verbatim>\<open>MPI_SUCCESS\<close> (\<^verbatim>\<open>mpi.h\<close>); the spec's
  data model fixes the success code as \<open>0\<close>.\<close>

definition MPI_SUCCESS :: cint where
  "MPI_SUCCESS = 0"

definition MAX_ERROR_RING :: "errcodes \<Rightarrow> cint" where
  "MAX_ERROR_RING cfg = ERROR_SPECIFIC_INDEX_SIZE cfg"

definition ERROR_GET_CLASS :: "errcodes \<Rightarrow> cint \<Rightarrow> cint" where
  "ERROR_GET_CLASS cfg mpi_errno = mpi_errno AND ERROR_CLASS_MASK cfg"

definition is_valid_error_class :: "errcodes \<Rightarrow> cint \<Rightarrow> bool" where
  "is_valid_error_class cfg errcode \<longleftrightarrow>
     (0 \<le>s errcode \<and> errcode \<le>s MPICH_ERR_LAST_CLASS cfg) \<or>
     (MPICH_ERR_FIRST_MPIX cfg <s errcode \<and> errcode \<le>s MPICH_ERR_LAST_MPIX cfg)"

text \<open>
  A layout with the field order of the header comment of the file (class, fatal flag,
  generic index, ring index, sequence number, dynamic flag), used to run the functions
  on concrete inputs.
\<close>

definition mpich_layout :: errcodes where
  "mpich_layout = \<lparr>
     ERROR_CLASS_MASK = 0x0000007F,
     ERROR_DYN_MASK = 0x40000000,
     ERROR_FATAL_MASK = 0x00000080,
     ERROR_GENERIC_MASK = 0x0007FF00,
     ERROR_GENERIC_SHIFT = 8,
     ERROR_SPECIFIC_INDEX_MASK = 0x03F80000,
     ERROR_SPECIFIC_INDEX_SIZE = 128,
     ERROR_SPECIFIC_INDEX_SHIFT = 19,
     ERROR_SPECIFIC_SEQ_MASK = 0x3C000000,
     ERROR_SPECIFIC_SEQ_SIZE = 16,
     ERROR_SPECIFIC_SEQ_SHIFT = 26,
     MPI_ERR_UNKNOWN = 13,
     MPI_ERR_OTHER = 15,
     MPI_ERR_INTERN = 16,
     MPI_ERR_IN_STATUS = 17,
     MPICH_ERR_LAST_CLASS = 74,
     MPICH_ERR_FIRST_MPIX = 100,
     MPICH_ERR_LAST_MPIX = 104 \<rparr>"

section \<open>Printing numbers\<close>

definition NL :: char where
  "NL = CHR 0x0A"

definition NUL :: char where
  "NUL = CHR 0x00"

definition digit_char :: "nat \<Rightarrow> char" where
  "digit_char n = ''0123456789abcdef'' ! n"

fun dec_nat :: "nat \<Rightarrow> string" where
  "dec_nat n = (if n < 10 then [digit_char n] else dec_nat (n div 10) @ [digit_char (n mod 10)])"

fun hex_nat :: "nat \<Rightarrow> string" where
  "hex_nat n = (if n < 16 then [digit_char n] else hex_nat (n div 16) @ [digit_char (n mod 16)])"

declare dec_nat.simps [simp del] hex_nat.simps [simp del]

text \<open>\<^verbatim>\<open>%d\<close> of a C \<^verbatim>\<open>int\<close> and \<^verbatim>\<open>%x\<close> of the same bits read as unsigned.\<close>

definition fmt_d :: "cint \<Rightarrow> string" where
  "fmt_d d = (if d <s 0 then CHR ''-'' # dec_nat (nat (- sint d)) else dec_nat (nat (sint d)))"

definition fmt_x :: "cint \<Rightarrow> string" where
  "fmt_x d = hex_nat (unat d)"

section \<open>The error ring and the process state\<close>

record MPIR_Err_msg =
  entry_id :: cint
  prev_error :: cint
  use_user_error_code :: cint
  user_error_code :: cint
  location :: string
  msg :: string

text \<open>
  The static variables of the file: the ring, its write cursor and its high-water mark.
  \<open>errlog\<close> collects what \<^verbatim>\<open>MPL_error_printf\<close> was given, oldest first. The array is a
  total function of the index; every index the code uses is checked against
  \<^verbatim>\<open>MAX_ERROR_RING\<close> first.
\<close>

record errstate =
  ErrorRing :: "nat \<Rightarrow> MPIR_Err_msg"
  error_ring_loc :: cuint
  max_error_ring_loc :: cuint
  errlog :: "string list"

definition MPL_error_printf :: "string \<Rightarrow> errstate \<Rightarrow> errstate" where
  "MPL_error_printf text st = st\<lparr>errlog := errlog st @ [text]\<rparr>"

datatype MPIR_Lang = MPIR_LANG__C | MPIR_LANG__X | MPIR_LANG__unsupported

text \<open>The four built-in handler handles are constants of \<^verbatim>\<open>mpi.h\<close>.\<close>

record errhandles =
  MPI_ERRORS_ARE_FATAL :: cint
  MPI_ERRORS_RETURN :: cint
  MPIR_ERRORS_THROW_EXCEPTIONS :: cint
  MPI_ERRORS_ABORT :: cint

record MPIR_Errhandler =
  eh_handle :: cint
  language :: MPIR_Lang
  errfn :: nat
  extra_state :: nat

record MPIR_Comm =
  comm_handle :: cint
  comm_errhandler :: "MPIR_Errhandler option"

datatype mpich_state_t = MPICH_MPI_STATE__UNINITIALIZED | MPICH_MPI_STATE__INITIALIZED

record MPIR_Process_t =
  mpich_state :: mpich_state_t
  comm_self :: "MPIR_Comm option"
  comm_world :: "MPIR_Comm option"
  errcode_to_string :: "(cint \<Rightarrow> string) option"

datatype MPIR_kind = MPIR_COMM | MPIR_WIN | MPIR_FILE | MPIR_SESSION

text \<open>
  A call of a user's handler: the callback, the handle and the error code it is given,
  and for the extended convention the extra state.
\<close>

datatype handler_call =
  C_Handler_call nat MPIR_kind cint cint
| X_Handler_call nat MPIR_kind cint cint nat

text \<open>
  What a dispatch routine does: it returns a code (after the listed handler calls), or it
  enters \<^verbatim>\<open>MPIR_Handle_fatal_error\<close> with a communicator, a routine name and a code, which
  hands over to \<^verbatim>\<open>MPID_Abort\<close> and does not come back, or an assertion fails.
\<close>

datatype outcome =
  Returns cint "handler_call list"
| Fatal_error "MPIR_Comm option" string cint
| Assert_failed

section \<open>Classification and repair of a code\<close>

definition MPIR_Errutil_is_initialized :: "MPIR_Process_t \<Rightarrow> bool" where
  "MPIR_Errutil_is_initialized proc \<longleftrightarrow> mpich_state proc \<noteq> MPICH_MPI_STATE__UNINITIALIZED"

definition MPIR_Err_is_fatal :: "errcodes \<Rightarrow> cint \<Rightarrow> bool" where
  "MPIR_Err_is_fatal cfg errcode =
     (if errcode AND ERROR_DYN_MASK cfg \<noteq> 0 then False
      else (if errcode AND ERROR_FATAL_MASK cfg \<noteq> 0 then True else False))"

definition invalid_class_msg :: "bool \<Rightarrow> cint \<Rightarrow> string \<Rightarrow> string" where
  "invalid_class_msg has_stack error_class fcname =
     ''INTERNAL ERROR: Invalid error class ('' @ fmt_d error_class @
     '') encountered while returning from'' @ [NL] @ fcname @
     (if has_stack then ''.  Please file a bug report.''
      else ''.  Please file a bug report.  No error stack is available.'') @ [NL]"

text \<open>\<^verbatim>\<open>checkValidErrcode\<close> returns \<open>rc\<close> and stores the code through its pointer
  argument: the model returns both, and the state with the diagnostics.\<close>

definition checkValidErrcode :: "errcodes \<Rightarrow> cint \<Rightarrow> string \<Rightarrow> cint \<Rightarrow> errstate \<Rightarrow> cint \<times> cint \<times> errstate" where
  "checkValidErrcode cfg error_class fcname errcode st =
     (if MPICH_ERR_LAST_MPIX cfg <s error_class then
        (1, (errcode AND NOT (ERROR_CLASS_MASK cfg)) OR MPI_ERR_UNKNOWN cfg,
         MPL_error_printf
           (invalid_class_msg (errcode AND NOT (ERROR_CLASS_MASK cfg) \<noteq> 0) error_class fcname) st)
      else (0, errcode, st))"

section \<open>Decoding a code into ring indices\<close>

definition ring_idx_of :: "errcodes \<Rightarrow> cint \<Rightarrow> cint" where
  "ring_idx_of cfg errcode =
     signed_drop_bit (ERROR_SPECIFIC_INDEX_SHIFT cfg) (errcode AND ERROR_SPECIFIC_INDEX_MASK cfg)"

definition ring_id_of :: "errcodes \<Rightarrow> cint \<Rightarrow> cint" where
  "ring_id_of cfg errcode =
     errcode AND (ERROR_CLASS_MASK cfg OR ERROR_GENERIC_MASK cfg OR ERROR_SPECIFIC_SEQ_MASK cfg)"

definition generic_idx_of :: "errcodes \<Rightarrow> cint \<Rightarrow> cint" where
  "generic_idx_of cfg errcode =
     signed_drop_bit (ERROR_GENERIC_SHIFT cfg) (errcode AND ERROR_GENERIC_MASK cfg) - 1"

text \<open>The three output parameters are \<open>ring_idx_of\<close>, \<open>ring_id_of\<close> and \<open>generic_idx_of\<close>;
  the return value is non-zero when the ring index is out of range.\<close>

definition convertErrcodeToIndexes :: "errcodes \<Rightarrow> errstate \<Rightarrow> cint \<Rightarrow> cint" where
  "convertErrcodeToIndexes cfg st errcode =
     (if ring_idx_of cfg errcode <s 0 \<or> MAX_ERROR_RING cfg \<le>s ring_idx_of cfg errcode \<or>
         max_error_ring_loc st < ring_idx_of cfg errcode
      then 1 else 0)"

definition ring_entry :: "errcodes \<Rightarrow> errstate \<Rightarrow> cint \<Rightarrow> MPIR_Err_msg" where
  "ring_entry cfg st errcode = ErrorRing st (unat (ring_idx_of cfg errcode))"

definition invalid_code_msg :: "errcodes \<Rightarrow> cint \<Rightarrow> cint \<Rightarrow> string" where
  "invalid_code_msg cfg errcode ring_idx =
     ''Invalid error code ('' @ fmt_d errcode @ '') (error ring index '' @ fmt_d ring_idx @
     '' invalid)'' @ [NL]"

definition checkForUserErrcode :: "errcodes \<Rightarrow> cint \<Rightarrow> errstate \<Rightarrow> cint \<times> errstate" where
  "checkForUserErrcode cfg errcode st =
     (if errcode \<noteq> MPI_SUCCESS then
        (if convertErrcodeToIndexes cfg st errcode \<noteq> 0 then
           (errcode, MPL_error_printf (invalid_code_msg cfg errcode (ring_idx_of cfg errcode)) st)
         else if 0 \<le>s generic_idx_of cfg errcode \<and>
                 entry_id (ring_entry cfg st errcode) = ring_id_of cfg errcode \<and>
                 use_user_error_code (ring_entry cfg st errcode) \<noteq> 0
         then (user_error_code (ring_entry cfg st errcode), st)
         else (errcode, st))
      else (errcode, st))"

section \<open>Calling a handler and reporting on a communicator\<close>

text \<open>The build without \<^verbatim>\<open>BUILD_MPI_ABI\<close>. A user's callback gets the code, but the
  routine returns \<open>mpi_errno\<close>, which it leaves at \<^verbatim>\<open>MPI_SUCCESS\<close> on that path.\<close>

definition MPIR_call_errhandler :: "errhandles \<Rightarrow> MPIR_Errhandler \<Rightarrow> cint \<Rightarrow> MPIR_kind \<Rightarrow> cint \<Rightarrow> outcome" where
  "MPIR_call_errhandler hs errhandler errorcode kind handle =
     (if eh_handle errhandler = MPI_ERRORS_RETURN hs \<or>
         eh_handle errhandler = MPIR_ERRORS_THROW_EXCEPTIONS hs
      then Returns errorcode []
      else (case language errhandler of
              MPIR_LANG__C \<Rightarrow>
                Returns MPI_SUCCESS [C_Handler_call (errfn errhandler) kind handle errorcode]
            | MPIR_LANG__X \<Rightarrow>
                Returns MPI_SUCCESS
                  [X_Handler_call (errfn errhandler) kind handle errorcode (extra_state errhandler)]
            | MPIR_LANG__unsupported \<Rightarrow> Assert_failed))"

definition MPIR_Handle_fatal_error :: "MPIR_Comm option \<Rightarrow> string \<Rightarrow> cint \<Rightarrow> outcome" where
  "MPIR_Handle_fatal_error comm_ptr fcname errcode = Fatal_error comm_ptr fcname errcode"

text \<open>The communicator the default handler is taken from, when the given one has none:
  \<^verbatim>\<open>MPI_COMM_SELF\<close> if it has a handler, else \<^verbatim>\<open>MPI_COMM_WORLD\<close> if it has one, else the
  pointer stays as it was.\<close>

definition default_comm :: "MPIR_Process_t \<Rightarrow> MPIR_Comm option \<Rightarrow> MPIR_Comm option" where
  "default_comm proc comm_ptr =
     (if comm_self proc \<noteq> None \<and> comm_errhandler (the (comm_self proc)) \<noteq> None
      then comm_self proc
      else if comm_world proc \<noteq> None \<and> comm_errhandler (the (comm_world proc)) \<noteq> None
      then comm_world proc
      else comm_ptr)"

definition MPIR_Err_return_comm :: "errcodes \<Rightarrow> errhandles \<Rightarrow> MPIR_Process_t \<Rightarrow> MPIR_Comm option \<Rightarrow> string \<Rightarrow> cint \<Rightarrow> errstate \<Rightarrow> outcome \<times> errstate" where
  "MPIR_Err_return_comm cfg hs proc comm_ptr0 fcname errcode0 st0 =
     (let error_class = ERROR_GET_CLASS cfg errcode0;
          (rc, errcode, st) = checkValidErrcode cfg error_class fcname errcode0 st0
      in if \<not> MPIR_Errutil_is_initialized proc
         then (MPIR_Handle_fatal_error (comm_self proc) fcname errcode, st)
         else
           let errhandler0 = (case comm_ptr0 of None \<Rightarrow> None | Some c \<Rightarrow> comm_errhandler c);
               comm_ptr = (if errhandler0 = None then default_comm proc comm_ptr0 else comm_ptr0)
           in if MPIR_Err_is_fatal cfg errcode \<or> comm_ptr = None
              then (MPIR_Handle_fatal_error comm_ptr fcname errcode, st)
              else
                (case comm_errhandler (the comm_ptr) of
                   None \<Rightarrow> (MPIR_Handle_fatal_error comm_ptr fcname errcode, st)
                 | Some errhandler \<Rightarrow>
                     if eh_handle errhandler = MPI_ERRORS_ARE_FATAL hs \<or>
                        eh_handle errhandler = MPI_ERRORS_ABORT hs
                     then (MPIR_Handle_fatal_error comm_ptr fcname errcode, st)
                     else
                       let (errcode', st') = checkForUserErrcode cfg errcode st
                       in (MPIR_call_errhandler hs errhandler errcode' MPIR_COMM
                             (comm_handle (the comm_ptr)), st')))"

section \<open>Combining two codes\<close>

definition link_ok :: "errcodes \<Rightarrow> errstate \<Rightarrow> cint \<Rightarrow> bool" where
  "link_ok cfg st error_code \<longleftrightarrow>
     \<not> (convertErrcodeToIndexes cfg st error_code \<noteq> 0 \<or> generic_idx_of cfg error_code <s 0 \<or>
        entry_id (ring_entry cfg st error_code) \<noteq> ring_id_of cfg error_code)"

definition set_prev_error :: "nat \<Rightarrow> cint \<Rightarrow> errstate \<Rightarrow> errstate" where
  "set_prev_error i v st = st\<lparr>ErrorRing := (ErrorRing st)(i := (ErrorRing st i)\<lparr>prev_error := v\<rparr>)\<rparr>"

text \<open>
  The \<^verbatim>\<open>for (;;)\<close> loop of \<^verbatim>\<open>CombineSpecificCodes\<close>. The loop has no bound of its own: on
  a ring whose links form a cycle it need not end, which is the value \<open>None\<close>.
\<close>

partial_function (option) CombineSpecificCodes_loop :: "errcodes \<Rightarrow> cint \<Rightarrow> cint \<Rightarrow> cint \<Rightarrow> errstate \<Rightarrow> errstate option" where
  "CombineSpecificCodes_loop cfg error2_code error2_class error_code st =
     (if \<not> link_ok cfg st error_code then Some st
      else if prev_error (ring_entry cfg st error_code) = MPI_SUCCESS
      then Some (set_prev_error (unat (ring_idx_of cfg error_code)) error2_code st)
      else CombineSpecificCodes_loop cfg error2_code error2_class
             (prev_error (ring_entry cfg st error_code))
             (if ERROR_GET_CLASS cfg (prev_error (ring_entry cfg st error_code)) = MPI_ERR_OTHER cfg
              then set_prev_error (unat (ring_idx_of cfg error_code))
                     ((prev_error (ring_entry cfg st error_code) AND NOT (ERROR_CLASS_MASK cfg))
                        OR error2_class) st
              else st))"

declare CombineSpecificCodes_loop.simps [code]

definition CombineSpecificCodes :: "errcodes \<Rightarrow> cint \<Rightarrow> cint \<Rightarrow> cint \<Rightarrow> errstate \<Rightarrow> errstate option" where
  "CombineSpecificCodes cfg error1_code error2_code error2_class st =
     CombineSpecificCodes_loop cfg error2_code error2_class error1_code st"

definition combine_class :: "errcodes \<Rightarrow> cint \<Rightarrow> cint" where
  "combine_class cfg error2_code =
     (if ERROR_GET_CLASS cfg error2_code <s MPI_SUCCESS \<or>
         MPICH_ERR_LAST_MPIX cfg <s ERROR_GET_CLASS cfg error2_code
      then MPI_ERR_OTHER cfg else ERROR_GET_CLASS cfg error2_code)"

definition MPIR_Err_combine_codes :: "errcodes \<Rightarrow> cint \<Rightarrow> cint \<Rightarrow> errstate \<Rightarrow> (cint \<times> errstate) option" where
  "MPIR_Err_combine_codes cfg error1 error2 st =
     (if error1 = MPI_SUCCESS then Some (error2, st)
      else if error2 = MPI_SUCCESS then Some (error1, st)
      else if error1 AND ERROR_DYN_MASK cfg \<noteq> 0 then Some (error1, st)
      else if error2 AND ERROR_DYN_MASK cfg \<noteq> 0 then Some (error2, st)
      else
        (case CombineSpecificCodes cfg error1 error2 (combine_class cfg error2) st of
           None \<Rightarrow> None
         | Some st' \<Rightarrow>
             Some (if ERROR_GET_CLASS cfg error1 = MPI_ERR_OTHER cfg
                   then (error1 AND NOT (ERROR_CLASS_MASK cfg)) OR combine_class cfg error2
                   else error1, st')))"

section \<open>C strings and destination buffers\<close>

text \<open>
  A destination buffer is the list of the bytes of the object a pointer points into; a
  pointer into it is an offset. A read or write outside the object is undefined in C:
  here it is the fault \<open>Out_of_bounds\<close>. Reading a variable argument of another type
  than the one passed is the fault \<open>Bad_va_arg\<close>.
\<close>

datatype fault = Out_of_bounds | Bad_va_arg

type_synonym mem = "char list"

definition c_strlen :: "mem \<Rightarrow> nat \<Rightarrow> fault + nat" where
  "c_strlen m p =
     (if NUL \<in> set (drop p m) then Inr (length (takeWhile (\<lambda>c. c \<noteq> NUL) (drop p m)))
      else Inl Out_of_bounds)"

definition poke :: "mem \<Rightarrow> nat \<Rightarrow> string \<Rightarrow> fault + mem" where
  "poke m p bs =
     (if p + length bs \<le> length m then Inr (take p m @ bs @ drop (p + length bs) m)
      else Inl Out_of_bounds)"

text \<open>The string a buffer holds from an offset on: the bytes before the first NUL.\<close>

definition cstr :: "mem \<Rightarrow> nat \<Rightarrow> string" where
  "cstr m p = takeWhile (\<lambda>c. c \<noteq> NUL) (drop p m)"

text \<open>\<^verbatim>\<open>snprintf(str, n, ...)\<close> of the C library, given the text the format and the arguments
  produce: at most \<open>n - 1\<close> characters and a NUL; nothing when \<open>n\<close> is 0.\<close>

definition c_snprintf :: "mem \<Rightarrow> nat \<Rightarrow> nat \<Rightarrow> string \<Rightarrow> fault + mem" where
  "c_snprintf m str n text = (if n = 0 then Inr m else poke m str (take (n - 1) text @ [NUL]))"

text \<open>Modelled from the spec: \<^verbatim>\<open>MPL_strncpy\<close> of \<^verbatim>\<open>src/mpl\<close>, which is not in the source tree
  at hand. The spec has every bounded copy end in a NUL within its bound, also when it
  truncates; the callers in this file test the result for truncation (non-zero).\<close>

definition MPL_strncpy :: "mem \<Rightarrow> nat \<Rightarrow> string \<Rightarrow> nat \<Rightarrow> fault + (mem \<times> cint)" where
  "MPL_strncpy m dest src n =
     (if n = 0 then Inr (m, 0)
      else if length src < n
      then (case poke m dest (src @ [NUL]) of Inl f \<Rightarrow> Inl f | Inr m' \<Rightarrow> Inr (m', 0))
      else (case poke m dest (take (n - 1) src @ [NUL]) of Inl f \<Rightarrow> Inl f | Inr m' \<Rightarrow> Inr (m', 1)))"

text \<open>Subtraction on \<^verbatim>\<open>size_t\<close> (64 bits) wraps around.\<close>

definition size_sub :: "nat \<Rightarrow> nat \<Rightarrow> nat" where
  "size_sub a b = (if b \<le> a then a - b else a + 2 ^ 64 - b)"

fun c_strcmp :: "string \<Rightarrow> string \<Rightarrow> int" where
  "c_strcmp [] [] = 0"
| "c_strcmp [] (y # ys) = - 1"
| "c_strcmp (x # xs) [] = 1"
| "c_strcmp (x # xs) (y # ys) =
     (if x = y then c_strcmp xs ys
      else if (of_char x :: nat) < of_char y then - 1 else 1)"

section \<open>Formatting the arguments of a message\<close>

definition fmt_lld :: "64 word \<Rightarrow> string" where
  "fmt_lld d = (if d <s 0 then CHR ''-'' # dec_nat (nat (- sint d)) else dec_nat (nat (sint d)))"

definition fmt_llx :: "64 word \<Rightarrow> string" where
  "fmt_llx d = hex_nat (unat d)"

definition fmt_08x :: "cint \<Rightarrow> string" where
  "fmt_08x d = replicate (8 - length (hex_nat (unat d))) CHR ''0'' @ hex_nat (unat d)"

text \<open>The values of \<^verbatim>\<open>mpi.h\<close> the renderer compares with, and what the C library prints
  for \<^verbatim>\<open>%p\<close>. Handles are \<^verbatim>\<open>int\<close>s; \<^verbatim>\<open>MPI_File\<close> and \<^verbatim>\<open>MPI_IN_PLACE\<close> are pointers.\<close>

record mpi_values =
  MPI_ANY_SOURCE :: cint
  MPI_PROC_NULL :: cint
  MPI_ROOT :: cint
  MPI_ANY_TAG :: cint
  MPI_IN_PLACE :: "64 word"
  MPI_COMM_WORLD :: cint
  MPI_COMM_SELF :: cint
  MPI_COMM_NULL :: cint
  MPI_INFO_NULL :: cint
  MPI_WIN_NULL :: cint
  MPI_GROUP_NULL :: cint
  MPI_REQUEST_NULL :: cint
  MPI_ERRHANDLER_NULL :: cint
  MPI_SESSION_NULL :: cint
  HAVE_ROMIO :: bool
  MPI_FILE_NULL :: "64 word"
  libc_fmt_p :: "64 word \<Rightarrow> string"

record mpi_ops =
  MPI_OP_NULL :: cint
  MPI_MAX :: cint
  MPI_MIN :: cint
  MPI_SUM :: cint
  MPI_PROD :: cint
  MPI_LAND :: cint
  MPI_BAND :: cint
  MPI_LOR :: cint
  MPI_BOR :: cint
  MPI_LXOR :: cint
  MPI_BXOR :: cint
  MPI_MINLOC :: cint
  MPI_MAXLOC :: cint
  MPI_REPLACE :: cint
  MPI_NO_OP :: cint
  MPIX_EQUAL :: cint

record mpi_keyvals =
  MPI_KEYVAL_INVALID :: cint
  MPI_TAG_UB :: cint
  MPI_HOST :: cint
  MPI_IO :: cint
  MPI_WTIME_IS_GLOBAL :: cint
  MPI_UNIVERSE_SIZE :: cint
  MPI_LASTUSEDCODE :: cint
  MPI_APPNUM :: cint
  MPI_WIN_BASE :: cint
  MPI_WIN_SIZE :: cint
  MPI_WIN_DISP_UNIT :: cint
  MPI_WIN_CREATE_FLAVOR :: cint
  MPI_WIN_MODEL :: cint

record mpi_modes =
  MPI_MODE_NOSTORE :: cint
  MPI_MODE_NOCHECK :: cint
  MPI_MODE_NOPUT :: cint
  MPI_MODE_NOPRECEDE :: cint
  MPI_MODE_NOSUCCEED :: cint

text \<open>The datatype handles: the handle macros and the routines of the datatype code
  that \<^verbatim>\<open>GetDTypeString\<close> calls.\<close>

record dtype_env =
  HANDLE_GET_MPI_KIND :: "cint \<Rightarrow> cint"
  HANDLE_GET_KIND :: "cint \<Rightarrow> cint"
  MPIR_DATATYPE :: cint
  HANDLE_KIND_INVALID :: cint
  MPI_DATATYPE_NULL :: cint
  MPIR_Type_get_combiner :: "cint \<Rightarrow> cint"
  MPI_COMBINER_NAMED :: cint
  MPIR_DATATYPE_GET_ORIG_BUILTIN :: "cint \<Rightarrow> cint"
  MPIR_Datatype_builtin_to_string :: "cint \<Rightarrow> string option"
  MPIR_Datatype_combiner_to_string :: "cint \<Rightarrow> string option"

record renv =
  vals :: mpi_values
  ops :: mpi_ops
  keyvals :: mpi_keyvals
  modes :: mpi_modes
  dtypes :: dtype_env

text \<open>One flag of \<^verbatim>\<open>GetAssertString\<close>: the text so far and the bits left. The static
  buffer of 256 bytes is never filled: the longest text has 105 characters.\<close>

definition assert_flag :: "cint \<Rightarrow> string \<Rightarrow> string \<times> cint \<Rightarrow> string \<times> cint" where
  "assert_flag flag name acc =
     (if snd acc AND flag \<noteq> 0
      then (fst acc @ (if fst acc \<noteq> [] then '' | '' else []) @ name, snd acc XOR flag)
      else acc)"

definition GetAssertString :: "mpi_modes \<Rightarrow> cint \<Rightarrow> string" where
  "GetAssertString md d =
     (if d = 0 then ''assert=0''
      else
        let acc = assert_flag (MPI_MODE_NOSUCCEED md) ''MPI_MODE_NOSUCCEED''
                 (assert_flag (MPI_MODE_NOPRECEDE md) ''MPI_MODE_NOPRECEDE''
                 (assert_flag (MPI_MODE_NOPUT md) ''MPI_MODE_NOPUT''
                 (assert_flag (MPI_MODE_NOCHECK md) ''MPI_MODE_NOCHECK''
                 (assert_flag (MPI_MODE_NOSTORE md) ''MPI_MODE_NOSTORE'' ([], d)))))
        in if snd acc \<noteq> 0
           then fst acc @ (if fst acc \<noteq> [] then '' | 0x'' else ''assert=0x'') @ fmt_x (snd acc)
           else fst acc)"

definition GetDTypeString :: "dtype_env \<Rightarrow> cint \<Rightarrow> string" where
  "GetDTypeString de d =
     (if HANDLE_GET_MPI_KIND de d \<noteq> MPIR_DATATYPE de \<or>
         (HANDLE_GET_KIND de d = HANDLE_KIND_INVALID de \<and> d \<noteq> MPI_DATATYPE_NULL de)
      then ''INVALID DATATYPE''
      else if d = MPI_DATATYPE_NULL de then ''MPI_DATATYPE_NULL''
      else if d = 0 then ''dtype=0x0''
      else if MPIR_Type_get_combiner de d = MPI_COMBINER_NAMED de then
        (case MPIR_Datatype_builtin_to_string de (MPIR_DATATYPE_GET_ORIG_BUILTIN de d) of
           None \<Rightarrow> take 63 (''dtype=0x'' @ fmt_08x (MPIR_DATATYPE_GET_ORIG_BUILTIN de d))
         | Some str \<Rightarrow> str)
      else
        (case MPIR_Datatype_combiner_to_string de (MPIR_Type_get_combiner de d) of
           None \<Rightarrow> take 63 (''dtype=USER<0x'' @ fmt_08x d @ ''>'')
         | Some str \<Rightarrow> take 63 (''dtype=USER<'' @ str @ ''>'')))"

definition GetMPIOpString :: "mpi_ops \<Rightarrow> cint \<Rightarrow> string" where
  "GetMPIOpString op o' =
     (if o' = MPI_OP_NULL op then ''MPI_OP_NULL''
      else if o' = MPI_MAX op then ''MPI_MAX''
      else if o' = MPI_MIN op then ''MPI_MIN''
      else if o' = MPI_SUM op then ''MPI_SUM''
      else if o' = MPI_PROD op then ''MPI_PROD''
      else if o' = MPI_LAND op then ''MPI_LAND''
      else if o' = MPI_BAND op then ''MPI_BAND''
      else if o' = MPI_LOR op then ''MPI_LOR''
      else if o' = MPI_BOR op then ''MPI_BOR''
      else if o' = MPI_LXOR op then ''MPI_LXOR''
      else if o' = MPI_BXOR op then ''MPI_BXOR''
      else if o' = MPI_MINLOC op then ''MPI_MINLOC''
      else if o' = MPI_MAXLOC op then ''MPI_MAXLOC''
      else if o' = MPI_REPLACE op then ''MPI_REPLACE''
      else if o' = MPI_NO_OP op then ''MPI_NO_OP''
      else if o' = MPIX_EQUAL op then ''MPIX_EQUAL''
      else take 63 (''op=0x'' @ fmt_x o'))"

definition get_keyval_string :: "mpi_keyvals \<Rightarrow> cint \<Rightarrow> string" where
  "get_keyval_string kv keyval =
     (if keyval = MPI_KEYVAL_INVALID kv then ''MPI_KEYVAL_INVALID''
      else if keyval = MPI_TAG_UB kv then ''MPI_TAG_UB''
      else if keyval = MPI_HOST kv then ''MPI_HOST''
      else if keyval = MPI_IO kv then ''MPI_IO''
      else if keyval = MPI_WTIME_IS_GLOBAL kv then ''MPI_WTIME_IS_GLOBAL''
      else if keyval = MPI_UNIVERSE_SIZE kv then ''MPI_UNIVERSE_SIZE''
      else if keyval = MPI_LASTUSEDCODE kv then ''MPI_LASTUSEDCODE''
      else if keyval = MPI_APPNUM kv then ''MPI_APPNUM''
      else if keyval = MPI_WIN_BASE kv then ''MPI_WIN_BASE''
      else if keyval = MPI_WIN_SIZE kv then ''MPI_WIN_SIZE''
      else if keyval = MPI_WIN_DISP_UNIT kv then ''MPI_WIN_DISP_UNIT''
      else if keyval = MPI_WIN_CREATE_FLAVOR kv then ''MPI_WIN_CREATE_FLAVOR''
      else if keyval = MPI_WIN_MODEL kv then ''MPI_WIN_MODEL''
      else take 63 (''keyval=0x'' @ fmt_x keyval))"

section \<open>The renderer of instance-specific messages\<close>

text \<open>The variable arguments of a call, by the type they were passed with.\<close>

datatype varg = VInt cint | VLongLong "64 word" | VPtr "64 word" | VStr "string option"

definition va_int :: "varg list \<Rightarrow> (cint \<times> varg list) option" where
  "va_int args = (case args of VInt d # r \<Rightarrow> Some (d, r) | _ \<Rightarrow> None)"

definition va_longlong :: "varg list \<Rightarrow> (64 word \<times> varg list) option" where
  "va_longlong args = (case args of VLongLong d # r \<Rightarrow> Some (d, r) | _ \<Rightarrow> None)"

definition va_ptr :: "varg list \<Rightarrow> (64 word \<times> varg list) option" where
  "va_ptr args = (case args of VPtr d # r \<Rightarrow> Some (d, r) | _ \<Rightarrow> None)"

definition va_str :: "varg list \<Rightarrow> (string option \<times> varg list) option" where
  "va_str args = (case args of VStr d # r \<Rightarrow> Some (d, r) | _ \<Rightarrow> None)"

text \<open>What one case of the \<^verbatim>\<open>switch\<close> of \<^verbatim>\<open>vsnprintf_mpi\<close> does: it takes the default
  branch, or it reads an argument and writes a text with \<^verbatim>\<open>MPL_strncpy\<close> or with
  \<^verbatim>\<open>snprintf\<close>.\<close>

datatype writer = By_strncpy | By_snprintf

datatype directive_result = Unhandled | Bad_arg | Emit writer string "varg list"

definition with_int :: "varg list \<Rightarrow> (cint \<Rightarrow> writer \<times> string) \<Rightarrow> directive_result" where
  "with_int args f =
     (case va_int args of None \<Rightarrow> Bad_arg | Some (d, r) \<Rightarrow> Emit (fst (f d)) (snd (f d)) r)"

definition with_longlong :: "varg list \<Rightarrow> (64 word \<Rightarrow> writer \<times> string) \<Rightarrow> directive_result" where
  "with_longlong args f =
     (case va_longlong args of None \<Rightarrow> Bad_arg | Some (d, r) \<Rightarrow> Emit (fst (f d)) (snd (f d)) r)"

definition with_ptr :: "varg list \<Rightarrow> (64 word \<Rightarrow> writer \<times> string) \<Rightarrow> directive_result" where
  "with_ptr args f =
     (case va_ptr args of None \<Rightarrow> Bad_arg | Some (d, r) \<Rightarrow> Emit (fst (f d)) (snd (f d)) r)"

definition null_or :: "cint \<Rightarrow> string \<Rightarrow> string \<Rightarrow> cint \<Rightarrow> writer \<times> string" where
  "null_or null_handle null_name prefix h =
     (if h = null_handle then (By_strncpy, null_name) else (By_snprintf, prefix @ fmt_x h))"

definition directive :: "renv \<Rightarrow> char \<Rightarrow> varg list \<Rightarrow> directive_result" where
  "directive env c args =
     (if c = CHR ''s'' then
        (case va_str args of
           None \<Rightarrow> Bad_arg
         | Some (s, r) \<Rightarrow> Emit By_strncpy (case s of Some t \<Rightarrow> t | None \<Rightarrow> ''<NULL>'') r)
      else if c = CHR ''d'' then with_int args (\<lambda>d. (By_snprintf, fmt_d d))
      else if c = CHR ''L'' then with_longlong args (\<lambda>ll. (By_snprintf, fmt_lld ll))
      else if c = CHR ''x'' then with_int args (\<lambda>d. (By_snprintf, fmt_x d))
      else if c = CHR ''X'' then with_longlong args (\<lambda>ll. (By_snprintf, fmt_llx ll))
      else if c = CHR ''i'' then
        with_int args (\<lambda>i.
          if i = MPI_ANY_SOURCE (vals env) then (By_strncpy, ''MPI_ANY_SOURCE'')
          else if i = MPI_PROC_NULL (vals env) then (By_strncpy, ''MPI_PROC_NULL'')
          else if i = MPI_ROOT (vals env) then (By_strncpy, ''MPI_ROOT'')
          else (By_snprintf, fmt_d i))
      else if c = CHR ''t'' then
        with_int args (\<lambda>t.
          if t = MPI_ANY_TAG (vals env) then (By_strncpy, ''MPI_ANY_TAG'')
          else (By_snprintf, fmt_d t))
      else if c = CHR ''p'' then
        with_ptr args (\<lambda>p.
          if p = MPI_IN_PLACE (vals env) then (By_strncpy, ''MPI_IN_PLACE'')
          else (By_snprintf, libc_fmt_p (vals env) p))
      else if c = CHR ''C'' then
        with_int args (\<lambda>C.
          if C = MPI_COMM_WORLD (vals env) then (By_strncpy, ''MPI_COMM_WORLD'')
          else if C = MPI_COMM_SELF (vals env) then (By_strncpy, ''MPI_COMM_SELF'')
          else if C = MPI_COMM_NULL (vals env) then (By_strncpy, ''MPI_COMM_NULL'')
          else (By_snprintf, ''comm=0x'' @ fmt_x C))
      else if c = CHR ''I'' then
        with_int args (null_or (MPI_INFO_NULL (vals env)) ''MPI_INFO_NULL'' ''info=0x'')
      else if c = CHR ''D'' then
        with_int args (\<lambda>D. (By_snprintf, GetDTypeString (dtypes env) D))
      else if c = CHR ''F'' \<and> HAVE_ROMIO (vals env) then
        with_ptr args (\<lambda>F.
          if F = MPI_FILE_NULL (vals env) then (By_strncpy, ''MPI_FILE_NULL'')
          else (By_snprintf, ''file=0x'' @ fmt_llx F))
      else if c = CHR ''W'' then
        with_int args (null_or (MPI_WIN_NULL (vals env)) ''MPI_WIN_NULL'' ''win=0x'')
      else if c = CHR ''A'' then
        with_int args (\<lambda>d. (By_snprintf, GetAssertString (modes env) d))
      else if c = CHR ''G'' then
        with_int args (null_or (MPI_GROUP_NULL (vals env)) ''MPI_GROUP_NULL'' ''group=0x'')
      else if c = CHR ''O'' then
        with_int args (\<lambda>opv. (By_snprintf, GetMPIOpString (ops env) opv))
      else if c = CHR ''R'' then
        with_int args (null_or (MPI_REQUEST_NULL (vals env)) ''MPI_REQUEST_NULL'' ''req=0x'')
      else if c = CHR ''E'' then
        with_int args (null_or (MPI_ERRHANDLER_NULL (vals env)) ''MPI_ERRHANDLER_NULL'' ''errh=0x'')
      else if c = CHR ''S'' then
        with_int args (null_or (MPI_SESSION_NULL (vals env)) ''MPI_SESSION_NULL'' ''session=0x'')
      else if c = CHR ''K'' then
        with_int args (\<lambda>d. (By_snprintf, get_keyval_string (keyvals env) d))
      else if c = CHR ''c'' then with_longlong args (\<lambda>c. (By_snprintf, fmt_lld c))
      else Unhandled)"

definition write_text :: "writer \<Rightarrow> mem \<Rightarrow> nat \<Rightarrow> string \<Rightarrow> nat \<Rightarrow> fault + mem" where
  "write_text w m str text maxlen =
     (case w of
        By_snprintf \<Rightarrow> c_snprintf m str maxlen text
      | By_strncpy \<Rightarrow>
          (case MPL_strncpy m str text maxlen of Inl f \<Rightarrow> Inl f | Inr r \<Rightarrow> Inr (fst r)))"

text \<open>\<^verbatim>\<open>strchr(begin, '%')\<close>: the text before the first \<^verbatim>\<open>%\<close> and the text after it.\<close>

fun strchr_percent :: "string \<Rightarrow> (string \<times> string) option" where
  "strchr_percent [] = None"
| "strchr_percent (c # cs) =
     (if c = CHR ''%'' then Some ([], cs)
      else (case strchr_percent cs of None \<Rightarrow> None | Some (lit, rest) \<Rightarrow> Some (c # lit, rest)))"

text \<open>One turn of the \<^verbatim>\<open>while (end)\<close> loop: the literal text before the directive is
  copied with \<^verbatim>\<open>memcpy\<close>, as far as \<open>maxlen\<close> allows, then the directive is written and
  the pointer moves over what \<^verbatim>\<open>strlen\<close> finds. The turn ends the routine (default
  branch, also at the end of the format) or goes on with the rest of the format.\<close>

datatype turn = Done mem | Continue mem nat nat string "varg list"

definition vsnprintf_turn :: "renv \<Rightarrow> mem \<Rightarrow> nat \<Rightarrow> nat \<Rightarrow> string \<Rightarrow> string \<Rightarrow> varg list \<Rightarrow> fault + turn" where
  "vsnprintf_turn env m str maxlen lit rest args =
     (let len = (if maxlen > length lit then length lit else maxlen) in
      case (if len \<noteq> 0 then poke m str (take len lit) else Inr m) of
        Inl f \<Rightarrow> Inl f
      | Inr m1 \<Rightarrow>
          (case rest of
             [] \<Rightarrow> Inr (Done m1)
           | d # begin \<Rightarrow>
               (case directive env d args of
                  Unhandled \<Rightarrow> Inr (Done m1)
                | Bad_arg \<Rightarrow> Inl Bad_va_arg
                | Emit w text args' \<Rightarrow>
                    (case write_text w m1 (str + len) text (maxlen - len) of
                       Inl f \<Rightarrow> Inl f
                     | Inr m2 \<Rightarrow>
                         (case c_strlen m2 (str + len) of
                            Inl f \<Rightarrow> Inl f
                          | Inr len2 \<Rightarrow>
                              Inr (Continue m2 (str + len + len2)
                                     (size_sub (maxlen - len) len2) begin args'))))))"

lemma strchr_percent_shorter:
  "strchr_percent s = Some (lit, rest) \<Longrightarrow> length rest < length s"
  by (induction s arbitrary: lit) (auto split: if_splits option.splits)

lemma vsnprintf_turn_shorter:
  "vsnprintf_turn env m str maxlen lit rest args = Inr (Continue m' str' maxlen' begin' args') \<Longrightarrow>
   length begin' < length rest"
  by (auto simp add: vsnprintf_turn_def Let_def
      split: sum.splits list.splits directive_result.splits if_splits)

function vsnprintf_loop :: "renv \<Rightarrow> mem \<Rightarrow> nat \<Rightarrow> nat \<Rightarrow> string \<Rightarrow> varg list \<Rightarrow> fault + mem" where
  "vsnprintf_loop env m str maxlen begin args =
     (case strchr_percent begin of
        None \<Rightarrow>
          (if begin \<noteq> [] then
             (case MPL_strncpy m str begin maxlen of Inl f \<Rightarrow> Inl f | Inr r \<Rightarrow> Inr (fst r))
           else Inr m)
      | Some (lit, rest) \<Rightarrow>
          (case vsnprintf_turn env m str maxlen lit rest args of
             Inl f \<Rightarrow> Inl f
           | Inr (Done m') \<Rightarrow> Inr m'
           | Inr (Continue m' str' maxlen' begin' args') \<Rightarrow>
               vsnprintf_loop env m' str' maxlen' begin' args'))"
  by pat_completeness auto
termination
  by (relation "measure (\<lambda>(env, m, str, maxlen, begin, args). length begin)")
     (auto dest!: strchr_percent_shorter vsnprintf_turn_shorter)

declare vsnprintf_loop.simps [simp del]

text \<open>\<^verbatim>\<open>vsnprintf_mpi\<close>. The copy of the format made with \<^verbatim>\<open>MPL_strdup\<close> is the format
  itself here (a failed allocation is not modelled); the routine returns 0 on every
  path, so only the buffer is returned.\<close>

definition vsnprintf_mpi :: "renv \<Rightarrow> mem \<Rightarrow> nat \<Rightarrow> nat \<Rightarrow> string \<Rightarrow> varg list \<Rightarrow> fault + mem" where
  "vsnprintf_mpi env m str maxlen fmt_orig list = vsnprintf_loop env m str maxlen fmt_orig list"

text \<open>The arguments passed fit the format: every directive of the format finds an
  argument of its type, as \<^verbatim>\<open>va_arg\<close> asks of the caller.\<close>

function args_fit :: "renv \<Rightarrow> string \<Rightarrow> varg list \<Rightarrow> bool" where
  "args_fit env fmt args =
     (case strchr_percent fmt of
        None \<Rightarrow> True
      | Some (lit, rest) \<Rightarrow>
          (case rest of
             [] \<Rightarrow> True
           | d # begin \<Rightarrow>
               (case directive env d args of
                  Unhandled \<Rightarrow> True
                | Bad_arg \<Rightarrow> False
                | Emit w text args' \<Rightarrow> args_fit env begin args')))"
  by pat_completeness auto
termination
  by (relation "measure (\<lambda>(env, fmt, args). length fmt)")
     (auto dest!: strchr_percent_shorter)

declare args_fit.simps [simp del]

section \<open>The message tables and the creation of a code\<close>

text \<open>
  The generated tables of \<^verbatim>\<open>defmsg.h\<close> are not in the source tree: they are parameters,
  with \<^verbatim>\<open>generic_msgs_len\<close> and \<^verbatim>\<open>specific_msgs_len\<close> the lengths of the two lists and
  \<^verbatim>\<open>class_to_index\<close> the array from a class to the index of its message. Two choices of
  the platform are parameters as well: whether plain \<^verbatim>\<open>char\<close> is signed, and the text the
  C library's \<^verbatim>\<open>snprintf\<close> makes of a format and one \<^verbatim>\<open>int\<close>.
\<close>

record msgpair =
  sentinal1 :: "32 word"
  short_name :: string
  long_name :: string
  sentinal2 :: "32 word"

record msg_tables =
  generic_err_msgs :: "msgpair list"
  specific_err_msgs :: "msgpair list"
  class_to_index :: "cint \<Rightarrow> nat"
  char_is_signed :: bool
  libc_snprintf_int :: "string \<Rightarrow> cint \<Rightarrow> string"

definition generic_msgs_len :: "msg_tables \<Rightarrow> cint" where
  "generic_msgs_len tabs = of_nat (length (generic_err_msgs tabs))"

text \<open>The loop of \<^verbatim>\<open>FindGenericMsgIndex\<close> and of \<^verbatim>\<open>FindSpecificMsgIndex\<close>, from index \<open>i\<close>
  on; \<^verbatim>\<open>strncmp(short_name, msg, strlen(msg))\<close> is 0 when the key is a prefix of the short
  name.\<close>

fun FindMsgIndex_from :: "msgpair list \<Rightarrow> string \<Rightarrow> cint \<Rightarrow> cint" where
  "FindMsgIndex_from [] key i = - 1"
| "FindMsgIndex_from (e # es) key i =
     (if sentinal1 e \<noteq> 0xacebad03 \<or> sentinal2 e \<noteq> 0xcb0bfa11 then - 1
      else if c_strcmp (short_name e) key = 0 then i
      else if c_strcmp (short_name e) key > 0 \<and> take (length key) (short_name e) \<noteq> key then - 1
      else FindMsgIndex_from es key (i + 1))"

definition FindGenericMsgIndex :: "msg_tables \<Rightarrow> string \<Rightarrow> cint" where
  "FindGenericMsgIndex tabs key = FindMsgIndex_from (generic_err_msgs tabs) key 0"

definition FindSpecificMsgIndex :: "msg_tables \<Rightarrow> string \<Rightarrow> cint" where
  "FindSpecificMsgIndex tabs key = FindMsgIndex_from (specific_err_msgs tabs) key 0"

definition get_class_msg :: "errcodes \<Rightarrow> msg_tables \<Rightarrow> cint \<Rightarrow> string" where
  "get_class_msg cfg tabs error_class =
     (if is_valid_error_class cfg error_class
      then long_name (generic_err_msgs tabs ! class_to_index tabs error_class)
      else ''Unknown error class'')"

text \<open>\<^verbatim>\<open>(unsigned int) msg[i]\<close>: a signed \<^verbatim>\<open>char\<close> is sign-extended.\<close>

definition char_to_uint :: "msg_tables \<Rightarrow> char \<Rightarrow> cuint" where
  "char_to_uint tabs c =
     (if char_is_signed tabs then scast (of_char c :: 8 word) else ucast (of_char c :: 8 word))"

text \<open>The \<^verbatim>\<open>%\<close> of two \<^verbatim>\<open>int\<close>s truncates towards zero.\<close>

definition c_rem :: "cint \<Rightarrow> cint \<Rightarrow> cint" where
  "c_rem a b = word_of_int (sint a smod sint b)"

text \<open>\<^verbatim>\<open>ErrcodeCreateID\<close>: the pair of the ring id and the sequence number.\<close>

definition ErrcodeCreateID :: "errcodes \<Rightarrow> msg_tables \<Rightarrow> cint \<Rightarrow> cint \<Rightarrow> string \<Rightarrow> cint \<times> cint" where
  "ErrcodeCreateID cfg tabs error_class generic_idx text =
     (let ring_seq = c_rem (sum_list (map (char_to_uint tabs) text)) (ERROR_SPECIFIC_SEQ_SIZE cfg)
      in ((error_class AND ERROR_CLASS_MASK cfg) OR
          push_bit (ERROR_GENERIC_SHIFT cfg) (generic_idx + 1) OR
          push_bit (ERROR_SPECIFIC_SEQ_SHIFT cfg) ring_seq,
          ring_seq))"

text \<open>\<^verbatim>\<open>checkErrcodeIsValid\<close>: the reason (0 for a valid code), and the state with the
  diagnostic it may print.\<close>

definition checkErrcodeIsValid :: "errcodes \<Rightarrow> msg_tables \<Rightarrow> cint \<Rightarrow> errstate \<Rightarrow> cint \<times> errstate" where
  "checkErrcodeIsValid cfg tabs errcode st =
     (if is_valid_error_class cfg errcode then (0, st)
      else
        let st1 = (if convertErrcodeToIndexes cfg st errcode \<noteq> 0
                   then MPL_error_printf (invalid_code_msg cfg errcode (ring_idx_of cfg errcode)) st
                   else st)
        in if ring_idx_of cfg errcode <s 0 \<or> MAX_ERROR_RING cfg \<le>s ring_idx_of cfg errcode \<or>
              max_error_ring_loc st < ring_idx_of cfg errcode
           then (1, st1)
           else if entry_id (ring_entry cfg st errcode) \<noteq> ring_id_of cfg errcode then (2, st1)
           else if generic_idx_of cfg errcode <s - 1 \<or>
                   generic_msgs_len tabs <s generic_idx_of cfg errcode then (3, st1)
           else (0, st1))"

definition ErrcodeInvalidReasonStr :: "cint \<Rightarrow> string" where
  "ErrcodeInvalidReasonStr reason =
     (if reason = 1 then ''Ring Index out of range''
      else if reason = 2 then ''Ring ids do not match''
      else if reason = 3 then ''Generic message index out of range''
      else ''Unknown reason for invalid errcode'')"

text \<open>The first step of \<^verbatim>\<open>MPIR_Err_create_code_valist\<close>: a previous code that is not
  valid is reported and replaced by success.\<close>

definition checked_lastcode :: "errcodes \<Rightarrow> msg_tables \<Rightarrow> cint \<Rightarrow> string option \<Rightarrow> cint \<Rightarrow> errstate \<Rightarrow> cint \<times> errstate" where
  "checked_lastcode cfg tabs lastcode fcname line st =
     (if lastcode \<noteq> MPI_SUCCESS then
        (case checkErrcodeIsValid cfg tabs lastcode st of
           (reason, st1) \<Rightarrow>
             if reason \<noteq> 0 then
               (MPI_SUCCESS,
                MPL_error_printf
                  (''INTERNAL ERROR: invalid error code '' @ fmt_x lastcode @ '' ('' @
                   ErrcodeInvalidReasonStr reason @ '') in '' @
                   (case fcname of None \<Rightarrow> ''(null)'' | Some f \<Rightarrow> f) @ '':'' @ fmt_d line @ [NL]) st1)
             else (lastcode, st1))
      else (lastcode, st))"

text \<open>The second step: the class \<^verbatim>\<open>MPI_ERR_OTHER\<close> gives way to the class of the previous
  code, when that is above success and not above \<^verbatim>\<open>MPICH_ERR_LAST_MPIX\<close>.\<close>

definition effective_class :: "errcodes \<Rightarrow> cint \<Rightarrow> cint \<Rightarrow> cint" where
  "effective_class cfg lastcode error_class =
     (if error_class = MPI_ERR_OTHER cfg then
        (if MPI_SUCCESS <s ERROR_GET_CLASS cfg lastcode \<and>
            ERROR_GET_CLASS cfg lastcode \<le>s MPICH_ERR_LAST_MPIX cfg
         then ERROR_GET_CLASS cfg lastcode
         else MPI_ERR_OTHER cfg)
      else error_class)"

definition specific_format :: "msg_tables \<Rightarrow> string \<Rightarrow> string" where
  "specific_format tabs specific_msg =
     (if 0 \<le>s FindSpecificMsgIndex tabs specific_msg
      then long_name (specific_err_msgs tabs ! unat (FindSpecificMsgIndex tabs specific_msg))
      else specific_msg)"

definition is_user_msg :: "msg_tables \<Rightarrow> cint \<Rightarrow> bool" where
  "is_user_msg tabs generic_idx \<longleftrightarrow>
     0 \<le>s generic_idx \<and> short_name (generic_err_msgs tabs ! unat generic_idx) = ''**user''"

text \<open>The text of the new ring entry, written into the 257 zeroed bytes of its \<open>msg\<close>
  field with the bound \<^verbatim>\<open>MPIR_MAX_ERROR_LINE\<close>, and terminated at index 256.\<close>

definition MPIR_MAX_ERROR_LINE :: nat where
  "MPIR_MAX_ERROR_LINE = 256"

definition MAX_LOCATION_LEN :: nat where
  "MAX_LOCATION_LEN = 63"

definition ring_msg_text :: "renv \<Rightarrow> msg_tables \<Rightarrow> cint \<Rightarrow> bool \<Rightarrow> string \<Rightarrow> string \<Rightarrow> string option \<Rightarrow> varg list \<Rightarrow> fault + string" where
  "ring_msg_text env tabs generic_idx use_user user_ring_msg generic_msg specific_msg Argp =
     (let ring_msg = replicate (MPIR_MAX_ERROR_LINE + 1) NUL;
          written =
            (case specific_msg of
               Some sm \<Rightarrow>
                 if \<not> use_user
                 then vsnprintf_mpi env ring_msg 0 MPIR_MAX_ERROR_LINE (specific_format tabs sm) Argp
                 else (case MPL_strncpy ring_msg 0 user_ring_msg MPIR_MAX_ERROR_LINE of
                         Inl f \<Rightarrow> Inl f | Inr r \<Rightarrow> Inr (fst r))
             | None \<Rightarrow>
                 (case MPL_strncpy ring_msg 0
                         (if 0 \<le>s generic_idx
                          then long_name (generic_err_msgs tabs ! unat generic_idx)
                          else generic_msg) MPIR_MAX_ERROR_LINE of
                    Inl f \<Rightarrow> Inl f | Inr r \<Rightarrow> Inr (fst r)))
      in case written of
           Inl f \<Rightarrow> Inl f
         | Inr m \<Rightarrow>
             (case poke m MPIR_MAX_ERROR_LINE [NUL] of
                Inl f \<Rightarrow> Inl f | Inr m' \<Rightarrow> Inr (cstr m' 0)))"

text \<open>The user's code carried over from the entry of the previous code, with the
  diagnostic when that code has no ring index.\<close>

definition carried_user_code :: "errcodes \<Rightarrow> cint \<Rightarrow> errstate \<Rightarrow> (cint \<times> cint) \<times> errstate" where
  "carried_user_code cfg lastcode st =
     (if lastcode \<noteq> MPI_SUCCESS then
        (if convertErrcodeToIndexes cfg st lastcode \<noteq> 0
         then ((0, 0), MPL_error_printf (invalid_code_msg cfg lastcode (ring_idx_of cfg lastcode)) st)
         else if 0 \<le>s generic_idx_of cfg lastcode \<and>
                 entry_id (ring_entry cfg st lastcode) = ring_id_of cfg lastcode \<and>
                 use_user_error_code (ring_entry cfg st lastcode) \<noteq> 0
         then ((1, user_error_code (ring_entry cfg st lastcode)), st)
         else ((0, 0), st))
      else ((0, 0), st))"

definition location_text :: "string option \<Rightarrow> cint \<Rightarrow> string" where
  "location_text fcname line =
     (case fcname of
        Some f \<Rightarrow> take (MAX_LOCATION_LEN - 1) (f @ ''('' @ fmt_d line @ '')'')
      | None \<Rightarrow> [])"

text \<open>The user's error code of the special message \<^verbatim>\<open>**user\<close>: it is the next
  variable argument, and the ring message is made from it by the C library.\<close>

definition user_code_and_msg :: "msg_tables \<Rightarrow> bool \<Rightarrow> string option \<Rightarrow> varg list \<Rightarrow> fault + (cint \<times> string)" where
  "user_code_and_msg tabs use_user specific_msg Argp =
     (if use_user then
        (case specific_msg of
           Some sm \<Rightarrow>
             (case va_int Argp of
                None \<Rightarrow> Inl Bad_va_arg
              | Some (user_code, r) \<Rightarrow>
                  Inr (user_code,
                       take MPIR_MAX_ERROR_LINE (libc_snprintf_int tabs (specific_format tabs sm) user_code)))
         | None \<Rightarrow> Inr (- 1, []))
      else Inr (- 1, []))"

text \<open>The ring cursor after taking a slot, and the high-water mark.\<close>

definition next_ring_loc :: "errcodes \<Rightarrow> cuint \<Rightarrow> cuint" where
  "next_ring_loc cfg loc =
     (if MAX_ERROR_RING cfg \<le> loc + 1 then (loc + 1) mod MAX_ERROR_RING cfg else loc + 1)"

definition MPIR_Err_create_code_valist :: "errcodes \<Rightarrow> renv \<Rightarrow> msg_tables \<Rightarrow> cint \<Rightarrow> cint \<Rightarrow> string option \<Rightarrow> cint \<Rightarrow> cint \<Rightarrow> string \<Rightarrow> string option \<Rightarrow> varg list \<Rightarrow> errstate \<Rightarrow> fault + (cint \<times> errstate)" where
  "MPIR_Err_create_code_valist cfg env tabs lastcode0 fatal fcname line error_class0 generic_msg
       specific_msg Argp st0 =
     (case checked_lastcode cfg tabs lastcode0 fcname line st0 of
        (lastcode, st1) \<Rightarrow>
          let error_class = effective_class cfg lastcode error_class0 in
          if error_class = MPI_ERR_IN_STATUS cfg then Inr (MPI_ERR_IN_STATUS cfg, st1)
          else
            let generic_idx = FindGenericMsgIndex tabs generic_msg;
                use_user = is_user_msg tabs generic_idx;
                err_code1 = (if 0 \<le>s generic_idx
                             then error_class OR push_bit (ERROR_GENERIC_SHIFT cfg) (generic_idx + 1)
                             else error_class AND NOT (ERROR_GENERIC_MASK cfg))
            in
            (case user_code_and_msg tabs use_user specific_msg Argp of
               Inl f \<Rightarrow> Inl f
             | Inr (user_code, user_ring_msg) \<Rightarrow>
                 (case ring_msg_text env tabs generic_idx use_user user_ring_msg generic_msg
                         specific_msg Argp of
                    Inl f \<Rightarrow> Inl f
                  | Inr ring_msg \<Rightarrow>
                      let ring_idx = error_ring_loc st1;
                          loc' = next_ring_loc cfg (error_ring_loc st1);
                          (ring_id, ring_seq) =
                            ErrcodeCreateID cfg tabs error_class generic_idx ring_msg;
                          st2 = st1\<lparr>
                            ErrorRing := (ErrorRing st1)(unat ring_idx :=
                              \<lparr>entry_id = ring_id, prev_error = lastcode, use_user_error_code = 0,
                               user_error_code = 0, location = [], msg = ring_msg\<rparr>),
                            error_ring_loc := loc',
                            max_error_ring_loc :=
                              (if max_error_ring_loc st1 < loc' then loc' else max_error_ring_loc st1)\<rparr>;
                          ((uu, uc), st3) =
                            (if use_user then ((1, user_code), st2)
                             else carried_user_code cfg lastcode st2);
                          st4 = st3\<lparr>ErrorRing := (ErrorRing st3)(unat ring_idx :=
                                  (ErrorRing st3 (unat ring_idx))\<lparr>
                                     use_user_error_code := uu, user_error_code := uc,
                                     location := location_text fcname line\<rparr>)\<rparr>;
                          err_code = err_code1 OR
                            push_bit (ERROR_SPECIFIC_INDEX_SHIFT cfg) ring_idx OR
                            push_bit (ERROR_SPECIFIC_SEQ_SHIFT cfg) ring_seq
                      in Inr (if fatal \<noteq> 0 \<or> MPIR_Err_is_fatal cfg lastcode
                              then err_code OR ERROR_FATAL_MASK cfg else err_code, st4))))"

section \<open>Turning a code into text\<close>

text \<open>
  Offsets and sizes that the source keeps in \<^verbatim>\<open>int\<close> variables are integers here: an
  offset can leave the buffer and a size can become negative. A negative size given to
  \<^verbatim>\<open>snprintf\<close> or \<^verbatim>\<open>MPL_strncpy\<close> converts to a \<^verbatim>\<open>size_t\<close> larger than any text.
\<close>

record cvars =
  MPIR_CVAR_PRINT_ERROR_STACK :: bool
  MPIR_CVAR_CHOP_ERROR_STACK :: int

definition size_of_int :: "int \<Rightarrow> nat" where
  "size_of_int n = (if n < 0 then nat (n + 2 ^ 64) else nat n)"

definition poke_i :: "mem \<Rightarrow> int \<Rightarrow> string \<Rightarrow> fault + mem" where
  "poke_i m p bs = (if p < 0 then Inl Out_of_bounds else poke m (nat p) bs)"

definition strlen_i :: "mem \<Rightarrow> int \<Rightarrow> fault + nat" where
  "strlen_i m p = (if p < 0 then Inl Out_of_bounds else c_strlen m (nat p))"

definition snprintf_i :: "mem \<Rightarrow> int \<Rightarrow> int \<Rightarrow> string \<Rightarrow> fault + mem" where
  "snprintf_i m str n text =
     (if n = 0 then Inr m
      else if str < 0 then Inl Out_of_bounds
      else c_snprintf m (nat str) (size_of_int n) text)"

definition strncpy_i :: "mem \<Rightarrow> int \<Rightarrow> string \<Rightarrow> int \<Rightarrow> fault + (mem \<times> cint)" where
  "strncpy_i m dest src n =
     (if n = 0 then Inr (m, 0)
      else if dest < 0 then Inl Out_of_bounds
      else MPL_strncpy m (nat dest) src (size_of_int n))"

text \<open>A buffer with the write position and the room left: \<open>str\<close> and \<open>maxlen\<close> of
  \<^verbatim>\<open>MPIR_Err_print_stack_string\<close>.\<close>

type_synonym cursor = "mem \<times> int \<times> int"

text \<open>\<^verbatim>\<open>snprintf(str, maxlen, ...); len = strlen(str); maxlen -= len; str += len;\<close>\<close>

definition append_text :: "cursor \<Rightarrow> string \<Rightarrow> fault + cursor" where
  "append_text cur text =
     (case cur of (m, str, maxlen) \<Rightarrow>
        (case snprintf_i m str maxlen text of
           Inl f \<Rightarrow> Inl f
         | Inr m1 \<Rightarrow>
             (case strlen_i m1 str of
                Inl f \<Rightarrow> Inl f
              | Inr len \<Rightarrow> Inr (m1, str + int len, maxlen - int len))))"

text \<open>\<^verbatim>\<open>if (maxlen > 0) { *str++ = c; maxlen--; }\<close>, for \<open>k\<close> characters at most.\<close>

definition put_chars :: "cursor \<Rightarrow> nat \<Rightarrow> char \<Rightarrow> fault + cursor" where
  "put_chars cur k c =
     (case cur of (m, str, maxlen) \<Rightarrow>
        (if maxlen > 0 \<and> k > 0 then
           (case poke_i m str (replicate (min k (nat maxlen)) c) of
              Inl f \<Rightarrow> Inl f
            | Inr m1 \<Rightarrow> Inr (m1, str + int (min k (nat maxlen)), maxlen - int (min k (nat maxlen))))
         else Inr cur))"

text \<open>The \<^verbatim>\<open>for\<close> loop that indents a continuation line: \<^verbatim>\<open>snprintf(str, maxlen, " ")\<close>,
  \<open>n\<close> times, each time one byte further with one byte less room.\<close>

fun indent_loop :: "nat \<Rightarrow> mem \<Rightarrow> int \<Rightarrow> int \<Rightarrow> fault + mem" where
  "indent_loop 0 m str maxlen = Inr m"
| "indent_loop (Suc n) m str maxlen =
     (case snprintf_i m str maxlen '' '' of
        Inl f \<Rightarrow> Inl f
      | Inr m1 \<Rightarrow> indent_loop n m1 (str + 1) (maxlen - 1))"

text \<open>The \<^verbatim>\<open>while (len)\<close> loop that chops a message into lines of \<open>chop\<close> columns; it is
  entered with \<open>chop > 0\<close> only. \<open>text\<close> is the message of the ring entry and \<open>cur_pos\<close> the
  offset in it; an offset outside the message is a fault. Every turn that goes on has
  \<open>0 < len \<le> maxlen\<close> and takes \<open>chop\<close> bytes or more off \<open>maxlen\<close>: the loop ends.\<close>

function chop_loop :: "int \<Rightarrow> int \<Rightarrow> string \<Rightarrow> int \<Rightarrow> cursor \<Rightarrow> fault + cursor" where
  "chop_loop chop max_location_len text cur_pos (m, str, maxlen) =
     (if chop \<le> 0 then Inr (m, str, maxlen)
      else if cur_pos < 0 \<or> int (length text) < cur_pos then Inl Out_of_bounds
      else
        let len = int (length text) - cur_pos in
        if len = 0 then Inr (m, str, maxlen)
        else if len \<ge> chop - max_location_len then
          (if len > maxlen then Inr (m, str, maxlen)
           else
             (case snprintf_i m str (chop - 1 - max_location_len) (drop (nat cur_pos) text) of
                Inl f \<Rightarrow> Inl f
              | Inr m1 \<Rightarrow>
                  (case poke_i m1 (str + (chop - 1 - max_location_len)) [NL] of
                     Inl f \<Rightarrow> Inl f
                   | Inr m2 \<Rightarrow>
                       (if maxlen - (chop - max_location_len) < max_location_len
                        then Inr (m2, str + (chop - max_location_len), maxlen - (chop - max_location_len))
                        else
                          (case indent_loop (nat max_location_len) m2
                                  (str + (chop - max_location_len))
                                  (maxlen - (chop - max_location_len)) of
                             Inl f \<Rightarrow> Inl f
                           | Inr m3 \<Rightarrow>
                               chop_loop chop max_location_len text
                                 (cur_pos + (chop - 1 - max_location_len))
                                 (m3, str + (chop - max_location_len) + int (nat max_location_len),
                                  maxlen - (chop - max_location_len) - int (nat max_location_len)))))))
        else append_text (m, str, maxlen) (drop (nat cur_pos) text @ [NL]))"
  by pat_completeness auto
termination
  by (relation "measure (\<lambda>(chop, max_location_len, text, cur_pos, m, str, maxlen). nat maxlen)") auto

declare chop_loop.simps [simp del]

text \<open>The body of the second loop of \<^verbatim>\<open>MPIR_Err_print_stack_string\<close> for one valid ring
  entry: the location, padded with dots to the longest location, a colon and a blank,
  and the message, chopped when \<^verbatim>\<open>MPIR_CVAR_CHOP_ERROR_STACK\<close> is positive.\<close>

definition print_stack_entry :: "cvars \<Rightarrow> int \<Rightarrow> MPIR_Err_msg \<Rightarrow> cursor \<Rightarrow> fault + cursor" where
  "print_stack_entry cv max_location_len e cur =
     (case append_text cur (location e) of
        Inl f \<Rightarrow> Inl f
      | Inr cur1 \<Rightarrow>
          (case put_chars cur1 (nat (max_location_len - int (length (location e)) - 2)) CHR ''.'' of
             Inl f \<Rightarrow> Inl f
           | Inr cur2 \<Rightarrow>
               (case put_chars cur2 1 CHR '':'' of
                  Inl f \<Rightarrow> Inl f
                | Inr cur3 \<Rightarrow>
                    (case put_chars cur3 1 CHR '' '' of
                       Inl f \<Rightarrow> Inl f
                     | Inr cur4 \<Rightarrow>
                         if MPIR_CVAR_CHOP_ERROR_STACK cv > 0 then
                           (if length (msg e) = 0
                            then put_chars cur4 1 NL
                            else chop_loop (MPIR_CVAR_CHOP_ERROR_STACK cv) max_location_len (msg e) 0 cur4)
                         else append_text cur4 (msg e @ [NL])))))"

text \<open>The first loop: the longest location of the chain. The diagnostic of this loop
  prints \<open>errcode\<close>, the code the routine was called with.\<close>

partial_function (option) max_location_loop :: "errcodes \<Rightarrow> cint \<Rightarrow> cint \<Rightarrow> int \<Rightarrow> errstate \<Rightarrow> (int \<times> errstate) option" where
  "max_location_loop cfg errcode tmp_errcode max_location_len st =
     (if tmp_errcode = MPI_SUCCESS then Some (max_location_len, st)
      else if convertErrcodeToIndexes cfg st tmp_errcode \<noteq> 0
      then Some (max_location_len,
                 MPL_error_printf (invalid_code_msg cfg errcode (ring_idx_of cfg tmp_errcode)) st)
      else if generic_idx_of cfg tmp_errcode <s 0 then Some (max_location_len, st)
      else if entry_id (ring_entry cfg st tmp_errcode) = ring_id_of cfg tmp_errcode
      then max_location_loop cfg errcode (prev_error (ring_entry cfg st tmp_errcode))
             (max max_location_len (int (length (location (ring_entry cfg st tmp_errcode))))) st
      else Some (max_location_len, st))"

declare max_location_loop.simps [code]

text \<open>The second loop: it prints the entries; it has no \<^verbatim>\<open>break\<close> after the diagnostic.
  The result is the code the loop stopped at, the cursor and the state.\<close>

partial_function (option) print_stack_loop :: "errcodes \<Rightarrow> cvars \<Rightarrow> int \<Rightarrow> cint \<Rightarrow> cursor \<Rightarrow> errstate \<Rightarrow> (fault + (cint \<times> cursor \<times> errstate)) option" where
  "print_stack_loop cfg cv max_location_len errcode cur st =
     (if errcode = MPI_SUCCESS then Some (Inr (errcode, cur, st))
      else
        (if generic_idx_of cfg errcode <s 0
         then Some (Inr (errcode, cur,
                if convertErrcodeToIndexes cfg st errcode \<noteq> 0
                then MPL_error_printf (invalid_code_msg cfg errcode (ring_idx_of cfg errcode)) st
                else st))
         else if entry_id (ring_entry cfg st errcode) = ring_id_of cfg errcode then
           (case print_stack_entry cv max_location_len (ring_entry cfg st errcode) cur of
              Inl f \<Rightarrow> Some (Inl f)
            | Inr cur' \<Rightarrow>
                print_stack_loop cfg cv max_location_len (prev_error (ring_entry cfg st errcode)) cur'
                  (if convertErrcodeToIndexes cfg st errcode \<noteq> 0
                   then MPL_error_printf (invalid_code_msg cfg errcode (ring_idx_of cfg errcode)) st
                   else st))
         else Some (Inr (errcode, cur,
                if convertErrcodeToIndexes cfg st errcode \<noteq> 0
                then MPL_error_printf (invalid_code_msg cfg errcode (ring_idx_of cfg errcode)) st
                else st))))"

declare print_stack_loop.simps [code]

text \<open>What follows the loops when the walk did not end in success: one line made from
  the generic message of the code, or from its class. The generic index comes from the
  code and is not compared with the length of the table: an index past the table is a
  read out of it.\<close>

definition unknown_line :: "errcodes \<Rightarrow> msg_tables \<Rightarrow> cint \<Rightarrow> fault + string" where
  "unknown_line cfg tabs errcode =
     (if 0 \<le>s generic_idx_of cfg errcode
      then (if unat (generic_idx_of cfg errcode) < length (generic_err_msgs tabs)
            then Inr (''(unknown)(): '' @
                   long_name (generic_err_msgs tabs ! unat (generic_idx_of cfg errcode)) @ [NL])
            else Inl Out_of_bounds)
      else if ERROR_GET_CLASS cfg errcode \<le>s MPICH_ERR_LAST_MPIX cfg
      then Inr (''(unknown)(): '' @ get_class_msg cfg tabs (ERROR_GET_CLASS cfg errcode) @ [NL])
      else Inr (''Error code contains an invalid class ('' @ fmt_d (ERROR_GET_CLASS cfg errcode) @
             '')'' @ [NL]))"

definition MPIR_Err_print_stack_string :: "errcodes \<Rightarrow> msg_tables \<Rightarrow> cvars \<Rightarrow> cint \<Rightarrow> mem \<Rightarrow> int \<Rightarrow> int \<Rightarrow> errstate \<Rightarrow> (fault + (mem \<times> errstate)) option" where
  "MPIR_Err_print_stack_string cfg tabs cv errcode m str_orig maxlen st =
     (case max_location_loop cfg errcode errcode 0 st of
        None \<Rightarrow> None
      | Some (mll, st1) \<Rightarrow>
          (case print_stack_loop cfg cv (mll + 2) errcode (m, str_orig, maxlen) st1 of
             None \<Rightarrow> None
           | Some (Inl f) \<Rightarrow> Some (Inl f)
           | Some (Inr (errcode', cur, st2)) \<Rightarrow>
               (case (if errcode' = MPI_SUCCESS then Inr cur
                      else (case unknown_line cfg tabs errcode' of
                              Inl f \<Rightarrow> Inl f
                            | Inr line \<Rightarrow> append_text cur line)) of
                  Inl f \<Rightarrow> Some (Inl f)
                | Inr (m', str, maxlen') \<Rightarrow>
                    if str_orig \<noteq> str then
                      (case poke_i m' (str - 1) [NUL] of
                         Inl f \<Rightarrow> Some (Inl f)
                       | Inr m'' \<Rightarrow> Some (Inr (m'', st2)))
                    else Some (Inr (m', st2)))))"

text \<open>The loop of the compact form in \<^verbatim>\<open>ErrGetInstanceString\<close>: every valid entry of the
  chain is written at the same place, over the one before. The result is the code the
  loop stopped at, the buffer and the state.\<close>

partial_function (option) instance_loop :: "errcodes \<Rightarrow> int \<Rightarrow> int \<Rightarrow> cint \<Rightarrow> mem \<Rightarrow> errstate \<Rightarrow> (fault + (cint \<times> mem \<times> errstate)) option" where
  "instance_loop cfg pos num_remaining errorcode m st =
     (if errorcode = MPI_SUCCESS then Some (Inr (errorcode, m, st))
      else if convertErrcodeToIndexes cfg st errorcode \<noteq> 0
      then Some (Inr (errorcode, m,
             MPL_error_printf (invalid_code_msg cfg errorcode (ring_idx_of cfg errorcode)) st))
      else if generic_idx_of cfg errorcode <s 0 then Some (Inr (errorcode, m, st))
      else if entry_id (ring_entry cfg st errorcode) = ring_id_of cfg errorcode then
        (case snprintf_i m pos num_remaining ('', '' @ msg (ring_entry cfg st errorcode)) of
           Inl f \<Rightarrow> Some (Inl f)
         | Inr m1 \<Rightarrow>
             (case poke_i m1 (pos + num_remaining - 1) [NUL] of
                Inl f \<Rightarrow> Some (Inl f)
              | Inr m2 \<Rightarrow>
                  instance_loop cfg pos num_remaining (prev_error (ring_entry cfg st errorcode)) m2 st))
      else Some (Inr (errorcode, m, st)))"

declare instance_loop.simps [code]

text \<open>\<^verbatim>\<open>ErrGetInstanceString\<close>: the return value (1 when the walk did not reach success),
  the buffer and the state.\<close>

definition ErrGetInstanceString :: "errcodes \<Rightarrow> msg_tables \<Rightarrow> cvars \<Rightarrow> cint \<Rightarrow> mem \<Rightarrow> int \<Rightarrow> int \<Rightarrow> errstate \<Rightarrow> (fault + (cint \<times> mem \<times> errstate)) option" where
  "ErrGetInstanceString cfg tabs cv errorcode m pos num_remaining st =
     (if MPIR_CVAR_PRINT_ERROR_STACK cv then
        (case strncpy_i m pos ('', error stack:'' @ [NL]) num_remaining of
           Inl f \<Rightarrow> Some (Inl f)
         | Inr (m1, rc) \<Rightarrow>
             (case poke_i m1 (pos + num_remaining - 1) [NUL] of
                Inl f \<Rightarrow> Some (Inl f)
              | Inr m2 \<Rightarrow>
                  (case strlen_i m2 pos of
                     Inl f \<Rightarrow> Some (Inl f)
                   | Inr len \<Rightarrow>
                       (case MPIR_Err_print_stack_string cfg tabs cv errorcode m2 (pos + int len)
                               (num_remaining - int len) st of
                          None \<Rightarrow> None
                        | Some (Inl f) \<Rightarrow> Some (Inl f)
                        | Some (Inr (m3, st')) \<Rightarrow>
                            (case poke_i m3 (pos + int len + (num_remaining - int len) - 1) [NUL] of
                               Inl f \<Rightarrow> Some (Inl f)
                             | Inr m4 \<Rightarrow>
                                 Some (Inr (if errorcode \<noteq> MPI_SUCCESS then 1 else 0, m4, st')))))))
      else
        (case instance_loop cfg pos num_remaining errorcode m st of
           None \<Rightarrow> None
         | Some (Inl f) \<Rightarrow> Some (Inl f)
         | Some (Inr (errorcode', m', st')) \<Rightarrow>
             Some (Inr (if errorcode' \<noteq> MPI_SUCCESS then 1 else 0, m', st'))))"

text \<open>\<^verbatim>\<open>MPL_strncpy\<close> followed by the forced NUL of the callers that test its result.\<close>

definition strncpy_terminated :: "mem \<Rightarrow> int \<Rightarrow> string \<Rightarrow> int \<Rightarrow> fault + mem" where
  "strncpy_terminated m pos text num_remaining =
     (case strncpy_i m pos text num_remaining of
        Inl f \<Rightarrow> Inl f
      | Inr (m1, rc) \<Rightarrow> if rc \<noteq> 0 then poke_i m1 (pos + num_remaining - 1) [NUL] else Inr m1)"

definition MPIR_Err_get_string :: "errcodes \<Rightarrow> msg_tables \<Rightarrow> cvars \<Rightarrow> MPIR_Process_t \<Rightarrow> cint \<Rightarrow> mem \<Rightarrow> int \<Rightarrow> int \<Rightarrow> errstate \<Rightarrow> (fault + (mem \<times> errstate)) option" where
  "MPIR_Err_get_string cfg tabs cv proc errorcode m pos length' st =
     (if length' = 0 then Some (Inr (m, st))
      else if errorcode AND ERROR_DYN_MASK cfg \<noteq> 0 then
        (case strncpy_terminated m pos
                (case errcode_to_string proc of
                   None \<Rightarrow> ''Undefined dynamic error code''
                 | Some f \<Rightarrow> f errorcode) length' of
           Inl f \<Rightarrow> Some (Inl f) | Inr m' \<Rightarrow> Some (Inr (m', st)))
      else if errorcode AND ERROR_CLASS_MASK cfg = errorcode then
        (case strncpy_terminated m pos (get_class_msg cfg tabs errorcode) length' of
           Inl f \<Rightarrow> Some (Inl f) | Inr m' \<Rightarrow> Some (Inr (m', st)))
      else
        (case strncpy_i m pos (get_class_msg cfg tabs (ERROR_GET_CLASS cfg errorcode)) length' of
           Inl f \<Rightarrow> Some (Inl f)
         | Inr (m1, rc) \<Rightarrow>
             (case poke_i m1 (pos + length' - 1) [NUL] of
                Inl f \<Rightarrow> Some (Inl f)
              | Inr m2 \<Rightarrow>
                  (case strlen_i m2 pos of
                     Inl f \<Rightarrow> Some (Inl f)
                   | Inr len \<Rightarrow>
                       (case ErrGetInstanceString cfg tabs cv errorcode m2 (pos + int len)
                               (length' - int len) st of
                          None \<Rightarrow> None
                        | Some (Inl f) \<Rightarrow> Some (Inl f)
                        | Some (Inr (rc', m3, st')) \<Rightarrow> Some (Inr (m3, st')))))))"

section \<open>Windows of a buffer\<close>

text \<open>Two buffers of the same length that agree before \<open>lo\<close> and from \<open>hi\<close> on: whatever
  was written between them went to the bytes \<open>lo\<close> to \<open>hi - 1\<close>.\<close>

definition same_outside :: "mem \<Rightarrow> mem \<Rightarrow> nat \<Rightarrow> nat \<Rightarrow> bool" where
  "same_outside m m' lo hi \<longleftrightarrow> length m' = length m \<and> take lo m' = take lo m \<and> drop hi m' = drop hi m"

section \<open>Causal chains, as the specification describes them\<close>

text \<open>
  The chain of a code: the ring slots reached by following \<open>prev_error\<close> from the code,
  each through a valid link. \<open>chain_to_success c js\<close> says that the walk from \<open>c\<close>
  visits the slots \<open>js\<close> and the last of them has success as its previous code;
  \<open>chain_to_stale c js\<close> says that the walk visits \<open>js\<close> and then meets a code whose
  link is invalid or stale.
\<close>

fun chain_to_success :: "errcodes \<Rightarrow> errstate \<Rightarrow> cint \<Rightarrow> nat list \<Rightarrow> bool" where
  "chain_to_success cfg st c [] = False"
| "chain_to_success cfg st c [i] =
     (link_ok cfg st c \<and> unat (ring_idx_of cfg c) = i \<and> prev_error (ErrorRing st i) = MPI_SUCCESS)"
| "chain_to_success cfg st c (i # j # js) =
     (link_ok cfg st c \<and> unat (ring_idx_of cfg c) = i \<and> prev_error (ErrorRing st i) \<noteq> MPI_SUCCESS \<and>
      chain_to_success cfg st (prev_error (ErrorRing st i)) (j # js))"

fun chain_to_stale :: "errcodes \<Rightarrow> errstate \<Rightarrow> cint \<Rightarrow> nat list \<Rightarrow> bool" where
  "chain_to_stale cfg st c [] = (\<not> link_ok cfg st c)"
| "chain_to_stale cfg st c (i # js) =
     (link_ok cfg st c \<and> unat (ring_idx_of cfg c) = i \<and> prev_error (ErrorRing st i) \<noteq> MPI_SUCCESS \<and>
      chain_to_stale cfg st (prev_error (ErrorRing st i)) js)"

text \<open>The class of a code whose class is \<^verbatim>\<open>MPI_ERR_OTHER\<close> is replaced; another code is
  kept.\<close>

definition promote_class :: "errcodes \<Rightarrow> cint \<Rightarrow> cint \<Rightarrow> cint" where
  "promote_class cfg error2_class p =
     (if ERROR_GET_CLASS cfg p = MPI_ERR_OTHER cfg
      then (p AND NOT (ERROR_CLASS_MASK cfg)) OR error2_class else p)"

text \<open>The ring after a merge along \<open>js\<close>: the last slot gets the appended code as its
  previous code (when the chain ended in success), the other slots of the chain get the
  class of their previous code promoted, every other slot is as before.\<close>

definition merged_ring :: "errcodes \<Rightarrow> cint \<Rightarrow> cint \<Rightarrow> bool \<Rightarrow> nat list \<Rightarrow> errstate \<Rightarrow> errstate" where
  "merged_ring cfg error2_code error2_class appended is st =
     st\<lparr>ErrorRing := (\<lambda>i.
        if i \<in> set is then
          (ErrorRing st i)\<lparr>prev_error :=
             (if appended \<and> i = last is then error2_code
              else promote_class cfg error2_class (prev_error (ErrorRing st i)))\<rparr>
        else ErrorRing st i)\<rparr>"

section \<open>Sample data\<close>

text \<open>A set of handles for the built-in handlers, an empty ring, and the resolution
  order of the handler as the specification words it.\<close>

definition mpich_handles :: errhandles where
  "mpich_handles = \<lparr>
     MPI_ERRORS_ARE_FATAL = 0x54000000,
     MPI_ERRORS_RETURN = 0x54000001,
     MPIR_ERRORS_THROW_EXCEPTIONS = 0x54000002,
     MPI_ERRORS_ABORT = 0x54000003 \<rparr>"

definition empty_entry :: MPIR_Err_msg where
  "empty_entry = \<lparr> entry_id = 0, prev_error = 0, use_user_error_code = 0,
     user_error_code = 0, location = [], msg = [] \<rparr>"

definition errstate0 :: errstate where
  "errstate0 = \<lparr> ErrorRing = (\<lambda>i. empty_entry), error_ring_loc = 0, max_error_ring_loc = 0,
     errlog = [] \<rparr>"

definition comm_has_handler :: "MPIR_Comm option \<Rightarrow> bool" where
  "comm_has_handler c \<longleftrightarrow> (case c of None \<Rightarrow> False | Some cm \<Rightarrow> comm_errhandler cm \<noteq> None)"

text \<open>The specification's table for a communicator: own handler, then the self-scope's
  handler, then the world-scope's handler, then none. The result is the communicator
  whose handler governs.\<close>

definition resolve_comm_spec :: "MPIR_Process_t \<Rightarrow> MPIR_Comm option \<Rightarrow> MPIR_Comm option" where
  "resolve_comm_spec proc comm =
     (if comm_has_handler comm then comm
      else if comm_has_handler (comm_self proc) then comm_self proc
      else if comm_has_handler (comm_world proc) then comm_world proc
      else None)"

definition user_handler :: "nat \<Rightarrow> MPIR_Errhandler" where
  "user_handler f = \<lparr> eh_handle = 0x94000000, language = MPIR_LANG__C, errfn = f, extra_state = 0 \<rparr>"

definition return_handler :: MPIR_Errhandler where
  "return_handler = \<lparr> eh_handle = 0x54000001, language = MPIR_LANG__C, errfn = 0, extra_state = 0 \<rparr>"

definition proc_with :: "MPIR_Comm option \<Rightarrow> MPIR_Comm option \<Rightarrow> MPIR_Process_t" where
  "proc_with self world = \<lparr> mpich_state = MPICH_MPI_STATE__INITIALIZED, comm_self = self,
     comm_world = world, errcode_to_string = None \<rparr>"

text \<open>A ring with one entry whose previous code is the bare class 5, and a ring with two
  chained entries.\<close>

definition ring_stale :: errstate where
  "ring_stale = \<lparr> ErrorRing = (\<lambda>i. empty_entry)
       (0 := \<lparr> entry_id = 0x2000010F, prev_error = 5, use_user_error_code = 0,
               user_error_code = 0, location = ''inner(10)'', msg = ''first'' \<rparr>),
     error_ring_loc = 1, max_error_ring_loc = 1, errlog = [] \<rparr>"

definition ring_two :: errstate where
  "ring_two = \<lparr> ErrorRing = (\<lambda>i. empty_entry)
       (0 := \<lparr> entry_id = 0x2000010F, prev_error = 0, use_user_error_code = 0,
               user_error_code = 0, location = ''inner(10)'', msg = ''first'' \<rparr>,
        1 := \<lparr> entry_id = 0x3000020F, prev_error = 0x2000010F, use_user_error_code = 0,
               user_error_code = 0, location = ''outer(20)'', msg = ''second'' \<rparr>),
     error_ring_loc = 2, max_error_ring_loc = 2, errlog = [] \<rparr>"

text \<open>
  What the theorems on created codes ask of the layout: the fatal mask is not empty and
  shares no bit with the class mask, the class mask shares no bit with the generic mask,
  the class and fatal masks lie below the three shifts, and \<^verbatim>\<open>MPI_ERR_OTHER\<close> is a class
  number.
\<close>

definition layout_ok :: "errcodes \<Rightarrow> bool" where
  "layout_ok cfg \<longleftrightarrow>
     ERROR_FATAL_MASK cfg \<noteq> 0 \<and>
     ERROR_CLASS_MASK cfg AND ERROR_FATAL_MASK cfg = 0 \<and>
     ERROR_CLASS_MASK cfg AND ERROR_GENERIC_MASK cfg = 0 \<and>
     take_bit (ERROR_GENERIC_SHIFT cfg) (ERROR_CLASS_MASK cfg) = ERROR_CLASS_MASK cfg \<and>
     take_bit (ERROR_SPECIFIC_INDEX_SHIFT cfg) (ERROR_CLASS_MASK cfg) = ERROR_CLASS_MASK cfg \<and>
     take_bit (ERROR_SPECIFIC_SEQ_SHIFT cfg) (ERROR_CLASS_MASK cfg) = ERROR_CLASS_MASK cfg \<and>
     take_bit (ERROR_GENERIC_SHIFT cfg) (ERROR_FATAL_MASK cfg) = ERROR_FATAL_MASK cfg \<and>
     take_bit (ERROR_SPECIFIC_INDEX_SHIFT cfg) (ERROR_FATAL_MASK cfg) = ERROR_FATAL_MASK cfg \<and>
     take_bit (ERROR_SPECIFIC_SEQ_SHIFT cfg) (ERROR_FATAL_MASK cfg) = ERROR_FATAL_MASK cfg \<and>
     MPI_ERR_OTHER cfg AND ERROR_CLASS_MASK cfg = MPI_ERR_OTHER cfg"

text \<open>The bits of a new code apart from the fatal bit.\<close>

definition code_body :: "errcodes \<Rightarrow> cint \<Rightarrow> cint \<Rightarrow> cint \<Rightarrow> cint \<Rightarrow> cint" where
  "code_body cfg error_class generic_idx ring_idx ring_seq =
     (if 0 \<le>s generic_idx
      then error_class OR push_bit (ERROR_GENERIC_SHIFT cfg) (generic_idx + 1)
      else error_class AND NOT (ERROR_GENERIC_MASK cfg)) OR
     push_bit (ERROR_SPECIFIC_INDEX_SHIFT cfg) ring_idx OR
     push_bit (ERROR_SPECIFIC_SEQ_SHIFT cfg) ring_seq"

text \<open>Message tables, handle values and datatype routines to run the functions on.\<close>

definition mk_msg :: "string \<Rightarrow> string \<Rightarrow> msgpair" where
  "mk_msg short long = \<lparr> sentinal1 = 0xacebad03, short_name = short, long_name = long,
     sentinal2 = 0xcb0bfa11 \<rparr>"

fun format_one_int :: "string \<Rightarrow> cint \<Rightarrow> string" where
  "format_one_int [] d = []"
| "format_one_int [c] d = [c]"
| "format_one_int (c # c' # cs) d =
     (if c = CHR ''%'' \<and> c' = CHR ''d'' then fmt_d d @ cs else c # format_one_int (c' # cs) d)"

definition sample_tables :: msg_tables where
  "sample_tables = \<lparr>
     generic_err_msgs =
       [mk_msg ''**arg'' ''Invalid argument'',
        mk_msg ''**fail'' ''failure'',
        mk_msg ''**other'' ''Other MPI error'',
        mk_msg ''**rank'' ''Invalid rank'',
        mk_msg ''**unknown'' ''Unknown error.  Please file a bug report.'',
        mk_msg ''**user'' ''user defined function returned an error code''],
     specific_err_msgs =
       [mk_msg ''**rank %d %d'' ''Invalid rank has value %d but must be nonnegative and less than %d'',
        mk_msg ''**userdel %d'' ''user delete function returned error code %d''],
     class_to_index = (\<lambda>c. if c = 12 then 0 else if c = 15 then 2 else if c = 6 then 3 else 4),
     char_is_signed = True,
     libc_snprintf_int = format_one_int \<rparr>"

definition sample_values :: mpi_values where
  "sample_values = \<lparr>
     MPI_ANY_SOURCE = - 2, MPI_PROC_NULL = - 1, MPI_ROOT = - 3, MPI_ANY_TAG = - 1,
     MPI_IN_PLACE = - 1,
     MPI_COMM_WORLD = 0x44000000, MPI_COMM_SELF = 0x44000001, MPI_COMM_NULL = 0x04000000,
     MPI_INFO_NULL = 0x1c000000, MPI_WIN_NULL = 0x20000000, MPI_GROUP_NULL = 0x08000000,
     MPI_REQUEST_NULL = 0x2c000000, MPI_ERRHANDLER_NULL = 0x14000000,
     MPI_SESSION_NULL = 0x38000000, HAVE_ROMIO = False, MPI_FILE_NULL = 0,
     libc_fmt_p = (\<lambda>p. if p = 0 then ''(nil)'' else ''0x'' @ hex_nat (unat p)) \<rparr>"

definition sample_ops :: mpi_ops where
  "sample_ops = \<lparr>
     MPI_OP_NULL = 0x18000000, MPI_MAX = 0x58000001, MPI_MIN = 0x58000002, MPI_SUM = 0x58000003,
     MPI_PROD = 0x58000004, MPI_LAND = 0x58000005, MPI_BAND = 0x58000006, MPI_LOR = 0x58000007,
     MPI_BOR = 0x58000008, MPI_LXOR = 0x58000009, MPI_BXOR = 0x5800000a, MPI_MINLOC = 0x5800000b,
     MPI_MAXLOC = 0x5800000c, MPI_REPLACE = 0x5800000d, MPI_NO_OP = 0x5800000e,
     MPIX_EQUAL = 0x5800000f \<rparr>"

definition sample_keyvals :: mpi_keyvals where
  "sample_keyvals = \<lparr>
     MPI_KEYVAL_INVALID = 0x24000000, MPI_TAG_UB = 0x64400001, MPI_HOST = 0x64400003,
     MPI_IO = 0x64400005, MPI_WTIME_IS_GLOBAL = 0x64400007, MPI_UNIVERSE_SIZE = 0x64400009,
     MPI_LASTUSEDCODE = 0x6440000b, MPI_APPNUM = 0x6440000d, MPI_WIN_BASE = 0x66000001,
     MPI_WIN_SIZE = 0x66000003, MPI_WIN_DISP_UNIT = 0x66000005,
     MPI_WIN_CREATE_FLAVOR = 0x66000007, MPI_WIN_MODEL = 0x66000009 \<rparr>"

definition sample_modes :: mpi_modes where
  "sample_modes = \<lparr>
     MPI_MODE_NOSTORE = 2048, MPI_MODE_NOCHECK = 1024, MPI_MODE_NOPUT = 4096,
     MPI_MODE_NOPRECEDE = 8192, MPI_MODE_NOSUCCEED = 16384 \<rparr>"

definition sample_dtypes :: dtype_env where
  "sample_dtypes = \<lparr>
     HANDLE_GET_MPI_KIND = (\<lambda>d. drop_bit 26 (d AND 0x3c000000)),
     HANDLE_GET_KIND = (\<lambda>d. drop_bit 30 d),
     MPIR_DATATYPE = 3, HANDLE_KIND_INVALID = 0, MPI_DATATYPE_NULL = 0x0c000000,
     MPIR_Type_get_combiner = (\<lambda>d. 1), MPI_COMBINER_NAMED = 1,
     MPIR_DATATYPE_GET_ORIG_BUILTIN = (\<lambda>d. d),
     MPIR_Datatype_builtin_to_string = (\<lambda>d. if d = 0x4c000405 then Some ''MPI_INT'' else None),
     MPIR_Datatype_combiner_to_string = (\<lambda>c. None) \<rparr>"

definition sample_renv :: renv where
  "sample_renv = \<lparr> vals = sample_values, ops = sample_ops, keyvals = sample_keyvals,
     modes = sample_modes, dtypes = sample_dtypes \<rparr>"

text \<open>The ring after one code of class 12 was created on the empty ring.\<close>

definition ring_after_arg :: errstate where
  "ring_after_arg = \<lparr> ErrorRing = (\<lambda>i. empty_entry)
       (0 := \<lparr> entry_id = 0x2800010C, prev_error = 0, use_user_error_code = 0,
               user_error_code = 0, location = ''MPI_Send(42)'', msg = ''Invalid argument'' \<rparr>),
     error_ring_loc = 1, max_error_ring_loc = 1, errlog = [] \<rparr>"

text \<open>The compact form of the instance text: \<^verbatim>\<open>MPIR_CVAR_PRINT_ERROR_STACK\<close> off.\<close>

definition compact_cvars :: cvars where
  "compact_cvars = \<lparr> MPIR_CVAR_PRINT_ERROR_STACK = False, MPIR_CVAR_CHOP_ERROR_STACK = 0 \<rparr>"

text \<open>The full form: the whole stack, lines not chopped.\<close>

definition full_cvars :: cvars where
  "full_cvars = \<lparr> MPIR_CVAR_PRINT_ERROR_STACK = True, MPIR_CVAR_CHOP_ERROR_STACK = 0 \<rparr>"

text \<open>The ring \<open>ring_after_arg\<close> after its code was combined with itself: the entry has its
  own code as previous code.\<close>

definition ring_self :: errstate where
  "ring_self = set_prev_error 0 0x2800018C ring_after_arg"

section \<open>Fatal classification\<close>

text \<open>
  C1. \<^verbatim>\<open>MPIR_Err_is_fatal\<close> is true exactly when the fatal bit of the code is set and
  its dynamic flag is clear; a code with the dynamic flag set is never fatal, whatever
  its fatal bit.
\<close>

theorem MPIR_Err_is_fatal_iff:
  "(MPIR_Err_is_fatal cfg errcode \<longleftrightarrow>
      errcode AND ERROR_FATAL_MASK cfg \<noteq> 0 \<and> errcode AND ERROR_DYN_MASK cfg = 0) \<and>
   (errcode AND ERROR_DYN_MASK cfg \<noteq> 0 \<longrightarrow> \<not> MPIR_Err_is_fatal cfg errcode)"
  by (simp add: MPIR_Err_is_fatal_def)

theorem MPIR_Err_is_fatal_iff_witness:
  "MPIR_Err_is_fatal mpich_layout 0x8F \<and> \<not> MPIR_Err_is_fatal mpich_layout 0x4000008F \<and>
   (0x4000008F :: cint) AND ERROR_DYN_MASK mpich_layout \<noteq> 0 \<and>
   (0x4000008F :: cint) AND ERROR_FATAL_MASK mpich_layout \<noteq> 0"
  using MPIR_Err_is_fatal_iff [of mpich_layout "0x8F"]
    MPIR_Err_is_fatal_iff [of mpich_layout "0x4000008F"]
  by (simp add: mpich_layout_def)

section \<open>Combining with success or with a dynamic code\<close>

text \<open>
  C2. \<^verbatim>\<open>MPIR_Err_combine_codes\<close>: success is an identity on either side; of two codes
  that are not success, one with the dynamic flag is returned as it is, the first one
  when both have the flag. The ring is left as it was.
\<close>

theorem MPIR_Err_combine_codes_identity:
  "MPIR_Err_combine_codes cfg MPI_SUCCESS x st = Some (x, st) \<and>
   MPIR_Err_combine_codes cfg x MPI_SUCCESS st = Some (x, st) \<and>
   (a \<noteq> MPI_SUCCESS \<and> b \<noteq> MPI_SUCCESS \<and> a AND ERROR_DYN_MASK cfg \<noteq> 0 \<longrightarrow>
      MPIR_Err_combine_codes cfg a b st = Some (a, st)) \<and>
   (a \<noteq> MPI_SUCCESS \<and> b \<noteq> MPI_SUCCESS \<and> a AND ERROR_DYN_MASK cfg = 0 \<and>
    b AND ERROR_DYN_MASK cfg \<noteq> 0 \<longrightarrow>
      MPIR_Err_combine_codes cfg a b st = Some (b, st))"
  by (simp add: MPIR_Err_combine_codes_def)

theorem MPIR_Err_combine_codes_identity_witness:
  "MPIR_Err_combine_codes mpich_layout MPI_SUCCESS 0x21 errstate0 = Some (0x21, errstate0) \<and>
   MPIR_Err_combine_codes mpich_layout 0x21 MPI_SUCCESS errstate0 = Some (0x21, errstate0) \<and>
   MPIR_Err_combine_codes mpich_layout 0x40000105 0x40000203 errstate0 =
     Some (0x40000105, errstate0) \<and>
   MPIR_Err_combine_codes mpich_layout 0x0C 0x40000203 errstate0 = Some (0x40000203, errstate0)"
  using MPIR_Err_combine_codes_identity [of mpich_layout "0x21" errstate0 "0x40000105" "0x40000203"]
    MPIR_Err_combine_codes_identity [of mpich_layout "0x21" errstate0 "0x0C" "0x40000203"]
  by (simp add: mpich_layout_def MPI_SUCCESS_def)

section \<open>Repair of an invalid class\<close>

lemma class_bits_replaced:
  fixes x m u :: cint
  assumes "u AND m = u"
  shows "((x AND NOT m) OR u) AND m = u" and "((x AND NOT m) OR u) AND NOT m = x AND NOT m"
proof -
  show "((x AND NOT m) OR u) AND m = u"
    using assms by (simp add: bit.conj_disj_distrib2 and.assoc)
  have "u AND NOT m = (u AND m) AND NOT m"
    using assms by simp
  also have "\<dots> = 0"
    by (simp add: and.assoc)
  finally show "((x AND NOT m) OR u) AND NOT m = x AND NOT m"
    by (simp add: bit.conj_disj_distrib2 and.assoc)
qed

text \<open>
  C6, as the code has it. The repair is triggered by a class above
  \<^verbatim>\<open>MPICH_ERR_LAST_MPIX\<close> only: then the class bits become \<^verbatim>\<open>MPI_ERR_UNKNOWN\<close>, the other
  bits stay, one diagnostic is printed, and the routine returns 1. Every other code,
  also one whose class lies between the two valid ranges, is passed through unmodified,
  without a diagnostic. The routine always returns.
\<close>

theorem checkValidErrcode_repair:
  assumes "MPI_ERR_UNKNOWN cfg AND ERROR_CLASS_MASK cfg = MPI_ERR_UNKNOWN cfg"
  shows "case checkValidErrcode cfg (ERROR_GET_CLASS cfg errcode) fcname errcode st of
           (rc, errcode', st') \<Rightarrow>
             if MPICH_ERR_LAST_MPIX cfg <s ERROR_GET_CLASS cfg errcode
             then rc = 1 \<and> ERROR_GET_CLASS cfg errcode' = MPI_ERR_UNKNOWN cfg \<and>
                  errcode' AND NOT (ERROR_CLASS_MASK cfg) = errcode AND NOT (ERROR_CLASS_MASK cfg) \<and>
                  st' = st\<lparr>errlog := errlog st @
                    [invalid_class_msg (errcode AND NOT (ERROR_CLASS_MASK cfg) \<noteq> 0)
                       (ERROR_GET_CLASS cfg errcode) fcname]\<rparr>
             else rc = 0 \<and> errcode' = errcode \<and> st' = st"
  using class_bits_replaced [OF assms, of errcode]
  by (simp add: checkValidErrcode_def ERROR_GET_CLASS_def MPL_error_printf_def)

theorem checkValidErrcode_repair_witness:
  "checkValidErrcode mpich_layout (ERROR_GET_CLASS mpich_layout 0x178) ''MPI_Send'' 0x178 errstate0 =
     (1, 0x10D, errstate0\<lparr>errlog := [invalid_class_msg True 0x78 ''MPI_Send'']\<rparr>) \<and>
   checkValidErrcode mpich_layout (ERROR_GET_CLASS mpich_layout 0x105) ''MPI_Send'' 0x105 errstate0 =
     (0, 0x105, errstate0)"
  using checkValidErrcode_repair [where cfg = mpich_layout and errcode = "0x178"
      and fcname = "''MPI_Send''" and st = errstate0]
    checkValidErrcode_repair [where cfg = mpich_layout and errcode = "0x105"
      and fcname = "''MPI_Send''" and st = errstate0]
  by (simp add: checkValidErrcode_def ERROR_GET_CLASS_def mpich_layout_def word_sless_alt
      MPL_error_printf_def errstate0_def)

text \<open>
  The claim as worded fails on a class between the two valid ranges: class 100 is not
  a valid class, and the code with that class comes back as it went in.
\<close>

theorem checkValidErrcode_gap_counterexample:
  "\<not> is_valid_error_class mpich_layout (ERROR_GET_CLASS mpich_layout 100) \<and>
   checkValidErrcode mpich_layout (ERROR_GET_CLASS mpich_layout 100) ''MPI_Send'' 100 errstate0 =
     (0, 100, errstate0)"
  by (simp add: is_valid_error_class_def checkValidErrcode_def ERROR_GET_CLASS_def mpich_layout_def
      word_sless_alt word_sle_eq)

section \<open>Dispatch on a communicator\<close>

text \<open>
  C3, as the code has it. After initialization, \<^verbatim>\<open>MPIR_Err_return_comm\<close> resolves the
  handler in the specification's order (own, self-scope, world-scope). With no handler
  it enters the fatal path; with a handler it enters the fatal path when the repaired
  code is classified fatal by \<^verbatim>\<open>MPIR_Err_is_fatal\<close> (fatal bit set and dynamic flag
  clear) or the handler is the Fatal or the Abort one; otherwise it calls the handler on
  the code \<^verbatim>\<open>checkForUserErrcode\<close> gives and returns what the call returns.
\<close>

theorem MPIR_Err_return_comm_dispatch:
  assumes "MPIR_Errutil_is_initialized proc"
  shows "fst (MPIR_Err_return_comm cfg hs proc comm fcname errcode st) =
     (case checkValidErrcode cfg (ERROR_GET_CLASS cfg errcode) fcname errcode st of
        (rc, code', st') \<Rightarrow>
          (case resolve_comm_spec proc comm of
             None \<Rightarrow> Fatal_error comm fcname code'
           | Some cm \<Rightarrow>
               if MPIR_Err_is_fatal cfg code' \<or>
                  eh_handle (the (comm_errhandler cm)) = MPI_ERRORS_ARE_FATAL hs \<or>
                  eh_handle (the (comm_errhandler cm)) = MPI_ERRORS_ABORT hs
               then Fatal_error (Some cm) fcname code'
               else MPIR_call_errhandler hs (the (comm_errhandler cm))
                      (fst (checkForUserErrcode cfg code' st')) MPIR_COMM (comm_handle cm)))"
proof -
  obtain rc code' st' where cv:
    "checkValidErrcode cfg (ERROR_GET_CLASS cfg errcode) fcname errcode st = (rc, code', st')"
    by (metis prod_cases3)
  show ?thesis
    using assms
    by (simp add: MPIR_Err_return_comm_def Let_def cv split_def
        resolve_comm_spec_def comm_has_handler_def default_comm_def MPIR_Handle_fatal_error_def
        split: option.splits)
qed

lemma checkValidErrcode_small:
  "checkValidErrcode mpich_layout (ERROR_GET_CLASS mpich_layout 5) fcname 5 st = (0, 5, st)"
  by (simp add: checkValidErrcode_def ERROR_GET_CLASS_def mpich_layout_def word_sless_alt)

lemma checkForUserErrcode_small:
  "checkForUserErrcode mpich_layout 5 errstate0 = (5, errstate0)"
  by (simp add: checkForUserErrcode_def convertErrcodeToIndexes_def ring_idx_of_def MPI_SUCCESS_def
      MAX_ERROR_RING_def errstate0_def generic_idx_of_def mpich_layout_def word_sless_alt word_sle_eq)

theorem MPIR_Err_return_comm_dispatch_witness:
  "MPIR_Errutil_is_initialized
     (proc_with (Some \<lparr>comm_handle = 0x44000001, comm_errhandler = Some (user_handler 7)\<rparr>) None) \<and>
   fst (MPIR_Err_return_comm mpich_layout mpich_handles
          (proc_with (Some \<lparr>comm_handle = 0x44000001, comm_errhandler = Some (user_handler 7)\<rparr>) None)
          None ''MPI_Send'' 5 errstate0) =
     Returns 0 [C_Handler_call 7 MPIR_COMM 0x44000001 5] \<and>
   fst (MPIR_Err_return_comm mpich_layout mpich_handles (proc_with None None)
          None ''MPI_Send'' 5 errstate0) = Fatal_error None ''MPI_Send'' 5"
proof -
  have i1: "MPIR_Errutil_is_initialized
     (proc_with (Some \<lparr>comm_handle = 0x44000001, comm_errhandler = Some (user_handler 7)\<rparr>) None)"
    by (simp add: MPIR_Errutil_is_initialized_def proc_with_def)
  have i2: "MPIR_Errutil_is_initialized (proc_with None None)"
    by (simp add: MPIR_Errutil_is_initialized_def proc_with_def)
  have nf: "\<not> MPIR_Err_is_fatal mpich_layout 5"
    by (simp add: MPIR_Err_is_fatal_def mpich_layout_def)
  show ?thesis
    using MPIR_Err_return_comm_dispatch [OF i1, where cfg = mpich_layout and hs = mpich_handles
        and comm = None and fcname = "''MPI_Send''" and errcode = 5 and st = errstate0]
      MPIR_Err_return_comm_dispatch [OF i2, where cfg = mpich_layout and hs = mpich_handles
        and comm = None and fcname = "''MPI_Send''" and errcode = 5 and st = errstate0]
    by (simp add: MPIR_Errutil_is_initialized_def checkValidErrcode_small checkForUserErrcode_small nf resolve_comm_spec_def
        comm_has_handler_def proc_with_def user_handler_def mpich_handles_def
        MPIR_call_errhandler_def MPI_SUCCESS_def)
qed

text \<open>
  The claim as worded makes a set fatal bit sufficient for the fatal path. A code with
  the dynamic flag and the fatal bit, reported on a communicator whose handler is the
  Return one, is returned to the caller instead.
\<close>

lemma checkValidErrcode_dyn:
  "checkValidErrcode mpich_layout (ERROR_GET_CLASS mpich_layout 0x40000081) fcname 0x40000081 st =
     (0, 0x40000081, st)"
  by (simp add: checkValidErrcode_def ERROR_GET_CLASS_def mpich_layout_def word_sless_alt)

lemma checkForUserErrcode_dyn:
  "checkForUserErrcode mpich_layout 0x40000081 errstate0 = (0x40000081, errstate0)"
  by (simp add: checkForUserErrcode_def convertErrcodeToIndexes_def ring_idx_of_def MPI_SUCCESS_def
      MAX_ERROR_RING_def errstate0_def generic_idx_of_def mpich_layout_def word_sless_alt word_sle_eq)

theorem MPIR_Err_return_comm_fatal_bit_counterexample:
  "(0x40000081 :: cint) AND ERROR_FATAL_MASK mpich_layout \<noteq> 0 \<and>
   MPIR_Errutil_is_initialized (proc_with None None) \<and>
   fst (MPIR_Err_return_comm mpich_layout mpich_handles (proc_with None None)
          (Some \<lparr>comm_handle = 0x84000000, comm_errhandler = Some return_handler\<rparr>)
          ''MPI_Send'' 0x40000081 errstate0) = Returns 0x40000081 []"
proof -
  have nf: "\<not> MPIR_Err_is_fatal mpich_layout 0x40000081"
    by (simp add: MPIR_Err_is_fatal_def mpich_layout_def)
  have fb: "(0x40000081 :: cint) AND ERROR_FATAL_MASK mpich_layout \<noteq> 0"
    by (simp add: mpich_layout_def)
  show ?thesis
    by (simp add: fb MPIR_Err_return_comm_def Let_def checkValidErrcode_dyn checkForUserErrcode_dyn nf
        MPIR_Errutil_is_initialized_def proc_with_def return_handler_def mpich_handles_def
        MPIR_call_errhandler_def)
qed

section \<open>Merging two chains\<close>

lemma link_ok_set_prev_error [simp]:
  "link_ok cfg (set_prev_error i v st) c = link_ok cfg st c"
  by (simp add: link_ok_def set_prev_error_def convertErrcodeToIndexes_def ring_entry_def)







lemma merged_ring_others [simp]:
  "error_ring_loc (merged_ring cfg b bc ap js st) = error_ring_loc st"
  "max_error_ring_loc (merged_ring cfg b bc ap js st) = max_error_ring_loc st"
  "errlog (merged_ring cfg b bc ap js st) = errlog st"
  "errstate.more (merged_ring cfg b bc ap js st) = errstate.more st"
  by (simp_all add: merged_ring_def)

lemma set_prev_error_others [simp]:
  "error_ring_loc (set_prev_error i v st) = error_ring_loc st"
  "max_error_ring_loc (set_prev_error i v st) = max_error_ring_loc st"
  "errlog (set_prev_error i v st) = errlog st"
  "errstate.more (set_prev_error i v st) = errstate.more st"
  by (simp_all add: set_prev_error_def)









lemmas decode_defs = link_ok_def convertErrcodeToIndexes_def ring_idx_of_def ring_id_of_def
  generic_idx_of_def ring_entry_def MAX_ERROR_RING_def word_sless_alt word_sle_eq

lemma stale_links:
  "link_ok mpich_layout ring_stale 0x2000010F"
  "unat (ring_idx_of mpich_layout 0x2000010F) = 0"
  "\<not> link_ok mpich_layout ring_stale 5"
  "prev_error (ErrorRing ring_stale 0) = 5"
  by (simp_all add: decode_defs mpich_layout_def ring_stale_def)

lemma two_links:
  "link_ok mpich_layout ring_two 0x3008020F"
  "unat (ring_idx_of mpich_layout 0x3008020F) = Suc 0"
  "link_ok mpich_layout ring_two 0x2000010F"
  "prev_error (ErrorRing ring_two (Suc 0)) = 0x2000010F"
  "prev_error (ErrorRing ring_two 0) = 0"
  by (simp_all add: decode_defs mpich_layout_def ring_two_def)

lemma chain_stale: "chain_to_stale mpich_layout ring_stale 0x2000010F [0]"
  by (simp add: stale_links MPI_SUCCESS_def)

lemma chain_two: "chain_to_success mpich_layout ring_two 0x3008020F [Suc 0, 0]"
  by (simp add: two_links stale_links(2) MPI_SUCCESS_def)








section \<open>Creating a code\<close>

lemma push_bit_and_low:
  fixes x m :: cint
  assumes "take_bit n m = m"
  shows "push_bit n x AND m = 0"
proof (rule bit_eqI)
  fix i
  have "bit m i \<Longrightarrow> i < n"
    using assms by (metis bit_take_bit_iff)
  then show "bit (push_bit n x AND m) i \<longleftrightarrow> bit (0 :: cint) i"
    by (auto simp add: bit_and_iff bit_push_bit_iff)
qed

lemma code_body_class:
  assumes "layout_ok cfg" "c AND ERROR_CLASS_MASK cfg = c"
  shows "code_body cfg c gi ri rs AND ERROR_CLASS_MASK cfg = c"
proof -
  let ?m = "ERROR_CLASS_MASK cfg"
  have g: "push_bit (ERROR_GENERIC_SHIFT cfg) (gi + 1) AND ?m = 0"
    and i: "push_bit (ERROR_SPECIFIC_INDEX_SHIFT cfg) ri AND ?m = 0"
    and s: "push_bit (ERROR_SPECIFIC_SEQ_SHIFT cfg) rs AND ?m = 0"
    using assms(1) by (auto simp add: layout_ok_def intro!: push_bit_and_low)
  have n: "(c AND NOT (ERROR_GENERIC_MASK cfg)) AND ?m = c"
  proof -
    have "(c AND NOT (ERROR_GENERIC_MASK cfg)) AND ?m = (c AND ?m) AND NOT (ERROR_GENERIC_MASK cfg)"
      by (simp add: ac_simps)
    also have "\<dots> = c AND (?m AND NOT (ERROR_GENERIC_MASK cfg))"
      by (simp add: ac_simps)
    also have "?m AND NOT (ERROR_GENERIC_MASK cfg) = ?m"
      using assms(1) by (simp add: layout_ok_def bit.conj_disj_distrib bit_eq_iff bit_and_iff bit_not_iff) metis
    finally show ?thesis using assms(2) by simp
  qed
  show ?thesis
    using g i s n assms(2)
    by (simp add: code_body_def bit.conj_disj_distrib2)
qed

lemma code_body_fatal:
  assumes "layout_ok cfg" "c AND ERROR_CLASS_MASK cfg = c"
  shows "code_body cfg c gi ri rs AND ERROR_FATAL_MASK cfg = 0"
proof -
  let ?f = "ERROR_FATAL_MASK cfg"
  have g: "push_bit (ERROR_GENERIC_SHIFT cfg) (gi + 1) AND ?f = 0"
    and i: "push_bit (ERROR_SPECIFIC_INDEX_SHIFT cfg) ri AND ?f = 0"
    and s: "push_bit (ERROR_SPECIFIC_SEQ_SHIFT cfg) rs AND ?f = 0"
    using assms(1) by (auto simp add: layout_ok_def intro!: push_bit_and_low)
  have c: "c AND ?f = 0"
  proof -
    have "c AND ?f = c AND (ERROR_CLASS_MASK cfg AND ?f)"
      using assms(2) by (metis and.assoc)
    then show ?thesis using assms(1) by (simp add: layout_ok_def)
  qed
  have n: "(c AND NOT (ERROR_GENERIC_MASK cfg)) AND ?f = 0"
    using c by (metis and.assoc and.commute and_zero_eq)
  show ?thesis
    using g i s n c
    by (simp add: code_body_def bit.conj_disj_distrib2)
qed

lemma create_code_shape:
  assumes "MPIR_Err_create_code_valist cfg env tabs lastcode fatal fcname line error_class
             generic_msg specific_msg Argp st = Inr (code, st')"
    and "effective_class cfg (fst (checked_lastcode cfg tabs lastcode fcname line st)) error_class
           \<noteq> MPI_ERR_IN_STATUS cfg"
  shows "\<exists>gi ri rs. code =
     (if fatal \<noteq> 0 \<or> MPIR_Err_is_fatal cfg (fst (checked_lastcode cfg tabs lastcode fcname line st))
      then code_body cfg
             (effective_class cfg (fst (checked_lastcode cfg tabs lastcode fcname line st)) error_class)
             gi ri rs OR ERROR_FATAL_MASK cfg
      else code_body cfg
             (effective_class cfg (fst (checked_lastcode cfg tabs lastcode fcname line st)) error_class)
             gi ri rs)"
  using assms
  by (auto simp add: MPIR_Err_create_code_valist_def Let_def code_body_def
      split: prod.splits sum.splits if_splits)

lemmas table_defs = sample_tables_def mk_msg_def FindGenericMsgIndex_def FindSpecificMsgIndex_def
  is_user_msg_def specific_format_def generic_msgs_len_def

lemmas create_defs = MPIR_Err_create_code_valist_def checked_lastcode_def checkErrcodeIsValid_def
  effective_class_def user_code_and_msg_def ring_msg_text_def carried_user_code_def
  location_text_def next_ring_loc_def ErrcodeCreateID_def c_rem_def char_to_uint_def
  MPIR_MAX_ERROR_LINE_def MAX_LOCATION_LEN_def is_valid_error_class_def ERROR_GET_CLASS_def
  MPIR_Err_is_fatal_def MPL_strncpy_def poke_def cstr_def NUL_def NL_def MPL_error_printf_def
  ErrcodeInvalidReasonStr_def invalid_code_msg_def

lemma find_fail: "FindGenericMsgIndex sample_tables ''**fail'' = 1"
  by (simp add: table_defs)

lemma reset_stale:
  "fst (checked_lastcode mpich_layout sample_tables 0x185 (Some ''MPI_Send'') 42 errstate0) = MPI_SUCCESS"
  by (simp add: create_defs decode_defs mpich_layout_def errstate0_def empty_entry_def MPI_SUCCESS_def
      split: prod.splits)

lemma ev1:
  "map_sum id fst (MPIR_Err_create_code_valist mpich_layout sample_renv sample_tables 0x185 0
      (Some ''MPI_Send'') 42 15 ''**fail'' None [] errstate0) = Inr 0x2000020F"
  apply (simp add: create_defs Let_def decode_defs find_fail table_defs
     mpich_layout_def errstate0_def empty_entry_def MPI_SUCCESS_def signed_modulo_int_def
      split: prod.splits)
  done


lemma checked_lastcode_ring:
  "ErrorRing (snd (checked_lastcode cfg tabs lastcode fcname line st)) = ErrorRing st"
  "error_ring_loc (snd (checked_lastcode cfg tabs lastcode fcname line st)) = error_ring_loc st"
  "max_error_ring_loc (snd (checked_lastcode cfg tabs lastcode fcname line st)) = max_error_ring_loc st"
  by (simp_all add: checked_lastcode_def checkErrcodeIsValid_def MPL_error_printf_def Let_def
      split: prod.splits)

lemma checked_lastcode_value:
  "fst (checked_lastcode cfg tabs lastcode fcname line st) =
     (if lastcode \<noteq> MPI_SUCCESS \<and> fst (checkErrcodeIsValid cfg tabs lastcode st) \<noteq> 0
      then MPI_SUCCESS else lastcode)"
  by (simp add: checked_lastcode_def split: prod.splits)

text \<open>
  C5. When the effective class of a call (the class argument, or for \<^verbatim>\<open>MPI_ERR_OTHER\<close>
  the class taken over from the checked previous code) is \<^verbatim>\<open>MPI_ERR_IN_STATUS\<close>, the
  call returns exactly \<^verbatim>\<open>MPI_ERR_IN_STATUS\<close>: no index, sequence number or fatal bit is
  attached, and the ring, its cursor and its high-water mark are as before, so no slot
  is taken and nothing is chained.
\<close>

theorem create_code_in_status:
  assumes "effective_class cfg (fst (checked_lastcode cfg tabs lastcode fcname line st)) error_class =
             MPI_ERR_IN_STATUS cfg"
  shows "MPIR_Err_create_code_valist cfg env tabs lastcode fatal fcname line error_class generic_msg
           specific_msg Argp st =
           Inr (MPI_ERR_IN_STATUS cfg, snd (checked_lastcode cfg tabs lastcode fcname line st)) \<and>
         ErrorRing (snd (checked_lastcode cfg tabs lastcode fcname line st)) = ErrorRing st \<and>
         error_ring_loc (snd (checked_lastcode cfg tabs lastcode fcname line st)) = error_ring_loc st \<and>
         max_error_ring_loc (snd (checked_lastcode cfg tabs lastcode fcname line st)) =
           max_error_ring_loc st"
proof -
  obtain lastcode' st1 where cl: "checked_lastcode cfg tabs lastcode fcname line st = (lastcode', st1)"
    by force
  show ?thesis
    using assms checked_lastcode_ring [of cfg tabs lastcode fcname line st]
    by (simp add: MPIR_Err_create_code_valist_def cl Let_def)
qed

lemma checked_17:
  "checked_lastcode mpich_layout sample_tables 17 (Some ''MPI_Waitall'') 7 errstate0 = (17, errstate0)"
  by (simp add: create_defs mpich_layout_def MPI_SUCCESS_def word_sle_eq)

lemma checked_0:
  "checked_lastcode cfg tabs 0 fcname line st = (0, st)"
  by (simp add: checked_lastcode_def MPI_SUCCESS_def)

theorem create_code_in_status_witness:
  "MPIR_Err_create_code_valist mpich_layout sample_renv sample_tables 0 1 (Some ''MPI_Waitall'') 7
     17 ''**fail'' None [] errstate0 = Inr (17, errstate0) \<and>
   MPIR_Err_create_code_valist mpich_layout sample_renv sample_tables 17 0 (Some ''MPI_Waitall'') 7
     15 ''**fail'' None [] errstate0 = Inr (17, errstate0)"
proof -
  have "effective_class mpich_layout 0 17 = MPI_ERR_IN_STATUS mpich_layout"
    by (simp add: effective_class_def mpich_layout_def)
  then have e1: "effective_class mpich_layout
      (fst (checked_lastcode mpich_layout sample_tables 0 (Some ''MPI_Waitall'') 7 errstate0)) 17 =
      MPI_ERR_IN_STATUS mpich_layout"
    by (simp only: checked_0 fst_conv)
  have "effective_class mpich_layout 17 15 = MPI_ERR_IN_STATUS mpich_layout"
    by (simp add: effective_class_def mpich_layout_def ERROR_GET_CLASS_def MPI_SUCCESS_def
        word_sless_alt word_sle_eq)
  then have e2: "effective_class mpich_layout
      (fst (checked_lastcode mpich_layout sample_tables 17 (Some ''MPI_Waitall'') 7 errstate0)) 15 =
      MPI_ERR_IN_STATUS mpich_layout"
    by (simp only: checked_17 fst_conv)
  have i: "MPI_ERR_IN_STATUS mpich_layout = 17"
    by (simp add: mpich_layout_def)
  show ?thesis
    using create_code_in_status [OF e1, of sample_renv 1 "''**fail''" None "[]"]
      create_code_in_status [OF e2, of sample_renv 0 "''**fail''" None "[]"]
    by (simp add: checked_0 checked_17 i)
qed

text \<open>
  C9, as the code has it. For a call whose class argument is a class number and whose
  effective class is not \<^verbatim>\<open>MPI_ERR_IN_STATUS\<close>, the fatal bit of the returned code is set
  exactly when the fatal argument is non-zero or the previous code passes
  \<^verbatim>\<open>checkErrcodeIsValid\<close> and is classified fatal by \<^verbatim>\<open>MPIR_Err_is_fatal\<close>. A previous
  code that fails the check is replaced by success before its fatality is looked at.
\<close>

theorem create_code_fatal_bit:
  assumes "layout_ok cfg"
    and "error_class AND ERROR_CLASS_MASK cfg = error_class"
    and "MPIR_Err_create_code_valist cfg env tabs lastcode fatal fcname line error_class generic_msg
           specific_msg Argp st = Inr (code, st')"
    and "effective_class cfg (fst (checked_lastcode cfg tabs lastcode fcname line st)) error_class \<noteq>
           MPI_ERR_IN_STATUS cfg"
  shows "code AND ERROR_FATAL_MASK cfg \<noteq> 0 \<longleftrightarrow>
           fatal \<noteq> 0 \<or>
           (fst (checkErrcodeIsValid cfg tabs lastcode st) = 0 \<and> MPIR_Err_is_fatal cfg lastcode)"
proof -
  let ?last = "fst (checked_lastcode cfg tabs lastcode fcname line st)"
  let ?eff = "effective_class cfg ?last error_class"
  have eff: "?eff AND ERROR_CLASS_MASK cfg = ?eff"
    using assms(1,2) by (simp add: effective_class_def ERROR_GET_CLASS_def layout_ok_def and.assoc)
  obtain gi ri rs where code: "code =
      (if fatal \<noteq> 0 \<or> MPIR_Err_is_fatal cfg ?last
       then code_body cfg ?eff gi ri rs OR ERROR_FATAL_MASK cfg
       else code_body cfg ?eff gi ri rs)"
    using create_code_shape [OF assms(3,4)] by blast
  have nz: "ERROR_FATAL_MASK cfg \<noteq> 0"
    using assms(1) by (simp add: layout_ok_def)
  have bit: "code AND ERROR_FATAL_MASK cfg \<noteq> 0 \<longleftrightarrow> fatal \<noteq> 0 \<or> MPIR_Err_is_fatal cfg ?last"
    using code_body_fatal [OF assms(1) eff, of gi ri rs] nz
    by (simp add: code bit.conj_disj_distrib2)
  have last: "MPIR_Err_is_fatal cfg ?last \<longleftrightarrow>
      fst (checkErrcodeIsValid cfg tabs lastcode st) = 0 \<and> MPIR_Err_is_fatal cfg lastcode"
    by (auto simp add: checked_lastcode_value MPIR_Err_is_fatal_def MPI_SUCCESS_def)
  show ?thesis
    using bit last by simp
qed

text \<open>
  C10, as the code has it. A call with the class \<^verbatim>\<open>MPI_ERR_OTHER\<close> returns a code with
  the class of the previous code when that code is not success, passes
  \<^verbatim>\<open>checkErrcodeIsValid\<close>, and has a class above success and not above
  \<^verbatim>\<open>MPICH_ERR_LAST_MPIX\<close>; it returns a code of class \<^verbatim>\<open>MPI_ERR_OTHER\<close> when the previous
  code fails the check, or its class is success, or its class is above
  \<^verbatim>\<open>MPICH_ERR_LAST_MPIX\<close>.
\<close>

theorem create_code_other_class:
  assumes "layout_ok cfg"
    and "MPIR_Err_create_code_valist cfg env tabs lastcode fatal fcname line (MPI_ERR_OTHER cfg)
           generic_msg specific_msg Argp st = Inr (code, st')"
  shows "(lastcode \<noteq> MPI_SUCCESS \<and> fst (checkErrcodeIsValid cfg tabs lastcode st) = 0 \<and>
          MPI_SUCCESS <s ERROR_GET_CLASS cfg lastcode \<and>
          ERROR_GET_CLASS cfg lastcode \<le>s MPICH_ERR_LAST_MPIX cfg \<longrightarrow>
            ERROR_GET_CLASS cfg code = ERROR_GET_CLASS cfg lastcode) \<and>
         ((lastcode \<noteq> MPI_SUCCESS \<and> fst (checkErrcodeIsValid cfg tabs lastcode st) \<noteq> 0) \<or>
          \<not> MPI_SUCCESS <s ERROR_GET_CLASS cfg lastcode \<or>
          MPICH_ERR_LAST_MPIX cfg <s ERROR_GET_CLASS cfg lastcode \<longrightarrow>
            ERROR_GET_CLASS cfg code = MPI_ERR_OTHER cfg)"
proof -
  let ?last = "fst (checked_lastcode cfg tabs lastcode fcname line st)"
  let ?eff = "effective_class cfg ?last (MPI_ERR_OTHER cfg)"
  have other: "MPI_ERR_OTHER cfg AND ERROR_CLASS_MASK cfg = MPI_ERR_OTHER cfg"
    using assms(1) by (simp add: layout_ok_def)
  have eff: "?eff AND ERROR_CLASS_MASK cfg = ?eff"
    using other by (simp add: effective_class_def ERROR_GET_CLASS_def and.assoc)
  have cf: "ERROR_CLASS_MASK cfg AND ERROR_FATAL_MASK cfg = 0"
    using assms(1) by (simp add: layout_ok_def)
  have cls: "ERROR_GET_CLASS cfg code = ?eff"
  proof (cases "?eff = MPI_ERR_IN_STATUS cfg")
    case True
    then have "code = MPI_ERR_IN_STATUS cfg"
      using assms(2) create_code_in_status [OF True, of env fatal generic_msg specific_msg Argp]
      by simp
    then show ?thesis
      using True eff by (simp add: ERROR_GET_CLASS_def)
  next
    case False
    obtain gi ri rs where code: "code =
        (if fatal \<noteq> 0 \<or> MPIR_Err_is_fatal cfg ?last
         then code_body cfg ?eff gi ri rs OR ERROR_FATAL_MASK cfg
         else code_body cfg ?eff gi ri rs)"
      using create_code_shape [OF assms(2) False] by blast
    have "ERROR_FATAL_MASK cfg AND ERROR_CLASS_MASK cfg = 0"
      using cf by (simp add: and.commute)
    then show ?thesis
      using code_body_class [OF assms(1) eff, of gi ri rs]
      by (simp add: code ERROR_GET_CLASS_def bit.conj_disj_distrib2)
  qed
  have zero: "ERROR_GET_CLASS cfg MPI_SUCCESS = MPI_SUCCESS"
    by (simp add: ERROR_GET_CLASS_def MPI_SUCCESS_def)
  have nless: "\<not> MPI_SUCCESS <s MPI_SUCCESS"
    by (simp add: word_sless_alt)
  show ?thesis
    using zero nless
    by (auto simp add: cls effective_class_def checked_lastcode_value word_sless_alt word_sle_eq)
qed


lemma Inr_fstI: "map_sum id fst r = Inr c \<Longrightarrow> \<exists>st'. r = Inr (c, st')"
  by (cases r) auto

lemma create_arg_fatal:
  "MPIR_Err_create_code_valist mpich_layout sample_renv sample_tables 0 1 (Some ''MPI_Send'') 42 12
     ''**arg'' None [] errstate0 = Inr (0x2800018C, ring_after_arg)"
  by (simp add: create_defs Let_def decode_defs table_defs ring_after_arg_def
      mpich_layout_def errstate0_def empty_entry_def MPI_SUCCESS_def signed_modulo_int_def
      fmt_d_def dec_nat.simps digit_char_def word_sless_alt)

lemma create_wrapped:
  "map_sum id fst (MPIR_Err_create_code_valist mpich_layout sample_renv sample_tables 0x2800018C 0
     (Some ''MPI_Bcast'') 9 15 ''**fail'' None [] ring_after_arg) = Inr 0x2008028C"
  by (simp add: create_defs Let_def decode_defs table_defs ring_after_arg_def
      mpich_layout_def empty_entry_def MPI_SUCCESS_def signed_modulo_int_def split: prod.splits)

lemma create_stale_105:
  "map_sum id fst (MPIR_Err_create_code_valist mpich_layout sample_renv sample_tables 0x105 0
      (Some ''MPI_Send'') 42 15 ''**fail'' None [] errstate0) = Inr 0x2000020F"
  by (simp add: create_defs Let_def decode_defs table_defs
     mpich_layout_def errstate0_def empty_entry_def MPI_SUCCESS_def signed_modulo_int_def
      split: prod.splits)

lemma layout_ok_mpich: "layout_ok mpich_layout"
  by (simp add: layout_ok_def mpich_layout_def)

lemma valid_wrapped:
  "fst (checkErrcodeIsValid mpich_layout sample_tables 0x2800018C ring_after_arg) = 0"
  by (simp add: create_defs decode_defs table_defs ring_after_arg_def mpich_layout_def Let_def)

lemma invalid_185:
  "fst (checkErrcodeIsValid mpich_layout sample_tables 0x185 errstate0) = 2"
  by (simp add: create_defs decode_defs table_defs errstate0_def empty_entry_def mpich_layout_def Let_def)

lemma invalid_105:
  "fst (checkErrcodeIsValid mpich_layout sample_tables 0x105 errstate0) = 2"
  by (simp add: create_defs decode_defs table_defs errstate0_def empty_entry_def mpich_layout_def Let_def)

theorem create_code_fatal_bit_witness:
  "layout_ok mpich_layout \<and> (12 :: cint) AND ERROR_CLASS_MASK mpich_layout = 12 \<and>
   (15 :: cint) AND ERROR_CLASS_MASK mpich_layout = 15 \<and>
   MPIR_Err_create_code_valist mpich_layout sample_renv sample_tables 0 1 (Some ''MPI_Send'') 42 12
     ''**arg'' None [] errstate0 = Inr (0x2800018C, ring_after_arg) \<and>
   (0x2800018C :: cint) AND ERROR_FATAL_MASK mpich_layout \<noteq> 0 \<and>
   (\<exists>st'. MPIR_Err_create_code_valist mpich_layout sample_renv sample_tables 0x2800018C 0
      (Some ''MPI_Bcast'') 9 15 ''**fail'' None [] ring_after_arg = Inr (0x2008028C, st')) \<and>
   MPIR_Err_is_fatal mpich_layout 0x2800018C \<and>
   (0x2008028C :: cint) AND ERROR_FATAL_MASK mpich_layout \<noteq> 0"
proof -
  have c12: "(12 :: cint) AND ERROR_CLASS_MASK mpich_layout = 12"
    and c15: "(15 :: cint) AND ERROR_CLASS_MASK mpich_layout = 15"
    by (simp_all add: mpich_layout_def)
  have n1: "effective_class mpich_layout
      (fst (checked_lastcode mpich_layout sample_tables 0 (Some ''MPI_Send'') 42 errstate0)) 12 \<noteq>
      MPI_ERR_IN_STATUS mpich_layout"
    by (simp add: checked_0 effective_class_def mpich_layout_def)
  obtain st' where e2: "MPIR_Err_create_code_valist mpich_layout sample_renv sample_tables 0x2800018C 0
      (Some ''MPI_Bcast'') 9 15 ''**fail'' None [] ring_after_arg = Inr (0x2008028C, st')"
    using Inr_fstI [OF create_wrapped] by blast
  have "effective_class mpich_layout 0x2800018C 15 \<noteq> MPI_ERR_IN_STATUS mpich_layout"
    by (simp add: effective_class_def mpich_layout_def ERROR_GET_CLASS_def MPI_SUCCESS_def
        word_sless_alt word_sle_eq)
  then have n2: "effective_class mpich_layout
      (fst (checked_lastcode mpich_layout sample_tables 0x2800018C (Some ''MPI_Bcast'') 9 ring_after_arg)) 15 \<noteq>
      MPI_ERR_IN_STATUS mpich_layout"
    by (simp add: checked_lastcode_value valid_wrapped)
  have f: "MPIR_Err_is_fatal mpich_layout 0x2800018C"
    by (simp add: MPIR_Err_is_fatal_def mpich_layout_def)
  show ?thesis
    using create_code_fatal_bit [OF layout_ok_mpich c12 create_arg_fatal n1]
      create_code_fatal_bit [OF layout_ok_mpich c15 e2 n2]
    by (simp add: layout_ok_mpich c12 c15 create_arg_fatal e2 f valid_wrapped)
qed

text \<open>
  The claim as worded has fatality inherited from every previous code that
  \<^verbatim>\<open>MPIR_Err_is_fatal\<close> classifies fatal. The code \<open>0x185\<close> is classified fatal but
  names no entry of the empty ring: the new code has no fatal bit.
\<close>

theorem create_code_stale_fatal_counterexample:
  "MPIR_Err_is_fatal mpich_layout 0x185 \<and>
   effective_class mpich_layout
     (fst (checked_lastcode mpich_layout sample_tables 0x185 (Some ''MPI_Send'') 42 errstate0)) 15 \<noteq>
     MPI_ERR_IN_STATUS mpich_layout \<and>
   (\<exists>st'. MPIR_Err_create_code_valist mpich_layout sample_renv sample_tables 0x185 0
      (Some ''MPI_Send'') 42 15 ''**fail'' None [] errstate0 = Inr (0x2000020F, st')) \<and>
   (0x2000020F :: cint) AND ERROR_FATAL_MASK mpich_layout = 0"
proof -
  have "effective_class mpich_layout MPI_SUCCESS 15 \<noteq> MPI_ERR_IN_STATUS mpich_layout"
    by (simp add: effective_class_def mpich_layout_def ERROR_GET_CLASS_def MPI_SUCCESS_def)
  then have n: "effective_class mpich_layout
     (fst (checked_lastcode mpich_layout sample_tables 0x185 (Some ''MPI_Send'') 42 errstate0)) 15 \<noteq>
     MPI_ERR_IN_STATUS mpich_layout"
    by (simp add: checked_lastcode_value invalid_185 MPI_SUCCESS_def)
  have f: "MPIR_Err_is_fatal mpich_layout 0x185"
    "(0x2000020F :: cint) AND ERROR_FATAL_MASK mpich_layout = 0"
    by (simp_all add: MPIR_Err_is_fatal_def mpich_layout_def)
  show ?thesis
    using Inr_fstI [OF ev1] n f by blast
qed

theorem create_code_other_class_witness:
  "layout_ok mpich_layout \<and>
   (\<exists>st'. MPIR_Err_create_code_valist mpich_layout sample_renv sample_tables 0x2800018C 0
      (Some ''MPI_Bcast'') 9 (MPI_ERR_OTHER mpich_layout) ''**fail'' None [] ring_after_arg =
        Inr (0x2008028C, st')) \<and>
   ERROR_GET_CLASS mpich_layout 0x2008028C = ERROR_GET_CLASS mpich_layout 0x2800018C \<and>
   (\<exists>st'. MPIR_Err_create_code_valist mpich_layout sample_renv sample_tables 0x105 0
      (Some ''MPI_Send'') 42 (MPI_ERR_OTHER mpich_layout) ''**fail'' None [] errstate0 =
        Inr (0x2000020F, st')) \<and>
   ERROR_GET_CLASS mpich_layout 0x2000020F = MPI_ERR_OTHER mpich_layout"
proof -
  have o: "MPI_ERR_OTHER mpich_layout = 15"
    by (simp add: mpich_layout_def)
  obtain st1 where e1: "MPIR_Err_create_code_valist mpich_layout sample_renv sample_tables 0x2800018C 0
      (Some ''MPI_Bcast'') 9 (MPI_ERR_OTHER mpich_layout) ''**fail'' None [] ring_after_arg =
        Inr (0x2008028C, st1)"
    using Inr_fstI [OF create_wrapped] by (auto simp add: o)
  obtain st2 where e2: "MPIR_Err_create_code_valist mpich_layout sample_renv sample_tables 0x105 0
      (Some ''MPI_Send'') 42 (MPI_ERR_OTHER mpich_layout) ''**fail'' None [] errstate0 =
        Inr (0x2000020F, st2)"
    using Inr_fstI [OF create_stale_105] by (auto simp add: o)
  have c: "MPI_SUCCESS <s ERROR_GET_CLASS mpich_layout 0x2800018C"
    "ERROR_GET_CLASS mpich_layout 0x2800018C \<le>s MPICH_ERR_LAST_MPIX mpich_layout"
    "(0x2800018C :: cint) \<noteq> MPI_SUCCESS" "(0x105 :: cint) \<noteq> MPI_SUCCESS"
    by (simp_all add: ERROR_GET_CLASS_def mpich_layout_def MPI_SUCCESS_def word_sless_alt word_sle_eq)
  show ?thesis
    using create_code_other_class [OF layout_ok_mpich e1] create_code_other_class [OF layout_ok_mpich e2]
      c e1 e2
    by (auto simp add: layout_ok_mpich valid_wrapped invalid_105)
qed

text \<open>
  The claim as worded lets every previous code with a valid class above success pass its
  class on. The code \<open>0x105\<close> has the valid class 5 but names no entry of the empty
  ring: the new code keeps the class \<^verbatim>\<open>MPI_ERR_OTHER\<close>.
\<close>

theorem create_code_stale_class_counterexample:
  "(0x105 :: cint) \<noteq> MPI_SUCCESS \<and>
   is_valid_error_class mpich_layout (ERROR_GET_CLASS mpich_layout 0x105) \<and>
   MPI_SUCCESS <s ERROR_GET_CLASS mpich_layout 0x105 \<and>
   (\<exists>st'. MPIR_Err_create_code_valist mpich_layout sample_renv sample_tables 0x105 0
      (Some ''MPI_Send'') 42 (MPI_ERR_OTHER mpich_layout) ''**fail'' None [] errstate0 =
        Inr (0x2000020F, st')) \<and>
   ERROR_GET_CLASS mpich_layout 0x2000020F \<noteq> ERROR_GET_CLASS mpich_layout 0x105"
proof -
  have o: "MPI_ERR_OTHER mpich_layout = 15"
    by (simp add: mpich_layout_def)
  have e: "\<exists>st'. MPIR_Err_create_code_valist mpich_layout sample_renv sample_tables 0x105 0
      (Some ''MPI_Send'') 42 (MPI_ERR_OTHER mpich_layout) ''**fail'' None [] errstate0 =
        Inr (0x2000020F, st')"
    using Inr_fstI [OF create_stale_105] by (simp add: o)
  have c: "(0x105 :: cint) \<noteq> MPI_SUCCESS"
    "is_valid_error_class mpich_layout (ERROR_GET_CLASS mpich_layout 0x105)"
    "MPI_SUCCESS <s ERROR_GET_CLASS mpich_layout 0x105"
    "ERROR_GET_CLASS mpich_layout 0x2000020F \<noteq> ERROR_GET_CLASS mpich_layout 0x105"
    by (simp_all add: is_valid_error_class_def ERROR_GET_CLASS_def mpich_layout_def MPI_SUCCESS_def
        word_sless_alt word_sle_eq)
  show ?thesis
    using e c by blast
qed

section \<open>Writes into a window of a buffer\<close>

lemma same_outside_refl [simp]: "same_outside m m lo hi"
  by (simp add: same_outside_def)

lemma same_outside_trans:
  "same_outside m m1 lo hi \<Longrightarrow> same_outside m1 m2 lo hi \<Longrightarrow> same_outside m m2 lo hi"
  by (simp add: same_outside_def)

lemma same_outside_mono:
  assumes "same_outside m m' lo hi" "lo' \<le> lo" "hi \<le> hi'"
  shows "same_outside m m' lo' hi'"
proof -
  have "take lo' m' = take lo' (take lo m')" using assms(2) by (simp add: min_def)
  also have "\<dots> = take lo' (take lo m)" using assms(1) by (simp add: same_outside_def)
  also have "\<dots> = take lo' m" using assms(2) by (simp add: min_def)
  finally have t: "take lo' m' = take lo' m" .
  have "drop hi' m' = drop (hi' - hi) (drop hi m')" using assms(3) by simp
  also have "\<dots> = drop (hi' - hi) (drop hi m)" using assms(1) by (simp add: same_outside_def)
  also have "\<dots> = drop hi' m" using assms(3) by simp
  finally have d: "drop hi' m' = drop hi' m" .
  show ?thesis using assms(1) t d by (simp add: same_outside_def)
qed

lemma same_outside_nth:
  assumes "same_outside m m' lo hi" "hi \<le> i" "i < length m"
  shows "m' ! i = m ! i"
proof -
  have l: "length m' = length m" and d: "drop hi m' = drop hi m"
    using assms(1) by (simp_all add: same_outside_def)
  have "m' ! (hi + (i - hi)) = drop hi m' ! (i - hi)"
    using assms(2,3) l by (simp only: nth_drop) 
  also have "\<dots> = drop hi m ! (i - hi)"
    by (simp only: d)
  also have "\<dots> = m ! (hi + (i - hi))"
    using assms(2,3) by (simp only: nth_drop)
  finally show ?thesis
    using assms(2) by simp
qed

lemma takeWhile_stop:
  "\<not> P y \<Longrightarrow> length (takeWhile P (xs @ y # ys)) \<le> length xs"
  by (induction xs) auto

lemma takeWhile_le_index:
  "i < length xs \<Longrightarrow> \<not> P (xs ! i) \<Longrightarrow> length (takeWhile P xs) \<le> i"
proof (induction xs arbitrary: i)
  case Nil
  then show ?case by simp
next
  case (Cons x xs)
  then show ?case by (cases i) auto
qed

lemma poke_cstr:
  assumes "poke m p (bs @ [NUL]) = Inr m'"
  shows "length (cstr m' p) \<le> length bs"
proof -
  from assms have le: "p + length (bs @ [NUL]) \<le> length m"
    and m': "m' = take p m @ (bs @ [NUL]) @ drop (p + length (bs @ [NUL])) m"
    by (auto simp add: poke_def split: if_splits)
  have "drop p m' = bs @ NUL # drop (p + length (bs @ [NUL])) m"
    using le by (simp add: m')
  then show ?thesis
    by (simp add: cstr_def takeWhile_stop)
qed

lemma poke_same_outside:
  assumes "poke m p bs = Inr m'" "lo \<le> p" "p + length bs \<le> hi"
  shows "same_outside m m' lo hi"
proof -
  from assms(1) have le: "p + length bs \<le> length m"
    and m': "m' = take p m @ bs @ drop (p + length bs) m"
    by (auto simp add: poke_def split: if_splits)
  have "same_outside m m' p (p + length bs)"
    using le by (simp add: same_outside_def m')
  then show ?thesis
    using assms(2,3) by (rule same_outside_mono)
qed

lemma poke_ok: "p + length bs \<le> length m \<Longrightarrow> \<exists>m'. poke m p bs = Inr m'"
  by (simp add: poke_def)


lemma c_snprintf_safe:
  assumes "str + n \<le> length m"
  shows "\<exists>m'. c_snprintf m str n text = Inr m' \<and> same_outside m m' str (str + n) \<and>
              (0 < n \<longrightarrow> length (cstr m' str) < n)"
proof (cases "n = 0")
  case True
  then show ?thesis by (simp add: c_snprintf_def)
next
  case False
  let ?bs = "take (n - 1) text @ [NUL]"
  have len: "length ?bs \<le> n" using False by simp
  then obtain m' where m': "poke m str ?bs = Inr m'"
    using poke_ok [of str ?bs m] assms by auto
  have so: "same_outside m m' str (str + n)"
    using poke_same_outside [OF m', of str "str + n"] len by simp
  have "length (cstr m' str) \<le> length (take (n - 1) text)"
    using poke_cstr [OF m'] .
  moreover have "length (take (n - 1) text) \<le> n - 1"
    by simp
  ultimately have "length (cstr m' str) < n" using False by linarith
  then show ?thesis
    using m' so False by (simp add: c_snprintf_def)
qed

lemma MPL_strncpy_safe:
  assumes "dest + n \<le> length m"
  shows "\<exists>m' rc. MPL_strncpy m dest src n = Inr (m', rc) \<and> same_outside m m' dest (dest + n) \<and>
              (0 < n \<longrightarrow> length (cstr m' dest) < n) \<and>
              (rc \<noteq> 0 \<longrightarrow> n \<le> length src)"
proof (cases "n = 0")
  case True
  then show ?thesis by (simp add: MPL_strncpy_def)
next
  case nz: False
  let ?bs = "take (n - 1) src @ [NUL]"
  have eq: "length src < n \<Longrightarrow> take (n - 1) src = src" by simp
  have len: "length ?bs \<le> n" using nz by simp
  then obtain m' where m': "poke m dest ?bs = Inr m'"
    using poke_ok [of dest ?bs m] assms by auto
  have so: "same_outside m m' dest (dest + n)"
    using poke_same_outside [OF m', of dest "dest + n"] len by simp
  have "length (cstr m' dest) \<le> length (take (n - 1) src)"
    using poke_cstr [OF m'] .
  moreover have "length (take (n - 1) src) \<le> n - 1"
    by simp
  ultimately have lt: "length (cstr m' dest) < n" using nz by linarith
  show ?thesis
  proof (cases "length src < n")
    case True
    have "poke m dest (src @ [NUL]) = Inr m'"
      using m' by (simp only: eq [OF True])
    then show ?thesis
      using so lt nz True by (simp add: MPL_strncpy_def)
  next
    case False
    then show ?thesis
      using m' so lt nz by (simp add: MPL_strncpy_def)
  qed
qed

lemma write_text_safe:
  assumes "str + n \<le> length m"
  shows "\<exists>m'. write_text w m str text n = Inr m' \<and> same_outside m m' str (str + n) \<and>
              (0 < n \<longrightarrow> length (cstr m' str) < n)"
proof (cases w)
  case By_strncpy
  from MPL_strncpy_safe [OF assms, of "text"] show ?thesis
    unfolding write_text_def By_strncpy by (elim exE conjE) simp
next
  case By_snprintf
  then show ?thesis using c_snprintf_safe [OF assms, of "text"] by (simp add: write_text_def)
qed

lemma cstr_le_NUL:
  assumes "p \<le> j" "j < length m" "m ! j = NUL"
  shows "length (cstr m p) \<le> j - p" and "NUL \<in> set (drop p m)"
proof -
  have j: "j - p < length (drop p m)" "drop p m ! (j - p) = NUL"
    using assms by simp_all
  show "NUL \<in> set (drop p m)"
    using j nth_mem [of "j - p" "drop p m"] by simp
  show "length (cstr m p) \<le> j - p"
    unfolding cstr_def using j by (intro takeWhile_le_index) simp_all
qed

lemma c_strlen_cstr:
  "NUL \<in> set (drop p m) \<Longrightarrow> c_strlen m p = Inr (length (cstr m p))"
  by (simp add: c_strlen_def cstr_def)


lemma vsnprintf_turn_safe:
  assumes "str0 \<le> str" "str + maxlen = B" "B < length m" "m ! B = NUL"
  shows "vsnprintf_turn env m str maxlen lit rest args \<noteq> Inl Out_of_bounds \<and>
     (\<forall>m'. vsnprintf_turn env m str maxlen lit rest args = Inr (Done m') \<longrightarrow>
        same_outside m m' str0 B) \<and>
     (\<forall>m' str' maxlen' begin' args'.
        vsnprintf_turn env m str maxlen lit rest args = Inr (Continue m' str' maxlen' begin' args') \<longrightarrow>
        same_outside m m' str0 B \<and> str0 \<le> str' \<and> str' + maxlen' = B)"
proof -
  define len where "len = (if maxlen > length lit then length lit else maxlen)"
  have len_le: "len \<le> maxlen" by (simp add: len_def)
  have "\<exists>m1. (if len \<noteq> 0 then poke m str (take len lit) else Inr m) = Inr m1 \<and>
          same_outside m m1 str0 B"
  proof (cases "len = 0")
    case True
    then show ?thesis by simp
  next
    case False
    have l: "length (take len lit) = len" by (simp add: len_def)
    obtain m1 where m1: "poke m str (take len lit) = Inr m1"
      using poke_ok [of str "take len lit" m] assms(2,3) len_le l by auto
    have "same_outside m m1 str0 B"
      using poke_same_outside [OF m1 assms(1), of B] l len_le assms(2) by simp
    then show ?thesis using False m1 by simp
  qed
  then obtain m1 where m1: "(if len \<noteq> 0 then poke m str (take len lit) else Inr m) = Inr m1"
    and so1: "same_outside m m1 str0 B"
    by blast
  have l1: "length m1 = length m" using so1 by (simp add: same_outside_def)
  have B1: "m1 ! B = NUL" using same_outside_nth [OF so1 _ assms(3)] assms(4) by simp
  show ?thesis
  proof (cases rest)
    case Nil
    then show ?thesis
      using m1 so1 by (simp add: vsnprintf_turn_def Let_def len_def [symmetric])
  next
    case (Cons d rest')
    show ?thesis
    proof (cases "directive env d args")
      case Unhandled
      then show ?thesis
        using m1 so1 Cons by (simp add: vsnprintf_turn_def Let_def len_def [symmetric])
    next
      case Bad_arg
      then show ?thesis
        using m1 Cons by (simp add: vsnprintf_turn_def Let_def len_def [symmetric])
    next
      case (Emit w tx args')
      have room: "(str + len) + (maxlen - len) \<le> length m1"
        using len_le assms(2,3) l1 by simp
      obtain m2 where m2: "write_text w m1 (str + len) tx (maxlen - len) = Inr m2"
        and so2: "same_outside m1 m2 (str + len) ((str + len) + (maxlen - len))"
        using write_text_safe [OF room, of w tx] by blast
      have e: "(str + len) + (maxlen - len) = B" using len_le assms(2) by simp
      have so2': "same_outside m1 m2 str0 B"
        using same_outside_mono [OF so2, of str0 B] assms(1) e by simp
      have so: "same_outside m m2 str0 B"
        using same_outside_trans [OF so1 so2'] .
      have l2: "length m2 = length m" using so by (simp add: same_outside_def)
      have B2: "m2 ! B = NUL" using same_outside_nth [OF so _ assms(3)] assms(4) by simp
      have sB: "str + len \<le> B" using len_le assms(2) by simp
      have Bl: "B < length m2" using assms(3) l2 by simp
      have c: "length (cstr m2 (str + len)) \<le> B - (str + len)" and n: "NUL \<in> set (drop (str + len) m2)"
        using cstr_le_NUL [OF sB Bl B2] by simp_all
      have sl: "c_strlen m2 (str + len) = Inr (length (cstr m2 (str + len)))"
        using c_strlen_cstr [OF n] .
      have le2: "length (cstr m2 (str + len)) \<le> maxlen - len"
        using c e by simp
      show ?thesis
        using m1 Cons Emit m2 sl so le2 e assms(1)
        by (simp add: vsnprintf_turn_def Let_def len_def [symmetric] size_sub_def)
    qed
  qed
qed

lemma vsnprintf_loop_safe:
  "str0 \<le> str \<Longrightarrow> str + maxlen = B \<Longrightarrow> B < length m \<Longrightarrow> m ! B = NUL \<Longrightarrow>
   vsnprintf_loop env m str maxlen begin args \<noteq> Inl Out_of_bounds \<and>
   (\<forall>m'. vsnprintf_loop env m str maxlen begin args = Inr m' \<longrightarrow> same_outside m m' str0 B)"
proof (induction env m str maxlen "begin" args rule: vsnprintf_loop.induct)
  case (1 env m str maxlen fmt args)
  show ?case
  proof (cases "strchr_percent fmt")
    case None
    have room: "str + maxlen \<le> length m" using "1.prems" by simp
    obtain m' rc where "MPL_strncpy m str fmt maxlen = Inr (m', rc)"
      "same_outside m m' str (str + maxlen)"
      using MPL_strncpy_safe [OF room, of fmt] by blast
    moreover have "vsnprintf_loop env m str maxlen fmt args =
        (if fmt \<noteq> [] then
           (case MPL_strncpy m str fmt maxlen of Inl f \<Rightarrow> Inl f | Inr r \<Rightarrow> Inr (fst r))
         else Inr m)"
      using None by (subst vsnprintf_loop.simps) simp
    ultimately show ?thesis
      using "1.prems" same_outside_mono [of m m' str "str + maxlen" str0 B]
      by auto
  next
    case (Some p)
    obtain lit rest where p: "p = (lit, rest)" by (cases p)
    note turn = vsnprintf_turn_safe [OF "1.prems", of env lit rest args]
    show ?thesis
    proof (cases "vsnprintf_turn env m str maxlen lit rest args")
      case (Inl f)
      moreover have "vsnprintf_loop env m str maxlen fmt args = Inl f"
        using Some p Inl by (subst vsnprintf_loop.simps) simp
      ultimately show ?thesis
        using turn by auto
    next
      case (Inr t)
      show ?thesis
      proof (cases t)
        case (Done m')
        moreover have "vsnprintf_loop env m str maxlen fmt args = Inr m'"
          using Some p Inr Done by (subst vsnprintf_loop.simps) simp
        ultimately show ?thesis
          using turn Inr by auto
      next
        case (Continue m' str' maxlen' begin' args')
        have so: "same_outside m m' str0 B" and s': "str0 \<le> str'" and e': "str' + maxlen' = B"
          using turn Inr Continue by auto
        have l': "B < length m'" using so "1.prems" by (simp add: same_outside_def)
        have B': "m' ! B = NUL"
          using same_outside_nth [OF so _ "1.prems"(3)] "1.prems"(4) by simp
        have IH: "vsnprintf_loop env m' str' maxlen' begin' args' \<noteq> Inl Out_of_bounds \<and>
           (\<forall>m''. vsnprintf_loop env m' str' maxlen' begin' args' = Inr m'' \<longrightarrow>
              same_outside m' m'' str0 B)"
          using "1.IH" [OF Some p [symmetric] Inr Continue s' e' l' B'] .
        have eq: "vsnprintf_loop env m str maxlen fmt args =
                  vsnprintf_loop env m' str' maxlen' begin' args'"
          using Some p Inr Continue by (subst vsnprintf_loop.simps) simp
        show ?thesis
          using IH so same_outside_trans [OF so] by (auto simp add: eq)
      qed
    qed
  qed
qed

lemma snprintf_i_safe:
  assumes "0 \<le> pos" "0 \<le> n" "nat pos + nat n \<le> length m"
  shows "\<exists>m'. snprintf_i m pos n tx = Inr m' \<and> same_outside m m' (nat pos) (nat pos + nat n) \<and>
           (0 < n \<longrightarrow> length (cstr m' (nat pos)) < nat n)"
proof (cases "n = 0")
  case True
  then show ?thesis by (simp add: snprintf_i_def)
next
  case False
  then have "size_of_int n = nat n" using assms(2) by (simp add: size_of_int_def)
  then show ?thesis
    using c_snprintf_safe [OF assms(3), of tx] assms(1,2) False
    by (auto simp add: snprintf_i_def)
qed

lemma strncpy_i_safe:
  assumes "0 \<le> pos" "0 \<le> n" "nat pos + nat n \<le> length m"
  shows "\<exists>m' rc. strncpy_i m pos src n = Inr (m', rc) \<and>
           same_outside m m' (nat pos) (nat pos + nat n) \<and>
           (0 < n \<longrightarrow> length (cstr m' (nat pos)) < nat n)"
proof (cases "n = 0")
  case True
  then show ?thesis by (simp add: strncpy_i_def)
next
  case False
  then have "size_of_int n = nat n" using assms(2) by (simp add: size_of_int_def)
  then show ?thesis
    using MPL_strncpy_safe [OF assms(3), of src] assms(1,2) False
    by (auto simp add: strncpy_i_def)
qed

lemma poke_last_NUL:
  assumes "0 \<le> pos" "1 \<le> n" "nat pos + nat n \<le> length m"
  shows "\<exists>m'. poke_i m (pos + n - 1) [NUL] = Inr m' \<and>
           same_outside m m' (nat pos) (nat pos + nat n) \<and>
           m' ! (nat pos + nat n - 1) = NUL \<and>
           take (nat n - 1) (drop (nat pos) m') = take (nat n - 1) (drop (nat pos) m)"
proof -
  have idx: "nat (pos + n - 1) = nat pos + nat n - 1" and nn: "\<not> pos + n - 1 < 0"
    using assms(1,2) by auto
  have room: "(nat pos + nat n - 1) + length [NUL] \<le> length m"
    using assms by auto
  obtain m' where m': "poke m (nat pos + nat n - 1) [NUL] = Inr m'"
    using poke_ok [OF room] by blast
  have so: "same_outside m m' (nat pos) (nat pos + nat n)"
    using poke_same_outside [OF m', of "nat pos" "nat pos + nat n"] assms(2) by auto
  have eq: "m' = take (nat pos + nat n - 1) m @ [NUL] @ drop (nat pos + nat n - 1 + 1) m"
    using m' by (auto simp add: poke_def split: if_splits)
  have lt: "nat pos + nat n - 1 < length m" using room by simp
  have n: "m' ! (nat pos + nat n - 1) = NUL"
    using lt by (simp add: eq nth_append)
  have "take (nat pos + nat n - 1) m' = take (nat pos + nat n - 1) m"
    using lt by (simp add: eq)
  then have "drop (nat pos) (take (nat pos + nat n - 1) m') = drop (nat pos) (take (nat pos + nat n - 1) m)"
    by simp
  then have t: "take (nat n - 1) (drop (nat pos) m') = take (nat n - 1) (drop (nat pos) m)"
    using assms(2) by (simp add: drop_take)
  show ?thesis
    using m' so n t nn by (simp add: poke_i_def idx)
qed





lemma link_ok_not_success: "link_ok cfg st c \<Longrightarrow> c \<noteq> MPI_SUCCESS"
  by (auto simp add: link_ok_def generic_idx_of_def MPI_SUCCESS_def word_sless_alt)

lemma instance_loop_step:
  assumes "link_ok cfg st c" "snprintf_i m pos n ('', '' @ msg (ring_entry cfg st c)) = Inr m1"
    "poke_i m1 (pos + n - 1) [NUL] = Inr m2"
  shows "instance_loop cfg pos n c m st =
         instance_loop cfg pos n (prev_error (ring_entry cfg st c)) m2 st"
  using assms link_ok_not_success [OF assms(1)]
  by (subst instance_loop.simps) (simp add: link_ok_def)

lemma instance_loop_break:
  assumes "\<not> link_ok cfg st c" "c \<noteq> MPI_SUCCESS"
  shows "\<exists>st'. instance_loop cfg pos n c m st = Some (Inr (c, m, st')) \<and> ErrorRing st' = ErrorRing st"
  using assms
  by (subst instance_loop.simps) (auto simp add: link_ok_def MPL_error_printf_def)

lemma instance_loop_success: "instance_loop cfg pos n MPI_SUCCESS m st = Some (Inr (MPI_SUCCESS, m, st))"
  by (subst instance_loop.simps) simp



lemma instance_loop_safe:
  assumes "instance_loop cfg pos n c m st = Some y"
  shows "0 \<le> pos \<longrightarrow> 1 \<le> n \<longrightarrow> nat pos + nat n \<le> length m \<longrightarrow> m ! (nat pos + nat n - 1) = NUL \<longrightarrow>
    (\<exists>c' m' st'. y = Inr (c', m', st') \<and> same_outside m m' (nat pos) (nat pos + nat n) \<and>
       m' ! (nat pos + nat n - 1) = NUL)"
proof (rule instance_loop.raw_induct [where P = "\<lambda>cfg pos n c m st y.
    0 \<le> pos \<longrightarrow> 1 \<le> n \<longrightarrow> nat pos + nat n \<le> length m \<longrightarrow> m ! (nat pos + nat n - 1) = NUL \<longrightarrow>
    (\<exists>c' m' st'. y = Inr (c', m', st') \<and> same_outside m m' (nat pos) (nat pos + nat n) \<and>
       m' ! (nat pos + nat n - 1) = NUL)", OF _ assms])
  fix loop :: "errcodes \<Rightarrow> int \<Rightarrow> int \<Rightarrow> cint \<Rightarrow> mem \<Rightarrow> errstate \<Rightarrow> (fault + cint \<times> mem \<times> errstate) option"
  fix cfg pos n c m st y
  assume IH: "\<And>cfg pos n c m st y. loop cfg pos n c m st = Some y \<Longrightarrow>
    0 \<le> pos \<longrightarrow> 1 \<le> n \<longrightarrow> nat pos + nat n \<le> length m \<longrightarrow> m ! (nat pos + nat n - 1) = NUL \<longrightarrow>
    (\<exists>c' m' st'. y = Inr (c', m', st') \<and> same_outside m m' (nat pos) (nat pos + nat n) \<and>
       m' ! (nat pos + nat n - 1) = NUL)"
  assume body: "(if c = MPI_SUCCESS then Some (Inr (c, m, st))
      else if convertErrcodeToIndexes cfg st c \<noteq> 0
      then Some (Inr (c, m, MPL_error_printf (invalid_code_msg cfg c (ring_idx_of cfg c)) st))
      else if generic_idx_of cfg c <s 0 then Some (Inr (c, m, st))
      else if entry_id (ring_entry cfg st c) = ring_id_of cfg c
      then case snprintf_i m pos n ('', '' @ msg (ring_entry cfg st c)) of
             Inl f \<Rightarrow> Some (Inl f)
           | Inr m1 \<Rightarrow>
               (case poke_i m1 (pos + n - 1) [NUL] of
                  Inl f \<Rightarrow> Some (Inl f)
                | Inr m2 \<Rightarrow> loop cfg pos n (prev_error (ring_entry cfg st c)) m2 st)
      else Some (Inr (c, m, st))) = Some y"
  show "0 \<le> pos \<longrightarrow> 1 \<le> n \<longrightarrow> nat pos + nat n \<le> length m \<longrightarrow> m ! (nat pos + nat n - 1) = NUL \<longrightarrow>
    (\<exists>c' m' st'. y = Inr (c', m', st') \<and> same_outside m m' (nat pos) (nat pos + nat n) \<and>
       m' ! (nat pos + nat n - 1) = NUL)"
  proof (intro impI)
    assume p: "0 \<le> pos" "1 \<le> n" "nat pos + nat n \<le> length m" "m ! (nat pos + nat n - 1) = NUL"
    show "\<exists>c' m' st'. y = Inr (c', m', st') \<and> same_outside m m' (nat pos) (nat pos + nat n) \<and>
       m' ! (nat pos + nat n - 1) = NUL"
    proof (cases "c \<noteq> MPI_SUCCESS \<and> convertErrcodeToIndexes cfg st c = 0 \<and>
        \<not> generic_idx_of cfg c <s 0 \<and> entry_id (ring_entry cfg st c) = ring_id_of cfg c")
      case False
      then show ?thesis
        using body p(4) by (auto split: if_splits)
    next
      case True
      obtain m1 where m1: "snprintf_i m pos n ('', '' @ msg (ring_entry cfg st c)) = Inr m1"
        and so1: "same_outside m m1 (nat pos) (nat pos + nat n)"
        using snprintf_i_safe [OF p(1) _ p(3), of "'', '' @ msg (ring_entry cfg st c)"] p(2)
        by auto
      have l1: "nat pos + nat n \<le> length m1"
        using so1 p(3) by (simp add: same_outside_def)
      obtain m2 where m2: "poke_i m1 (pos + n - 1) [NUL] = Inr m2"
        and so2: "same_outside m1 m2 (nat pos) (nat pos + nat n)"
        and last: "m2 ! (nat pos + nat n - 1) = NUL"
        using poke_last_NUL [OF p(1,2) l1] by blast
      have l2: "nat pos + nat n \<le> length m2"
        using so2 l1 by (simp add: same_outside_def)
      have "loop cfg pos n (prev_error (ring_entry cfg st c)) m2 st = Some y"
        using body True m1 m2 by simp
      from IH [OF this] p(1,2) l2 last
      obtain c' m' st' where "y = Inr (c', m', st')" "same_outside m2 m' (nat pos) (nat pos + nat n)"
        "m' ! (nat pos + nat n - 1) = NUL" by blast
      then show ?thesis
        using same_outside_trans [OF same_outside_trans [OF so1 so2]] by blast
    qed
  qed
qed

section \<open>The compact instance text\<close>

lemma ring_msgs:
  "msg (ErrorRing ring_two 0) = ''first''" "msg (ErrorRing ring_two (Suc 0)) = ''second''"
  "msg (ErrorRing ring_stale 0) = ''first''"
  by (simp_all add: ring_two_def ring_stale_def)




section \<open>Rendering within the bound\<close>

lemma last_NUL_length:
  assumes "1 \<le> n" "nat pos + nat n \<le> length m" "m ! (nat pos + nat n - 1) = NUL"
  shows "length (cstr m (nat pos)) < nat n" and "NUL \<in> set (drop (nat pos) m)"
proof -
  have a: "nat pos \<le> nat pos + nat n - 1" "nat pos + nat n - 1 < length m"
    using assms(1,2) by auto
  from cstr_le_NUL [OF a assms(3)]
  show "length (cstr m (nat pos)) < nat n" and "NUL \<in> set (drop (nat pos) m)"
    using assms(1) by auto
qed

lemma strncpy_terminated_safe:
  assumes "0 \<le> pos" "0 \<le> n" "nat pos + nat n \<le> length m"
  shows "\<exists>m'. strncpy_terminated m pos tx n = Inr m' \<and>
           same_outside m m' (nat pos) (nat pos + nat n) \<and>
           (0 < n \<longrightarrow> length (cstr m' (nat pos)) < nat n) \<and> (n = 0 \<longrightarrow> m' = m)"
proof (cases "n = 0")
  case True
  then show ?thesis by (simp add: strncpy_terminated_def strncpy_i_def)
next
  case False
  then have n: "1 \<le> n" using assms(2) by simp
  obtain m1 rc where c: "strncpy_i m pos tx n = Inr (m1, rc)"
    "same_outside m m1 (nat pos) (nat pos + nat n)" "length (cstr m1 (nat pos)) < nat n"
    using strncpy_i_safe [OF assms, of tx] n by auto
  show ?thesis
  proof (cases "rc = 0")
    case True
    then show ?thesis using c False by (simp add: strncpy_terminated_def)
  next
    case rc: False
    have l1: "nat pos + nat n \<le> length m1" using c(2) assms(3) by (simp add: same_outside_def)
    obtain m2 where p: "poke_i m1 (pos + n - 1) [NUL] = Inr m2"
      "same_outside m1 m2 (nat pos) (nat pos + nat n)" "m2 ! (nat pos + nat n - 1) = NUL"
      using poke_last_NUL [OF assms(1) n l1] by blast
    have l2: "nat pos + nat n \<le> length m2" using p(2) l1 by (simp add: same_outside_def)
    show ?thesis
      using c(1) rc p(1) same_outside_trans [OF c(2) p(2)] last_NUL_length(1) [OF n l2 p(3)] False
      by (simp add: strncpy_terminated_def)
  qed
qed

lemma MPIR_Err_get_string_safe:
  assumes "0 \<le> pos" "0 \<le> len" "nat pos + nat len \<le> length m"
    and "\<not> MPIR_CVAR_PRINT_ERROR_STACK cv \<or> c AND ERROR_DYN_MASK cfg \<noteq> 0 \<or>
         c AND ERROR_CLASS_MASK cfg = c"
    and "MPIR_Err_get_string cfg tabs cv proc c m pos len st = Some r"
  shows "\<exists>m' st'. r = Inr (m', st') \<and> same_outside m m' (nat pos) (nat pos + nat len) \<and>
           (0 < len \<longrightarrow> length (cstr m' (nat pos)) < nat len) \<and> (len = 0 \<longrightarrow> m' = m)"
proof -
  consider (zero) "len = 0"
    | (dyn) "len \<noteq> 0" "c AND ERROR_DYN_MASK cfg \<noteq> 0"
    | (cls) "len \<noteq> 0" "c AND ERROR_DYN_MASK cfg = 0" "c AND ERROR_CLASS_MASK cfg = c"
    | (inst) "len \<noteq> 0" "c AND ERROR_DYN_MASK cfg = 0" "c AND ERROR_CLASS_MASK cfg \<noteq> c"
    by blast
  then show ?thesis
  proof cases
    case zero
    then show ?thesis using assms(5) by (auto simp add: MPIR_Err_get_string_def)
  next
    case dyn
    obtain m' where "strncpy_terminated m pos
                (case errcode_to_string proc of
                   None \<Rightarrow> ''Undefined dynamic error code''
                 | Some f \<Rightarrow> f c) len = Inr m'"
      "same_outside m m' (nat pos) (nat pos + nat len)"
      "0 < len \<longrightarrow> length (cstr m' (nat pos)) < nat len"
      using strncpy_terminated_safe [OF assms(1-3)] by blast
    then show ?thesis using assms(5) dyn by (auto simp add: MPIR_Err_get_string_def)
  next
    case cls
    obtain m' where "strncpy_terminated m pos (get_class_msg cfg tabs c) len = Inr m'"
      "same_outside m m' (nat pos) (nat pos + nat len)"
      "0 < len \<longrightarrow> length (cstr m' (nat pos)) < nat len"
      using strncpy_terminated_safe [OF assms(1-3)] by blast
    then show ?thesis using assms(5) cls by (auto simp add: MPIR_Err_get_string_def)
  next
    case inst
    then have cv: "\<not> MPIR_CVAR_PRINT_ERROR_STACK cv" using assms(4) by simp
    have n: "1 \<le> len" using inst(1) assms(2) by simp
    obtain m1 rc where c1: "strncpy_i m pos (get_class_msg cfg tabs (ERROR_GET_CLASS cfg c)) len = Inr (m1, rc)"
      "same_outside m m1 (nat pos) (nat pos + nat len)"
      using strncpy_i_safe [OF assms(1-3)] by blast
    have l1: "nat pos + nat len \<le> length m1" using c1(2) assms(3) by (simp add: same_outside_def)
    obtain m2 where p: "poke_i m1 (pos + len - 1) [NUL] = Inr m2"
      "same_outside m1 m2 (nat pos) (nat pos + nat len)" "m2 ! (nat pos + nat len - 1) = NUL"
      using poke_last_NUL [OF assms(1) n l1] by blast
    have l2: "nat pos + nat len \<le> length m2" using p(2) l1 by (simp add: same_outside_def)
    define k where "k = length (cstr m2 (nat pos))"
    have k: "k < nat len" and sl: "strlen_i m2 pos = Inr k"
      using last_NUL_length [OF n l2 p(3)] assms(1) c_strlen_cstr [of "nat pos" m2]
      by (simp_all add: k_def strlen_i_def)
    have q: "0 \<le> pos + int k" "1 \<le> len - int k"
      "nat (pos + int k) + nat (len - int k) = nat pos + nat len"
      using assms(1) k by auto
    have q': "nat (pos + int k) + nat (len - int k) \<le> length m2"
      "m2 ! (nat (pos + int k) + nat (len - int k) - 1) = NUL"
      using q(3) l2 p(3) by simp_all
    obtain y where y: "instance_loop cfg (pos + int k) (len - int k) c m2 st = Some y"
      using assms(5) inst c1(1) p(1) sl cv
      by (auto simp add: MPIR_Err_get_string_def ErrGetInstanceString_def split: option.splits)
    from instance_loop_safe [OF y] q(1,2) q'
    obtain c' m' st' where r: "y = Inr (c', m', st')"
      "same_outside m2 m' (nat (pos + int k)) (nat (pos + int k) + nat (len - int k))"
      "m' ! (nat (pos + int k) + nat (len - int k) - 1) = NUL" by blast
    have so: "same_outside m2 m' (nat pos) (nat pos + nat len)"
      using same_outside_mono [OF r(2), of "nat pos" "nat pos + nat len"] q(3) assms(1) by simp
    have l3: "nat pos + nat len \<le> length m'" using so l2 by (simp add: same_outside_def)
    have "length (cstr m' (nat pos)) < nat len"
      using last_NUL_length(1) [OF n l3] r(3) q(3) by simp
    moreover have "r = Inr (m', st')"
      using assms(5) inst c1(1) p(1) sl cv y r(1)
      by (simp add: MPIR_Err_get_string_def ErrGetInstanceString_def)
    ultimately show ?thesis
      using same_outside_trans [OF same_outside_trans [OF c1(2) p(2)] so] inst(1) by simp
  qed
qed

lemma MPIR_Err_get_string_returns:
  assumes "0 \<le> pos" "0 \<le> len" "nat pos + nat len \<le> length m"
    and "len = 0 \<or> c AND ERROR_DYN_MASK cfg \<noteq> 0 \<or> c AND ERROR_CLASS_MASK cfg = c"
  shows "MPIR_Err_get_string cfg tabs cv proc c m pos len st \<noteq> None"
proof -
  obtain m' where "strncpy_terminated m pos
                (case errcode_to_string proc of
                   None \<Rightarrow> ''Undefined dynamic error code''
                 | Some f \<Rightarrow> f c) len = Inr m'"
    using strncpy_terminated_safe [OF assms(1-3)] by blast
  moreover obtain m'' where "strncpy_terminated m pos (get_class_msg cfg tabs c) len = Inr m''"
    using strncpy_terminated_safe [OF assms(1-3)] by blast
  ultimately show ?thesis using assms(4) by (auto simp add: MPIR_Err_get_string_def)
qed

lemma instance_loop_returns:
  assumes "0 \<le> pos" "1 \<le> n"
  shows "chain_to_success cfg st c js \<or> chain_to_stale cfg st c js \<Longrightarrow>
    nat pos + nat n \<le> length m \<Longrightarrow> \<exists>y. instance_loop cfg pos n c m st = Some y"
proof (induction js arbitrary: c m)
  case Nil
  then have nl: "\<not> link_ok cfg st c" by simp
  show ?case
  proof (cases "c = MPI_SUCCESS")
    case True
    then show ?thesis by (simp add: instance_loop_success)
  next
    case False
    then show ?thesis using instance_loop_break [OF nl False] by blast
  qed
next
  case (Cons i js)
  from Cons.prems(1) have ok: "link_ok cfg st c" and idx: "unat (ring_idx_of cfg c) = i"
    by (cases js; auto)+
  have e: "ring_entry cfg st c = ErrorRing st i" using idx by (simp add: ring_entry_def)
  obtain m1 where m1: "snprintf_i m pos n ('', '' @ msg (ErrorRing st i)) = Inr m1"
    and so1: "same_outside m m1 (nat pos) (nat pos + nat n)"
    using snprintf_i_safe [OF assms(1) _ Cons.prems(2), of "'', '' @ msg (ErrorRing st i)"] assms(2)
    by auto
  have l1: "nat pos + nat n \<le> length m1"
    using so1 Cons.prems(2) by (simp add: same_outside_def)
  obtain m2 where m2: "poke_i m1 (pos + n - 1) [NUL] = Inr m2"
    and so2: "same_outside m1 m2 (nat pos) (nat pos + nat n)"
    using poke_last_NUL [OF assms l1] by blast
  have l2: "nat pos + nat n \<le> length m2"
    using so2 l1 by (simp add: same_outside_def)
  have step: "instance_loop cfg pos n c m st = instance_loop cfg pos n (prev_error (ErrorRing st i)) m2 st"
    using instance_loop_step [OF ok, of m pos n m1 m2] m1 m2 e by simp
  have "chain_to_success cfg st (prev_error (ErrorRing st i)) js \<or>
        chain_to_stale cfg st (prev_error (ErrorRing st i)) js"
  proof (cases js)
    case Nil
    show ?thesis
    proof (cases "prev_error (ErrorRing st i) = MPI_SUCCESS")
      case True
      then show ?thesis using Nil link_ok_not_success [of cfg st MPI_SUCCESS] by auto
    next
      case False
      then show ?thesis using Cons.prems(1) Nil by auto
    qed
  next
    case (Cons j ks)
    then show ?thesis using Cons.prems(1) by auto
  qed
  from Cons.IH [OF this l2] show ?case using step by simp
qed

lemma MPIR_Err_get_string_total:
  assumes "0 \<le> pos" "0 \<le> len" "nat pos + nat len \<le> length m"
    and "len = 0 \<or> c AND ERROR_DYN_MASK cfg \<noteq> 0 \<or> c AND ERROR_CLASS_MASK cfg = c \<or>
         \<not> MPIR_CVAR_PRINT_ERROR_STACK cv \<and>
         (chain_to_success cfg st c js \<or> chain_to_stale cfg st c js)"
  shows "\<exists>m' st'. MPIR_Err_get_string cfg tabs cv proc c m pos len st = Some (Inr (m', st')) \<and>
           same_outside m m' (nat pos) (nat pos + nat len) \<and>
           (0 < len \<longrightarrow> length (cstr m' (nat pos)) < nat len) \<and> (len = 0 \<longrightarrow> m' = m)"
proof -
  have ret: "MPIR_Err_get_string cfg tabs cv proc c m pos len st \<noteq> None"
  proof (cases "len = 0 \<or> c AND ERROR_DYN_MASK cfg \<noteq> 0 \<or> c AND ERROR_CLASS_MASK cfg = c")
    case True
    then show ?thesis using MPIR_Err_get_string_returns [OF assms(1-3)] by blast
  next
    case False
    then have inst: "len \<noteq> 0" "c AND ERROR_DYN_MASK cfg = 0" "c AND ERROR_CLASS_MASK cfg \<noteq> c"
      and cv: "\<not> MPIR_CVAR_PRINT_ERROR_STACK cv"
      and ch: "chain_to_success cfg st c js \<or> chain_to_stale cfg st c js"
      using assms(4) by auto
    have n: "1 \<le> len" using inst(1) assms(2) by simp
    obtain m1 rc where c1: "strncpy_i m pos (get_class_msg cfg tabs (ERROR_GET_CLASS cfg c)) len = Inr (m1, rc)"
      "same_outside m m1 (nat pos) (nat pos + nat len)"
      using strncpy_i_safe [OF assms(1-3)] by blast
    have l1: "nat pos + nat len \<le> length m1" using c1(2) assms(3) by (simp add: same_outside_def)
    obtain m2 where p: "poke_i m1 (pos + len - 1) [NUL] = Inr m2"
      "same_outside m1 m2 (nat pos) (nat pos + nat len)" "m2 ! (nat pos + nat len - 1) = NUL"
      using poke_last_NUL [OF assms(1) n l1] by blast
    have l2: "nat pos + nat len \<le> length m2" using p(2) l1 by (simp add: same_outside_def)
    define k where "k = length (cstr m2 (nat pos))"
    have k: "k < nat len" and sl: "strlen_i m2 pos = Inr k"
      using last_NUL_length [OF n l2 p(3)] assms(1) c_strlen_cstr [of "nat pos" m2]
      by (simp_all add: k_def strlen_i_def)
    have q: "0 \<le> pos + int k" "1 \<le> len - int k"
      "nat (pos + int k) + nat (len - int k) \<le> length m2"
      using assms(1) k l2 by auto
    obtain y where y: "instance_loop cfg (pos + int k) (len - int k) c m2 st = Some y"
      using instance_loop_returns [OF q(1,2) ch q(3)] by blast
    show ?thesis
      using inst c1(1) p(1) sl cv y
      by (auto simp add: MPIR_Err_get_string_def ErrGetInstanceString_def split: sum.splits prod.splits)
  qed
  then obtain r where r: "MPIR_Err_get_string cfg tabs cv proc c m pos len st = Some r" by blast
  have h: "\<not> MPIR_CVAR_PRINT_ERROR_STACK cv \<or> c AND ERROR_DYN_MASK cfg \<noteq> 0 \<or>
         c AND ERROR_CLASS_MASK cfg = c \<or> len = 0"
    using assms(4) by blast
  show ?thesis
  proof (cases "len = 0")
    case True
    then show ?thesis by (simp add: MPIR_Err_get_string_def)
  next
    case False
    then have "\<not> MPIR_CVAR_PRINT_ERROR_STACK cv \<or> c AND ERROR_DYN_MASK cfg \<noteq> 0 \<or>
         c AND ERROR_CLASS_MASK cfg = c" using h by blast
    from MPIR_Err_get_string_safe [OF assms(1-3) this r] show ?thesis using r by auto
  qed
qed

lemma vsnprintf_mpi_safe:
  assumes "str + maxlen < length m" "m ! (str + maxlen) = NUL"
  shows "vsnprintf_mpi env m str maxlen fmt args \<noteq> Inl Out_of_bounds"
    and "vsnprintf_mpi env m str maxlen fmt args = Inr m' \<Longrightarrow>
         same_outside m m' str (str + maxlen) \<and> length (cstr m' str) \<le> maxlen"
proof -
  note s = vsnprintf_loop_safe [OF order_refl refl assms, of env fmt args]
  show "vsnprintf_mpi env m str maxlen fmt args \<noteq> Inl Out_of_bounds"
    using s by (simp add: vsnprintf_mpi_def)
  assume "vsnprintf_mpi env m str maxlen fmt args = Inr m'"
  then have so: "same_outside m m' str (str + maxlen)" using s by (simp add: vsnprintf_mpi_def)
  have "m' ! (str + maxlen) = NUL" "str + maxlen < length m'"
    using same_outside_nth [OF so order_refl assms(1)] assms so by (simp_all add: same_outside_def)
  then have "length (cstr m' str) \<le> maxlen"
    using cstr_le_NUL(1) [of str "str + maxlen" m'] by simp
  then show "same_outside m m' str (str + maxlen) \<and> length (cstr m' str) \<le> maxlen"
    using so by simp
qed

lemma dir_d: "directive sample_renv CHR ''d'' [VInt 5, VInt 0x58000003] = Emit By_snprintf ''5'' [VInt 0x58000003]"
  by (simp add: directive_def with_int_def va_int_def fmt_d_def dec_nat.simps digit_char_def word_sless_alt)

lemma dir_O: "directive sample_renv CHR ''O'' [VInt 0x58000003] = Emit By_snprintf ''MPI_SUM'' []"
  by (simp add: directive_def with_int_def va_int_def GetMPIOpString_def sample_renv_def sample_ops_def)

lemmas render_defs = vsnprintf_mpi_def vsnprintf_loop.simps vsnprintf_turn_def write_text_def
  c_snprintf_def MPL_strncpy_def poke_def c_strlen_def size_sub_def NUL_def

lemma render_full:
  "vsnprintf_mpi sample_renv (replicate 20 CHR ''x'' @ [NUL]) 0 20 ''count=%d, op=%O''
     [VInt 5, VInt 0x58000003] = Inr (''count=5, op=MPI_SUM'' @ [NUL, NUL])"
  by (simp add: render_defs dir_d dir_O eval_nat_numeral)

lemma render_ten:
  "vsnprintf_mpi sample_renv (replicate 10 CHR ''x'' @ [NUL]) 0 10 ''count=%d, op=%O''
     [VInt 5, VInt 0x58000003] = Inr (''count=5, o'' @ [NUL])"
  by (simp add: render_defs dir_d dir_O eval_nat_numeral)

lemma render_ten_exact:
  "vsnprintf_mpi sample_renv (replicate 10 CHR ''x'') 0 10 ''count=%d, op=%O''
     [VInt 5, VInt 0x58000003] = Inl Out_of_bounds"
  by (simp add: render_defs dir_d dir_O eval_nat_numeral)

lemma class_msg_other: "get_class_msg mpich_layout sample_tables (ERROR_GET_CLASS mpich_layout 0x3008020F) = ''Other MPI error''"
  by (simp add: get_class_msg_def is_valid_error_class_def ERROR_GET_CLASS_def mpich_layout_def
      sample_tables_def mk_msg_def word_sle_eq word_sless_alt)

lemma get_string_two:
  "MPIR_Err_get_string mpich_layout sample_tables compact_cvars (proc_with None None) 0x3008020F
     (replicate 40 CHR ''x'') 0 40 ring_two =
   Some (Inr (''Other MPI error, first'' @ [NUL, NUL] @ replicate 15 CHR ''x'' @ [NUL], ring_two))"
proof -
  have c1: "strncpy_i (replicate 40 CHR ''x'') 0 ''Other MPI error'' 40 =
      Inr (''Other MPI error'' @ [NUL] @ replicate 24 CHR ''x'', 0)"
    by (simp add: strncpy_i_def size_of_int_def MPL_strncpy_def poke_def eval_nat_numeral)
  have p0: "poke_i (''Other MPI error'' @ [NUL] @ replicate 24 CHR ''x'') (0 + 40 - 1) [NUL] =
      Inr (''Other MPI error'' @ [NUL] @ replicate 23 CHR ''x'' @ [NUL])"
    by (simp add: poke_i_def poke_def eval_nat_numeral)
  have sl: "strlen_i (''Other MPI error'' @ [NUL] @ replicate 23 CHR ''x'' @ [NUL]) 0 = Inr 15"
    by (simp add: strlen_i_def c_strlen_def NUL_def)
  have s1: "snprintf_i (''Other MPI error'' @ [NUL] @ replicate 23 CHR ''x'' @ [NUL]) 15 25
        ('', '' @ msg (ring_entry mpich_layout ring_two 0x3008020F)) =
      Inr (''Other MPI error, second'' @ [NUL] @ replicate 15 CHR ''x'' @ [NUL])"
    by (simp add: snprintf_i_def size_of_int_def c_snprintf_def poke_def ring_entry_def two_links ring_msgs
        eval_nat_numeral)
  have p1: "poke_i (''Other MPI error, second'' @ [NUL] @ replicate 15 CHR ''x'' @ [NUL]) (15 + 25 - 1) [NUL] =
      Inr (''Other MPI error, second'' @ [NUL] @ replicate 15 CHR ''x'' @ [NUL])"
    by (simp add: poke_i_def poke_def eval_nat_numeral)
  have s2: "snprintf_i (''Other MPI error, second'' @ [NUL] @ replicate 15 CHR ''x'' @ [NUL]) 15 25
       ('', '' @ msg (ring_entry mpich_layout ring_two 0x2000010F)) =
      Inr (''Other MPI error, first'' @ [NUL, NUL] @ replicate 15 CHR ''x'' @ [NUL])"
    by (simp add: snprintf_i_def size_of_int_def c_snprintf_def poke_def ring_entry_def stale_links(2) ring_msgs
        eval_nat_numeral)
  have p2: "poke_i (''Other MPI error, first'' @ [NUL, NUL] @ replicate 15 CHR ''x'' @ [NUL]) (15 + 25 - 1) [NUL] =
      Inr (''Other MPI error, first'' @ [NUL, NUL] @ replicate 15 CHR ''x'' @ [NUL])"
    by (simp add: poke_i_def poke_def eval_nat_numeral)
  have pr: "prev_error (ring_entry mpich_layout ring_two 0x3008020F) = 0x2000010F"
    "prev_error (ring_entry mpich_layout ring_two 0x2000010F) = MPI_SUCCESS"
    by (simp_all add: ring_entry_def two_links stale_links(2) MPI_SUCCESS_def)
  have lp: "instance_loop mpich_layout 15 25 0x3008020F
       (''Other MPI error'' @ [NUL] @ replicate 23 CHR ''x'' @ [NUL]) ring_two =
      Some (Inr (MPI_SUCCESS, ''Other MPI error, first'' @ [NUL, NUL] @ replicate 15 CHR ''x'' @ [NUL], ring_two))"
    using instance_loop_step [OF two_links(1) s1 p1] instance_loop_step [OF two_links(3) s2 p2]
    by (simp add: pr instance_loop_success)
  have m: "(0x3008020F :: cint) AND ERROR_DYN_MASK mpich_layout = 0"
    "(0x3008020F :: cint) AND ERROR_CLASS_MASK mpich_layout \<noteq> 0x3008020F"
    by (simp_all add: mpich_layout_def)
  show ?thesis
    using c1 p0 sl lp
    by (simp add: MPIR_Err_get_string_def ErrGetInstanceString_def compact_cvars_def m class_msg_other)
qed

lemma poke_fault: "poke m p bs = Inl f \<Longrightarrow> f = Out_of_bounds"
  by (simp add: poke_def split: if_splits)

lemma MPL_strncpy_fault: "MPL_strncpy m d s n = Inl f \<Longrightarrow> f = Out_of_bounds"
  by (auto simp add: MPL_strncpy_def dest: poke_fault split: if_splits sum.splits)

lemma write_text_fault: "write_text w m p tx n = Inl f \<Longrightarrow> f = Out_of_bounds"
  by (cases w) (auto simp add: write_text_def c_snprintf_def dest: poke_fault MPL_strncpy_fault
      split: if_splits sum.splits)

lemma c_strlen_fault: "c_strlen m p = Inl f \<Longrightarrow> f = Out_of_bounds"
  by (simp add: c_strlen_def split: if_splits)

lemma vsnprintf_turn_bad:
  "vsnprintf_turn env m str maxlen lit rest args = Inl Bad_va_arg \<Longrightarrow>
   \<exists>d b. rest = d # b \<and> directive env d args = Bad_arg"
  by (auto simp add: vsnprintf_turn_def Let_def
      dest: poke_fault write_text_fault c_strlen_fault
      split: sum.splits list.splits directive_result.splits if_splits)

lemma vsnprintf_turn_continue:
  "vsnprintf_turn env m str maxlen lit rest args = Inr (Continue m' str' maxlen' begin' args') \<Longrightarrow>
   \<exists>d w tx. rest = d # begin' \<and> directive env d args = Emit w tx args'"
  by (auto simp add: vsnprintf_turn_def Let_def
      split: sum.splits list.splits directive_result.splits if_splits)

lemma vsnprintf_loop_fit:
  "args_fit env begin args \<Longrightarrow> vsnprintf_loop env m str maxlen begin args \<noteq> Inl Bad_va_arg"
proof (induction env m str maxlen "begin" args rule: vsnprintf_loop.induct)
  case (1 env m str maxlen fmt args)
  show ?case
  proof (cases "strchr_percent fmt")
    case None
    have "vsnprintf_loop env m str maxlen fmt args =
        (if fmt \<noteq> [] then
           (case MPL_strncpy m str fmt maxlen of Inl f \<Rightarrow> Inl f | Inr r \<Rightarrow> Inr (fst r))
         else Inr m)"
      using None by (subst vsnprintf_loop.simps) simp
    then show ?thesis
      by (auto dest: MPL_strncpy_fault split: sum.splits)
  next
    case (Some p)
    obtain lit rest where p: "p = (lit, rest)" by (cases p)
    show ?thesis
    proof (cases "vsnprintf_turn env m str maxlen lit rest args")
      case (Inl f)
      have eq: "vsnprintf_loop env m str maxlen fmt args = Inl f"
        using Some p Inl by (subst vsnprintf_loop.simps) simp
      have "f \<noteq> Bad_va_arg"
      proof
        assume "f = Bad_va_arg"
        then obtain d b where "rest = d # b" "directive env d args = Bad_arg"
          using vsnprintf_turn_bad Inl by blast
        then have "\<not> args_fit env fmt args"
          using Some p by (subst args_fit.simps) simp
        then show False using "1.prems" by simp
      qed
      then show ?thesis using eq by simp
    next
      case (Inr t)
      show ?thesis
      proof (cases t)
        case (Done m')
        have "vsnprintf_loop env m str maxlen fmt args = Inr m'"
          using Some p Inr Done by (subst vsnprintf_loop.simps) simp
        then show ?thesis by simp
      next
        case (Continue m' str' maxlen' begin' args')
        obtain d w tx where d: "rest = d # begin'" "directive env d args = Emit w tx args'"
          using vsnprintf_turn_continue Inr Continue by blast
        have "args_fit env fmt args = args_fit env begin' args'"
          using Some p d by (subst args_fit.simps) simp
        then have fit: "args_fit env begin' args'" using "1.prems" by simp
        have eq: "vsnprintf_loop env m str maxlen fmt args =
                  vsnprintf_loop env m' str' maxlen' begin' args'"
          using Some p Inr Continue by (subst vsnprintf_loop.simps) simp
        show ?thesis
          using "1.IH" [OF Some p [symmetric] Inr Continue fit] eq by simp
      qed
    qed
  qed
qed

lemma vsnprintf_mpi_returns:
  assumes "str + maxlen < length m" "m ! (str + maxlen) = NUL" "args_fit env fmt args"
  shows "\<exists>m'. vsnprintf_mpi env m str maxlen fmt args = Inr m'"
proof (cases "vsnprintf_mpi env m str maxlen fmt args")
  case (Inl f)
  then have "f \<noteq> Out_of_bounds" "f \<noteq> Bad_va_arg"
    using vsnprintf_mpi_safe(1) [OF assms(1,2), of env fmt args] vsnprintf_loop_fit [OF assms(3), of m str maxlen]
    by (auto simp add: vsnprintf_mpi_def)
  then show ?thesis by (cases f) simp_all
next
  case (Inr m')
  then show ?thesis by simp
qed

lemma fit_example: "args_fit sample_renv ''count=%d, op=%O'' [VInt 5, VInt 0x58000003]"
  by (simp add: args_fit.simps dir_d dir_O)

lemma render_ten_unterminated: "NUL \<notin> set (take 10 (''count=5, o'' @ [NUL]))"
  by (simp add: NUL_def)

text \<open>
  C8, as the code has it. \<^verbatim>\<open>vsnprintf_mpi\<close>, given a buffer whose byte after the bound
  (\<open>str + maxlen\<close>) is readable and NUL, reads and writes nothing out of the buffer,
  changes only the bytes \<open>str\<close> to \<open>str + maxlen - 1\<close>, and leaves a string of at most
  \<open>maxlen\<close> characters: its NUL is within the bound or is the byte right after it;
  when the arguments fit the directives of the format it returns such a buffer.
  \<^verbatim>\<open>MPIR_Err_get_string\<close>, given \<open>len\<close> bytes of room, returns without a fault, changes
  bytes of the room only (none when \<open>len\<close> is 0) and leaves a string shorter than \<open>len\<close>,
  so its NUL is within the bound, in each of these cases: \<open>len\<close> is 0; the code is
  dynamic; the code is a bare class; \<^verbatim>\<open>MPIR_CVAR_PRINT_ERROR_STACK\<close> is off and the chain
  of the code ends, at success or at an invalid or stale link.
\<close>

theorem rendering_within_bound:
  "(str + maxlen < length m \<and> m ! (str + maxlen) = NUL \<longrightarrow>
      vsnprintf_mpi env m str maxlen fmt args \<noteq> Inl Out_of_bounds \<and>
      (\<forall>m'. vsnprintf_mpi env m str maxlen fmt args = Inr m' \<longrightarrow>
         same_outside m m' str (str + maxlen) \<and> length (cstr m' str) \<le> maxlen) \<and>
      (args_fit env fmt args \<longrightarrow> (\<exists>m'. vsnprintf_mpi env m str maxlen fmt args = Inr m'))) \<and>
   (0 \<le> pos \<and> 0 \<le> len \<and> nat pos + nat len \<le> length mm \<and>
    (len = 0 \<or> c AND ERROR_DYN_MASK cfg \<noteq> 0 \<or> c AND ERROR_CLASS_MASK cfg = c \<or>
     \<not> MPIR_CVAR_PRINT_ERROR_STACK cv \<and>
     (chain_to_success cfg st c js \<or> chain_to_stale cfg st c js)) \<longrightarrow>
      (\<exists>m' st'. MPIR_Err_get_string cfg tabs cv proc c mm pos len st = Some (Inr (m', st')) \<and>
         same_outside mm m' (nat pos) (nat pos + nat len) \<and>
         (0 < len \<longrightarrow> length (cstr m' (nat pos)) < nat len) \<and> (len = 0 \<longrightarrow> m' = mm)))"
proof (intro conjI impI allI)
  assume a: "str + maxlen < length m \<and> m ! (str + maxlen) = NUL"
  show "vsnprintf_mpi env m str maxlen fmt args \<noteq> Inl Out_of_bounds"
    using vsnprintf_mpi_safe(1) a by blast
  fix m' assume "vsnprintf_mpi env m str maxlen fmt args = Inr m'"
  then show "same_outside m m' str (str + maxlen)" "length (cstr m' str) \<le> maxlen"
    using vsnprintf_mpi_safe(2) a by blast+
next
  assume a: "str + maxlen < length m \<and> m ! (str + maxlen) = NUL"
    and fit: "args_fit env fmt args"
  show "\<exists>m'. vsnprintf_mpi env m str maxlen fmt args = Inr m'"
    using vsnprintf_mpi_returns [OF _ _ fit] a by blast
next
  assume a: "0 \<le> pos \<and> 0 \<le> len \<and> nat pos + nat len \<le> length mm \<and>
    (len = 0 \<or> c AND ERROR_DYN_MASK cfg \<noteq> 0 \<or> c AND ERROR_CLASS_MASK cfg = c \<or>
     \<not> MPIR_CVAR_PRINT_ERROR_STACK cv \<and>
     (chain_to_success cfg st c js \<or> chain_to_stale cfg st c js))"
  then have b: "0 \<le> pos" "0 \<le> len" "nat pos + nat len \<le> length mm"
    and ch: "len = 0 \<or> c AND ERROR_DYN_MASK cfg \<noteq> 0 \<or> c AND ERROR_CLASS_MASK cfg = c \<or>
     \<not> MPIR_CVAR_PRINT_ERROR_STACK cv \<and>
     (chain_to_success cfg st c js \<or> chain_to_stale cfg st c js)"
    by simp_all
  show "\<exists>m' st'. MPIR_Err_get_string cfg tabs cv proc c mm pos len st = Some (Inr (m', st')) \<and>
         same_outside mm m' (nat pos) (nat pos + nat len) \<and>
         (0 < len \<longrightarrow> length (cstr m' (nat pos)) < nat len) \<and> (len = 0 \<longrightarrow> m' = mm)"
    by (rule MPIR_Err_get_string_total [OF b ch])
qed

theorem rendering_within_bound_witness:
  "args_fit sample_renv ''count=%d, op=%O'' [VInt 5, VInt 0x58000003] \<and>
   vsnprintf_mpi sample_renv (replicate 20 CHR ''x'' @ [NUL]) 0 20 ''count=%d, op=%O''
     [VInt 5, VInt 0x58000003] = Inr (''count=5, op=MPI_SUM'' @ [NUL, NUL]) \<and>
   same_outside (replicate 20 CHR ''x'' @ [NUL]) (''count=5, op=MPI_SUM'' @ [NUL, NUL]) 0 20 \<and>
   length (cstr (''count=5, op=MPI_SUM'' @ [NUL, NUL]) 0) \<le> 20 \<and>
   chain_to_success mpich_layout ring_two 0x3008020F [Suc 0, 0] \<and>
   MPIR_Err_get_string mpich_layout sample_tables compact_cvars (proc_with None None) 0x3008020F
     (replicate 40 CHR ''x'') 0 40 ring_two =
   Some (Inr (''Other MPI error, first'' @ [NUL, NUL] @ replicate 15 CHR ''x'' @ [NUL], ring_two)) \<and>
   same_outside (replicate 40 CHR ''x'')
     (''Other MPI error, first'' @ [NUL, NUL] @ replicate 15 CHR ''x'' @ [NUL]) 0 40 \<and>
   length (cstr (''Other MPI error, first'' @ [NUL, NUL] @ replicate 15 CHR ''x'' @ [NUL]) 0) < 40 \<and>
   chain_to_stale mpich_layout ring_stale 0x2000010F [0] \<and>
   (\<exists>m' st'. MPIR_Err_get_string mpich_layout sample_tables compact_cvars (proc_with None None)
        0x2000010F (replicate 12 CHR ''x'') 0 12 ring_stale = Some (Inr (m', st')) \<and>
      same_outside (replicate 12 CHR ''x'') m' 0 12 \<and> length (cstr m' 0) < 12) \<and>
   (\<exists>m' st'. MPIR_Err_get_string mpich_layout sample_tables full_cvars (proc_with None None) 6
        (replicate 8 CHR ''x'') 0 8 errstate0 = Some (Inr (m', st')) \<and>
      same_outside (replicate 8 CHR ''x'') m' 0 8 \<and> length (cstr m' 0) < 8)"
proof -
  have a: "0 + 20 < length (replicate 20 CHR ''x'' @ [NUL]) \<and> (replicate 20 CHR ''x'' @ [NUL]) ! (0 + 20) = NUL"
    by (simp add: nth_append)
  have b: "(0::int) \<le> 0 \<and> (0::int) \<le> 40 \<and> nat 0 + nat 40 \<le> length (replicate 40 CHR ''x'') \<and>
      ((40::int) = 0 \<or> (0x3008020F :: cint) AND ERROR_DYN_MASK mpich_layout \<noteq> 0 \<or>
       (0x3008020F :: cint) AND ERROR_CLASS_MASK mpich_layout = 0x3008020F \<or>
       \<not> MPIR_CVAR_PRINT_ERROR_STACK compact_cvars \<and>
       (chain_to_success mpich_layout ring_two 0x3008020F [Suc 0, 0] \<or>
        chain_to_stale mpich_layout ring_two 0x3008020F [Suc 0, 0]))"
    using chain_two by (simp add: compact_cvars_def)
  have c: "(0::int) \<le> 0 \<and> (0::int) \<le> 12 \<and> nat 0 + nat 12 \<le> length (replicate 12 CHR ''x'') \<and>
      ((12::int) = 0 \<or> (0x2000010F :: cint) AND ERROR_DYN_MASK mpich_layout \<noteq> 0 \<or>
       (0x2000010F :: cint) AND ERROR_CLASS_MASK mpich_layout = 0x2000010F \<or>
       \<not> MPIR_CVAR_PRINT_ERROR_STACK compact_cvars \<and>
       (chain_to_success mpich_layout ring_stale 0x2000010F [0] \<or>
        chain_to_stale mpich_layout ring_stale 0x2000010F [0]))"
    using chain_stale by (simp add: compact_cvars_def)
  have d: "(0::int) \<le> 0 \<and> (0::int) \<le> 8 \<and> nat 0 + nat 8 \<le> length (replicate 8 CHR ''x'') \<and>
      ((8::int) = 0 \<or> (6 :: cint) AND ERROR_DYN_MASK mpich_layout \<noteq> 0 \<or>
       (6 :: cint) AND ERROR_CLASS_MASK mpich_layout = 6 \<or>
       \<not> MPIR_CVAR_PRINT_ERROR_STACK full_cvars \<and>
       (chain_to_success mpich_layout errstate0 6 [] \<or> chain_to_stale mpich_layout errstate0 6 []))"
    by (simp add: mpich_layout_def)
  show ?thesis
    using rendering_within_bound [of 0 20 "replicate 20 CHR ''x'' @ [NUL]" sample_renv
        "''count=%d, op=%O''" "[VInt 5, VInt 0x58000003]" 0 40 "replicate 40 CHR ''x''"
        "0x3008020F" mpich_layout compact_cvars ring_two "[Suc 0, 0]" sample_tables "proc_with None None"]
      rendering_within_bound [of 0 0 "[NUL]" sample_renv "[]" "[]" 0 12 "replicate 12 CHR ''x''"
        "0x2000010F" mpich_layout compact_cvars ring_stale "[0]" sample_tables "proc_with None None"]
      rendering_within_bound [of 0 0 "[NUL]" sample_renv "[]" "[]" 0 8 "replicate 8 CHR ''x''"
        6 mpich_layout full_cvars errstate0 "[]" sample_tables "proc_with None None"]
      a b c d render_full get_string_two chain_two chain_stale fit_example
    by simp
qed

text \<open>
  The claim as worded has \<^verbatim>\<open>vsnprintf_mpi\<close> leave a NUL within the bound. With the format
  \<^verbatim>\<open>count=%d, op=%O\<close> and a bound of 10 the literal text fills the ten bytes with
  \<^verbatim>\<open>count=5, o\<close> and no NUL is written; \<^verbatim>\<open>strlen\<close> is then called on the byte after the
  bound, which is a read out of a buffer of exactly ten bytes.
\<close>

theorem vsnprintf_mpi_unterminated_counterexample:
  "vsnprintf_mpi sample_renv (replicate 10 CHR ''x'' @ [NUL]) 0 10 ''count=%d, op=%O''
     [VInt 5, VInt 0x58000003] = Inr (''count=5, o'' @ [NUL]) \<and>
   NUL \<notin> set (take 10 (''count=5, o'' @ [NUL])) \<and>
   vsnprintf_mpi sample_renv (replicate 10 CHR ''x'') 0 10 ''count=%d, op=%O''
     [VInt 5, VInt 0x58000003] = Inl Out_of_bounds"
  using render_ten render_ten_unterminated render_ten_exact by simp

text \<open>
  With \<^verbatim>\<open>MPIR_CVAR_PRINT_ERROR_STACK\<close> on, the theorem above says nothing about a code
  with a ring entry. \<^verbatim>\<open>MPIR_Err_print_stack_string\<close> writes the location, the dots and the
  colon as far as the room goes and then calls \<^verbatim>\<open>strlen\<close> at the write position, also when
  no room is left. In a buffer of exactly 40 bytes the class message and the heading
  take 30 bytes, the location \<^verbatim>\<open>outer(20)\<close> and the colon take the other 10, and
  \<^verbatim>\<open>strlen\<close> reads the byte after the buffer.
\<close>

lemma full_stack_reads_past_room:
  "map_option (map_sum id fst)
     (MPIR_Err_get_string mpich_layout sample_tables full_cvars (proc_with None None) 0x3008020F
        (replicate 40 CHR ''x'') 0 40 ring_two) = Some (Inl Out_of_bounds)"
  by code_simp

text \<open>
  With \<^verbatim>\<open>MPIR_CVAR_PRINT_ERROR_STACK\<close> off, the theorem asks that the chain of the code
  ends. The loop of \<^verbatim>\<open>ErrGetInstanceString\<close> has no bound of its own: on an entry whose
  previous code is the code of the entry itself it writes the same fragment again and
  again and does not return. Such a ring is made by combining a code with itself:
  \<^verbatim>\<open>MPIR_Err_combine_codes\<close> writes the second code into the last entry of the chain of
  the first.
\<close>

lemma instance_loop_self_link:
  assumes ok: "link_ok cfg st c" and self: "prev_error (ring_entry cfg st c) = c"
    and b: "0 \<le> pos" "1 \<le> n" "nat pos + nat n \<le> length m"
  shows "instance_loop cfg pos n c m st = None"
proof (rule ccontr)
  assume "instance_loop cfg pos n c m st \<noteq> None"
  then obtain y where y: "instance_loop cfg pos n c m st = Some y" by blast
  have "cfg = cfg \<and> c = c \<and> st = st \<and> 0 \<le> pos \<and> 1 \<le> n \<and> nat pos + nat n \<le> length m \<longrightarrow> False"
  proof (rule instance_loop.raw_induct [where P = "\<lambda>cfg' pos' n' c' m' st' y.
      cfg' = cfg \<and> c' = c \<and> st' = st \<and> 0 \<le> pos' \<and> 1 \<le> n' \<and> nat pos' + nat n' \<le> length m' \<longrightarrow> False",
      OF _ y])
    fix loop :: "errcodes \<Rightarrow> int \<Rightarrow> int \<Rightarrow> cint \<Rightarrow> mem \<Rightarrow> errstate \<Rightarrow> (fault + cint \<times> mem \<times> errstate) option"
    fix cfg' pos' n' c' m' st' y'
    assume IH: "\<And>cfg' pos' n' c' m' st' y. loop cfg' pos' n' c' m' st' = Some y \<Longrightarrow>
      cfg' = cfg \<and> c' = c \<and> st' = st \<and> 0 \<le> pos' \<and> 1 \<le> n' \<and> nat pos' + nat n' \<le> length m' \<longrightarrow> False"
    assume body: "(if c' = MPI_SUCCESS then Some (Inr (c', m', st'))
      else if convertErrcodeToIndexes cfg' st' c' \<noteq> 0
      then Some (Inr (c', m', MPL_error_printf (invalid_code_msg cfg' c' (ring_idx_of cfg' c')) st'))
      else if generic_idx_of cfg' c' <s 0 then Some (Inr (c', m', st'))
      else if entry_id (ring_entry cfg' st' c') = ring_id_of cfg' c'
      then case snprintf_i m' pos' n' ('', '' @ msg (ring_entry cfg' st' c')) of
             Inl f \<Rightarrow> Some (Inl f)
           | Inr m1 \<Rightarrow>
               (case poke_i m1 (pos' + n' - 1) [NUL] of
                  Inl f \<Rightarrow> Some (Inl f)
                | Inr m2 \<Rightarrow> loop cfg' pos' n' (prev_error (ring_entry cfg' st' c')) m2 st')
      else Some (Inr (c', m', st'))) = Some y'"
    show "cfg' = cfg \<and> c' = c \<and> st' = st \<and> 0 \<le> pos' \<and> 1 \<le> n' \<and> nat pos' + nat n' \<le> length m' \<longrightarrow> False"
    proof
      assume a: "cfg' = cfg \<and> c' = c \<and> st' = st \<and> 0 \<le> pos' \<and> 1 \<le> n' \<and> nat pos' + nat n' \<le> length m'"
      then have p: "0 \<le> pos'" "1 \<le> n'" "nat pos' + nat n' \<le> length m'" by simp_all
      obtain m1 where m1: "snprintf_i m' pos' n' ('', '' @ msg (ring_entry cfg st c)) = Inr m1"
        and so1: "same_outside m' m1 (nat pos') (nat pos' + nat n')"
        using snprintf_i_safe [OF p(1) _ p(3), of "'', '' @ msg (ring_entry cfg st c)"] p(2)
        by auto
      have l1: "nat pos' + nat n' \<le> length m1"
        using so1 p(3) by (simp add: same_outside_def)
      obtain m2 where m2: "poke_i m1 (pos' + n' - 1) [NUL] = Inr m2"
        and so2: "same_outside m1 m2 (nat pos') (nat pos' + nat n')"
        using poke_last_NUL [OF p(1,2) l1] by blast
      have l2: "nat pos' + nat n' \<le> length m2"
        using so2 l1 by (simp add: same_outside_def)
      have "loop cfg pos' n' c m2 st = Some y'"
        using body a m1 m2 ok self link_ok_not_success [OF ok] by (simp add: link_ok_def)
      from IH [OF this] p(1,2) l2 show False by simp
    qed
  qed
  then show False using b by simp
qed

lemma self_link:
  "link_ok mpich_layout ring_self 0x2800018C"
  "prev_error (ring_entry mpich_layout ring_self 0x2800018C) = 0x2800018C"
  by (simp_all add: decode_defs mpich_layout_def ring_self_def ring_after_arg_def set_prev_error_def)

lemma combine_self:
  "MPIR_Err_combine_codes mpich_layout 0x2800018C 0x2800018C ring_after_arg = Some (0x2800018C, ring_self)"
  by (subst MPIR_Err_combine_codes_def, subst CombineSpecificCodes_def, subst CombineSpecificCodes_loop.simps)
    (simp add: decode_defs mpich_layout_def ring_self_def ring_after_arg_def MPI_SUCCESS_def
      ERROR_GET_CLASS_def combine_class_def)

lemma compact_walk_self_link:
  "MPIR_Err_get_string mpich_layout sample_tables compact_cvars (proc_with None None) 0x2800018C
     (replicate 40 CHR ''x'') 0 40 ring_self = None"
proof -
  have cm: "get_class_msg mpich_layout sample_tables (ERROR_GET_CLASS mpich_layout 0x2800018C) = ''Invalid argument''"
    by (simp add: get_class_msg_def is_valid_error_class_def ERROR_GET_CLASS_def mpich_layout_def
      sample_tables_def mk_msg_def word_sle_eq word_sless_alt)
  have c1: "strncpy_i (replicate 40 CHR ''x'') 0 ''Invalid argument'' 40 =
      Inr (''Invalid argument'' @ [NUL] @ replicate 23 CHR ''x'', 0)"
    by (simp add: strncpy_i_def size_of_int_def MPL_strncpy_def poke_def eval_nat_numeral)
  have p0: "poke_i (''Invalid argument'' @ [NUL] @ replicate 23 CHR ''x'') (0 + 40 - 1) [NUL] =
      Inr (''Invalid argument'' @ [NUL] @ replicate 22 CHR ''x'' @ [NUL])"
    by (simp add: poke_i_def poke_def eval_nat_numeral)
  have sl: "strlen_i (''Invalid argument'' @ [NUL] @ replicate 22 CHR ''x'' @ [NUL]) 0 = Inr 16"
    by (simp add: strlen_i_def c_strlen_def NUL_def)
  have lp: "instance_loop mpich_layout 16 24 0x2800018C
       (''Invalid argument'' @ [NUL] @ replicate 22 CHR ''x'' @ [NUL]) ring_self = None"
    by (rule instance_loop_self_link [OF self_link]) simp_all
  have m: "(0x2800018C :: cint) AND ERROR_DYN_MASK mpich_layout = 0"
    "(0x2800018C :: cint) AND ERROR_CLASS_MASK mpich_layout \<noteq> 0x2800018C"
    by (simp_all add: mpich_layout_def)
  show ?thesis
    using c1 p0 sl lp
    by (simp add: MPIR_Err_get_string_def ErrGetInstanceString_def compact_cvars_def m cm)
qed

end
